theory Spec2Isabelle
  imports Main "HOL-Library.Multiset" "HOL-Library.Word"
begin

section \<open>The slave (node agent) of src/slave/slave.cpp\<close>

text \<open>
  The slave is one libprocess actor: every message, timer and isolation-module callback is
  handled to completion before the next one is taken. A handler is modelled as a function
  from the slave's state to the new state and the list of effects it emitted, in program
  order. A failed \<open>CHECK\<close> or a \<open>LOG(FATAL)\<close> aborts the process: the handler returns
  \<open>Inl\<close>.
\<close>

subsection \<open>Identifiers and protobuf messages\<close>

text \<open>
  \<open>FrameworkID\<close>, \<open>ExecutorID\<close>, \<open>TaskID\<close> and \<open>SlaveID\<close> wrap one string
  (\<open>value()\<close>). A \<open>UPID\<close> is an endpoint address; the default-constructed \<open>UPID()\<close>,
  for which \<open>operator !\<close> holds, is the empty string here.
\<close>

type_synonym FrameworkID = string
type_synonym ExecutorID = string
type_synonym TaskID = string
type_synonym SlaveID = string
type_synonym UPID = string

datatype TaskState =
  TASK_STARTING | TASK_RUNNING | TASK_FINISHED | TASK_FAILED | TASK_KILLED | TASK_LOST

datatype error = CheckFailed | Fatal

record ExecutorInfo =
  ei_executor_id :: ExecutorID
  ei_uri :: string
  ei_data :: string

record FrameworkInfo =
  fi_name :: string
  fi_user :: string
  fi_executor :: ExecutorInfo

text \<open>
  The resource bundle (class \<open>Resources\<close>, common/resources.hpp) is not part of the
  source file. It is the type parameter \<open>'r\<close>: \<open>+=\<close> is \<open>+\<close>, \<open>-=\<close> is \<open>-\<close>,
  the default-constructed bundle is \<open>0\<close>. The handlers are embedded for every type that
  has these three; a theorem that needs more of the bundle says so in the sort of \<open>'r\<close>.
\<close>

record 'r TaskDescription =
  td_name :: string
  td_task_id :: TaskID
  td_slave_id :: SlaveID
  td_resources :: 'r
  td_executor :: "ExecutorInfo option"
  td_data :: string

record 'r Task =
  t_name :: string
  t_task_id :: TaskID
  t_framework_id :: FrameworkID
  t_executor_id :: ExecutorID
  t_slave_id :: SlaveID
  t_state :: TaskState
  t_resources :: 'r

record TaskStatus =
  ts_task_id :: TaskID
  ts_state :: TaskState
  ts_data :: string

text \<open>The timestamp is a clock reading (\<open>elapsedTime()\<close>); only its identity matters.\<close>

record StatusUpdate =
  su_framework_id :: FrameworkID
  su_executor_id :: "ExecutorID option"
  su_slave_id :: SlaveID
  su_status :: TaskStatus
  su_timestamp :: int
  su_sequence :: int

record 'r SlaveInfo =
  si_hostname :: string
  si_public_hostname :: string
  si_resources :: 'r

record ExecutorArgs =
  ea_framework_id :: FrameworkID
  ea_executor_id :: ExecutorID
  ea_slave_id :: SlaveID
  ea_hostname :: string
  ea_data :: string

text \<open>Outbound messages.\<close>

datatype 'r Message =
    RegisterSlaveMessage "'r SlaveInfo"
  | ReregisterSlaveMessage SlaveID "'r SlaveInfo" "'r Task list"
  | StatusUpdateMessage StatusUpdate bool
  | ExitedExecutorMessage SlaveID FrameworkID ExecutorID int
  | ExecutorToFrameworkMessage SlaveID FrameworkID ExecutorID string
  | ExecutorRegisteredMessage ExecutorArgs
  | RunTaskMessage FrameworkInfo FrameworkID UPID "'r TaskDescription"
  | KillTaskMessage FrameworkID TaskID
  | FrameworkToExecutorMessage SlaveID FrameworkID ExecutorID string
  | ShutdownMessage
  | PONG

text \<open>Calls dispatched to the isolation module.\<close>

datatype 'r IsolationCall =
    LaunchExecutor FrameworkID FrameworkInfo ExecutorInfo string
  | ResourcesChanged FrameworkID ExecutorID 'r
  | KillExecutor FrameworkID ExecutorID

text \<open>
  What a handler does to the outside, in program order: \<open>send\<close>, \<open>dispatch\<close> to the
  isolation module, \<open>delay\<close> of a \<open>statusUpdateTimeout\<close> to itself, \<open>link\<close>.
\<close>

datatype 'r Effect =
    Send UPID "'r Message"
  | Dispatch "'r IsolationCall"
  | Delay StatusUpdate
  | Link UPID

subsection \<open>hashmap\<close>

text \<open>
  \<open>hashmap<K, V>\<close> (common/hashmap.hpp, an unordered map) is not part of the source
  file. It is the list of its entries in iteration order, with distinct keys.
  \<open>foreachvalue\<close> walks \<open>hm_values\<close>. Where a new key lands in the iteration order is
  decided by the hash function and the bucket layout: that is the parameter \<open>place\<close>,
  which gives the position of the new entry from the key and the keys present.
  Assigning to a key that is present overwrites the value where it is.
\<close>

type_synonym ('k, 'v) hashmap = "('k \<times> 'v) list"

type_synonym placement = "string \<Rightarrow> string list \<Rightarrow> nat"

definition hm_keys :: "('k, 'v) hashmap \<Rightarrow> 'k list" where
  "hm_keys m = map fst m"

definition hm_values :: "('k, 'v) hashmap \<Rightarrow> 'v list" where
  "hm_values m = map snd m"

definition hm_get :: "('k, 'v) hashmap \<Rightarrow> 'k \<Rightarrow> 'v option" where
  "hm_get m k = map_of m k"

definition hm_contains :: "('k, 'v) hashmap \<Rightarrow> 'k \<Rightarrow> bool" where
  "hm_contains m k = (map_of m k \<noteq> None)"

definition hm_modify :: "'k \<Rightarrow> 'v \<Rightarrow> ('k, 'v) hashmap \<Rightarrow> ('k, 'v) hashmap" where
  "hm_modify k v m = map (\<lambda>kv. if fst kv = k then (k, v) else kv) m"

definition hm_put ::
  "('k \<Rightarrow> 'k list \<Rightarrow> nat) \<Rightarrow> 'k \<Rightarrow> 'v \<Rightarrow> ('k, 'v) hashmap \<Rightarrow> ('k, 'v) hashmap" where
  "hm_put place k v m =
     (if hm_contains m k then hm_modify k v m
      else take (place k (hm_keys m)) m @ (k, v) # drop (place k (hm_keys m)) m)"

definition hm_erase :: "'k \<Rightarrow> ('k, 'v) hashmap \<Rightarrow> ('k, 'v) hashmap" where
  "hm_erase k m = filter (\<lambda>kv. fst kv \<noteq> k) m"

subsection \<open>Executor, Framework, Slave\<close>

record 'r Executor =
  e_id :: ExecutorID
  e_info :: ExecutorInfo
  e_frameworkId :: FrameworkID
  e_directory :: string
  e_pid :: UPID
  e_resources :: 'r
  queuedTasks :: "(TaskID, 'r TaskDescription) hashmap"
  launchedTasks :: "(TaskID, 'r Task) hashmap"

record 'r Framework =
  f_id :: FrameworkID
  f_info :: FrameworkInfo
  f_pid :: UPID
  f_executors :: "(ExecutorID, 'r Executor) hashmap"
  f_updates :: "(TaskID, StatusUpdate) hashmap"

text \<open>
  \<open>stats.tasks\<close> is an array indexed by the task state (\<open>TASK_STARTING\<close> is
  \<open>TaskState_MIN\<close>, \<open>TASK_LOST\<close> is \<open>TaskState_MAX\<close>); the counters are 64-bit.
\<close>

record 'r Slave =
  s_id :: SlaveID
  s_info :: "'r SlaveInfo"
  s_master :: UPID
  s_resources :: 'r
  s_frameworks :: "(FrameworkID, 'r Framework) hashmap"
  stats_tasks :: "64 word list"
  stats_validStatusUpdates :: "64 word"
  stats_invalidStatusUpdates :: "64 word"
  stats_validFrameworkMessages :: "64 word"
  stats_invalidFrameworkMessages :: "64 word"

fun state_index :: "TaskState \<Rightarrow> nat" where
  "state_index TASK_STARTING = 0"
| "state_index TASK_RUNNING = 1"
| "state_index TASK_FINISHED = 2"
| "state_index TASK_FAILED = 3"
| "state_index TASK_KILLED = 4"
| "state_index TASK_LOST = 5"

definition bump_tasks :: "TaskState \<Rightarrow> 64 word list \<Rightarrow> 64 word list" where
  "bump_tasks st ts = ts[state_index st := ts ! state_index st + 1]"

text \<open>The state once the constructor, \<open>initialize()\<close> and the head of \<open>operator ()\<close> have run.\<close>

definition initial :: "string \<Rightarrow> string \<Rightarrow> 'r \<Rightarrow> 'r Slave" where
  "initial hostname public_hostname res =
     \<lparr> s_id = [],
       s_info = \<lparr> si_hostname = hostname, si_public_hostname = public_hostname,
                  si_resources = res \<rparr>,
       s_master = [],
       s_resources = res,
       s_frameworks = [],
       stats_tasks = [0, 0, 0, 0, 0, 0],
       stats_validStatusUpdates = 0,
       stats_invalidStatusUpdates = 0,
       stats_validFrameworkMessages = 0,
       stats_invalidFrameworkMessages = 0 \<rparr>"

subsection \<open>Executor methods\<close>

definition newExecutor :: "FrameworkID \<Rightarrow> ExecutorInfo \<Rightarrow> string \<Rightarrow> ('r::zero) Executor" where
  "newExecutor frameworkId info directory =
     \<lparr> e_id = ei_executor_id info, e_info = info, e_frameworkId = frameworkId,
       e_directory = directory, e_pid = [], e_resources = 0,
       queuedTasks = [], launchedTasks = [] \<rparr>"

definition addTask ::
  "placement \<Rightarrow> 'r TaskDescription \<Rightarrow> ('r::plus) Executor \<Rightarrow> error + 'r Executor" where
  "addTask place task e =
     (if hm_contains (launchedTasks e) (td_task_id task) then Inl CheckFailed
      else
        let t = \<lparr> t_name = td_name task, t_task_id = td_task_id task,
                  t_framework_id = e_frameworkId e, t_executor_id = e_id e,
                  t_slave_id = td_slave_id task, t_state = TASK_STARTING,
                  t_resources = td_resources task \<rparr>
        in Inr (e\<lparr> launchedTasks := hm_put place (td_task_id task) t (launchedTasks e),
                   e_resources := e_resources e + td_resources task \<rparr>))"

definition removeTask :: "TaskID \<Rightarrow> ('r::minus) Executor \<Rightarrow> 'r Executor" where
  "removeTask taskId e =
     (let e1 = e\<lparr> queuedTasks := hm_erase taskId (queuedTasks e) \<rparr>
      in case hm_get (launchedTasks e1) taskId of
           None \<Rightarrow> e1
         | Some task \<Rightarrow>
             e1\<lparr> e_resources := e_resources e1 - t_resources task,
                 launchedTasks := hm_erase taskId (launchedTasks e1) \<rparr>)"

definition updateTaskState :: "TaskID \<Rightarrow> TaskState \<Rightarrow> 'r Executor \<Rightarrow> 'r Executor" where
  "updateTaskState taskId st e =
     (case hm_get (launchedTasks e) taskId of
        None \<Rightarrow> e
      | Some task \<Rightarrow>
          e\<lparr> launchedTasks := hm_modify taskId (task\<lparr> t_state := st \<rparr>) (launchedTasks e) \<rparr>)"

subsection \<open>Framework methods\<close>

definition newFramework :: "FrameworkID \<Rightarrow> FrameworkInfo \<Rightarrow> UPID \<Rightarrow> 'r Framework" where
  "newFramework frameworkId info pid =
     \<lparr> f_id = frameworkId, f_info = info, f_pid = pid, f_executors = [], f_updates = [] \<rparr>"

definition createExecutor ::
  "placement \<Rightarrow> ExecutorInfo \<Rightarrow> string \<Rightarrow> ('r::zero) Framework
     \<Rightarrow> error + ('r Executor \<times> 'r Framework)" where
  "createExecutor place executorInfo directory f =
     (let executor = newExecutor (f_id f) executorInfo directory
      in if hm_contains (f_executors f) (ei_executor_id executorInfo) then Inl CheckFailed
         else Inr (executor,
                   f\<lparr> f_executors :=
                        hm_put place (ei_executor_id executorInfo) executor (f_executors f) \<rparr>))"

definition destroyExecutor :: "ExecutorID \<Rightarrow> 'r Framework \<Rightarrow> 'r Framework" where
  "destroyExecutor executorId f =
     (if hm_contains (f_executors f) executorId
      then f\<lparr> f_executors := hm_erase executorId (f_executors f) \<rparr>
      else f)"

definition getExecutor :: "'r Framework \<Rightarrow> ExecutorID \<Rightarrow> 'r Executor option" where
  "getExecutor f executorId = hm_get (f_executors f) executorId"

text \<open>
  \<open>getExecutor(const TaskID&)\<close>: the first executor, in iteration order, that has the task
  queued or launched. The entry's key comes with it, to write the executor back.
\<close>

definition getExecutorByTask ::
  "'r Framework \<Rightarrow> TaskID \<Rightarrow> (ExecutorID \<times> 'r Executor) option" where
  "getExecutorByTask f taskId =
     find (\<lambda>ke. hm_contains (queuedTasks (snd ke)) taskId
               \<or> hm_contains (launchedTasks (snd ke)) taskId) (f_executors f)"

definition getFramework :: "'r Slave \<Rightarrow> FrameworkID \<Rightarrow> 'r Framework option" where
  "getFramework s frameworkId = hm_get (s_frameworks s) frameworkId"

text \<open>
  The objects are held by pointer and changed in place. Here the changed executor is
  written back to the entry it was found under, and the framework likewise.
\<close>

definition putExecutor :: "ExecutorID \<Rightarrow> 'r Executor \<Rightarrow> 'r Framework \<Rightarrow> 'r Framework" where
  "putExecutor k e f = f\<lparr> f_executors := hm_modify k e (f_executors f) \<rparr>"

definition putFramework :: "FrameworkID \<Rightarrow> 'r Framework \<Rightarrow> 'r Slave \<Rightarrow> 'r Slave" where
  "putFramework k f s = s\<lparr> s_frameworks := hm_modify k f (s_frameworks s) \<rparr>"

subsection \<open>Handlers\<close>

definition launched_tasks :: "'r Slave \<Rightarrow> 'r Task list" where
  "launched_tasks s =
     concat (map (\<lambda>framework.
       concat (map (\<lambda>executor. hm_values (launchedTasks executor))
                   (hm_values (f_executors framework))))
       (hm_values (s_frameworks s)))"

definition newMasterDetected :: "UPID \<Rightarrow> 'r Slave \<Rightarrow> 'r Slave \<times> 'r Effect list" where
  "newMasterDetected pid s =
     (let s1 = s\<lparr> s_master := pid \<rparr>
      in if s_id s1 = []
         then (s1, [Link (s_master s1),
                    Send (s_master s1) (RegisterSlaveMessage (s_info s1))])
         else (s1, [Link (s_master s1),
                    Send (s_master s1)
                      (ReregisterSlaveMessage (s_id s1) (s_info s1) (launched_tasks s1))]))"

definition noMasterDetected :: "'r Slave \<Rightarrow> 'r Slave \<times> 'r Effect list" where
  "noMasterDetected s = (s, [])"

definition registered :: "SlaveID \<Rightarrow> 'r Slave \<Rightarrow> 'r Slave \<times> 'r Effect list" where
  "registered slaveId s = (s\<lparr> s_id := slaveId \<rparr>, [])"

definition reregistered :: "SlaveID \<Rightarrow> 'r Slave \<Rightarrow> error + ('r Slave \<times> 'r Effect list)" where
  "reregistered slaveId s = (if \<not> (s_id s = slaveId) then Inl Fatal else Inr (s, []))"

text \<open>
  \<open>runTask\<close>. The work directory comes from \<open>getUniqueWorkDirectory\<close>, which probes the
  file system; the path it returns is the argument \<open>directory\<close>.
\<close>

definition runTask ::
  "placement \<Rightarrow> string \<Rightarrow> FrameworkInfo \<Rightarrow> FrameworkID \<Rightarrow> UPID \<Rightarrow> 'r TaskDescription
     \<Rightarrow> ('r::{zero,plus}) Slave \<Rightarrow> error + ('r Slave \<times> 'r Effect list)" where
  "runTask place directory frameworkInfo frameworkId pid task s =
     (let (framework, s1) =
            (case getFramework s frameworkId of
               None \<Rightarrow>
                 (let f = newFramework frameworkId frameworkInfo pid
                  in (f, s\<lparr> s_frameworks := hm_put place frameworkId f (s_frameworks s) \<rparr>))
             | Some f \<Rightarrow> (f, s));
          executorInfo =
            (case td_executor task of
               Some ei \<Rightarrow> ei
             | None \<Rightarrow> fi_executor (f_info framework))
      in case getExecutor framework (ei_executor_id executorInfo) of
           Some executor \<Rightarrow>
             if e_pid executor = []
             then
               (let executor1 = executor\<lparr> queuedTasks :=
                      hm_put place (td_task_id task) task (queuedTasks executor) \<rparr>
                in Inr (putFramework frameworkId
                          (putExecutor (ei_executor_id executorInfo) executor1 framework) s1,
                        []))
             else
               (case addTask place task executor of
                  Inl err \<Rightarrow> Inl err
                | Inr executor1 \<Rightarrow>
                    Inr ((putFramework frameworkId
                            (putExecutor (ei_executor_id executorInfo) executor1 framework) s1)
                           \<lparr> stats_tasks := bump_tasks TASK_STARTING (stats_tasks s1) \<rparr>,
                         [Send (e_pid executor1)
                            (RunTaskMessage (f_info framework) (f_id framework)
                               (f_pid framework) task),
                          Dispatch (ResourcesChanged (f_id framework) (e_id executor1)
                                      (e_resources executor1))]))
         | None \<Rightarrow>
             (case createExecutor place executorInfo directory framework of
                Inl err \<Rightarrow> Inl err
              | Inr (executor, framework1) \<Rightarrow>
                  (let executor1 = executor\<lparr> queuedTasks :=
                         hm_put place (td_task_id task) task (queuedTasks executor) \<rparr>
                   in Inr (putFramework frameworkId
                             (putExecutor (ei_executor_id executorInfo) executor1 framework1) s1,
                           [Dispatch (LaunchExecutor (f_id framework1) (f_info framework1)
                                        (e_info executor1) directory)]))))"

text \<open>The three status updates that \<open>killTask\<close> makes up itself; \<open>now\<close> is \<open>elapsedTime()\<close>.\<close>

definition lostUpdate :: "FrameworkID \<Rightarrow> SlaveID \<Rightarrow> TaskID \<Rightarrow> int \<Rightarrow> StatusUpdate" where
  "lostUpdate frameworkId slaveId taskId now =
     \<lparr> su_framework_id = frameworkId, su_executor_id = None, su_slave_id = slaveId,
       su_status = \<lparr> ts_task_id = taskId, ts_state = TASK_LOST, ts_data = [] \<rparr>,
       su_timestamp = now, su_sequence = - 1 \<rparr>"

definition killedUpdate ::
  "FrameworkID \<Rightarrow> ExecutorID \<Rightarrow> SlaveID \<Rightarrow> TaskID \<Rightarrow> int \<Rightarrow> StatusUpdate" where
  "killedUpdate frameworkId executorId slaveId taskId now =
     \<lparr> su_framework_id = frameworkId, su_executor_id = Some executorId,
       su_slave_id = slaveId,
       su_status = \<lparr> ts_task_id = taskId, ts_state = TASK_KILLED, ts_data = [] \<rparr>,
       su_timestamp = now, su_sequence = 0 \<rparr>"

definition killTask ::
  "int \<Rightarrow> FrameworkID \<Rightarrow> TaskID \<Rightarrow> ('r::minus) Slave \<Rightarrow> 'r Slave \<times> 'r Effect list" where
  "killTask now frameworkId taskId s =
     (case getFramework s frameworkId of
        None \<Rightarrow>
          (s, [Send (s_master s)
                 (StatusUpdateMessage (lostUpdate frameworkId (s_id s) taskId now) False)])
      | Some framework \<Rightarrow>
          (case getExecutorByTask framework taskId of
             None \<Rightarrow>
               (s, [Send (s_master s)
                      (StatusUpdateMessage
                         (lostUpdate (f_id framework) (s_id s) taskId now) False)])
           | Some (k, executor) \<Rightarrow>
               if e_pid executor = []
               then
                 (let executor1 = removeTask taskId executor
                  in (putFramework frameworkId (putExecutor k executor1 framework) s,
                      [Dispatch (ResourcesChanged (f_id framework) (e_id executor1)
                                   (e_resources executor1)),
                       Send (s_master s)
                         (StatusUpdateMessage
                            (killedUpdate (f_id framework) (e_id executor1) (s_id s) taskId now)
                            False)]))
               else
                 (s, [Send (e_pid executor) (KillTaskMessage frameworkId taskId)])))"

definition removeExecutor ::
  "'r Framework \<Rightarrow> 'r Executor \<Rightarrow> bool \<Rightarrow> 'r Framework \<times> 'r Effect list" where
  "removeExecutor framework executor killExecutor =
     (destroyExecutor (e_id executor) framework,
      if killExecutor
      then [Send (e_pid executor) ShutdownMessage,
            Dispatch (KillExecutor (f_id framework) (e_id executor))]
      else [])"

text \<open>The loop of \<open>removeFramework\<close> over a copy of the framework's executors.\<close>

fun removeExecutors ::
  "'r Framework \<Rightarrow> 'r Executor list \<Rightarrow> bool \<Rightarrow> 'r Framework \<times> 'r Effect list" where
  "removeExecutors framework [] killExecutors = (framework, [])"
| "removeExecutors framework (executor # rest) killExecutors =
     (let (framework1, effs1) = removeExecutor framework executor killExecutors;
          (framework2, effs2) = removeExecutors framework1 rest killExecutors
      in (framework2, effs1 @ effs2))"

definition removeFramework ::
  "'r Framework \<Rightarrow> bool \<Rightarrow> 'r Slave \<Rightarrow> 'r Slave \<times> 'r Effect list" where
  "removeFramework framework killExecutors s =
     (let (framework1, effs) =
            removeExecutors framework (hm_values (f_executors framework)) killExecutors
      in (s\<lparr> s_frameworks := hm_erase (f_id framework1) (s_frameworks s) \<rparr>, effs))"

definition killFramework :: "FrameworkID \<Rightarrow> 'r Slave \<Rightarrow> 'r Slave \<times> 'r Effect list" where
  "killFramework frameworkId s =
     (case getFramework s frameworkId of
        Some framework \<Rightarrow> removeFramework framework True s
      | None \<Rightarrow> (s, []))"

definition schedulerMessage ::
  "SlaveID \<Rightarrow> FrameworkID \<Rightarrow> ExecutorID \<Rightarrow> string \<Rightarrow> 'r Slave \<Rightarrow> 'r Slave \<times> 'r Effect list" where
  "schedulerMessage slaveId frameworkId executorId data s =
     (case getFramework s frameworkId of
        None \<Rightarrow>
          (s\<lparr> stats_invalidFrameworkMessages := stats_invalidFrameworkMessages s + 1 \<rparr>, [])
      | Some framework \<Rightarrow>
          (case getExecutor framework executorId of
             None \<Rightarrow>
               (s\<lparr> stats_invalidFrameworkMessages := stats_invalidFrameworkMessages s + 1 \<rparr>,
                [])
           | Some executor \<Rightarrow>
               if e_pid executor = []
               then (s\<lparr> stats_invalidFrameworkMessages :=
                          stats_invalidFrameworkMessages s + 1 \<rparr>, [])
               else (s\<lparr> stats_validFrameworkMessages :=
                          stats_validFrameworkMessages s + 1 \<rparr>,
                     [Send (e_pid executor)
                        (FrameworkToExecutorMessage slaveId frameworkId executorId data)])))"

definition updateFramework :: "FrameworkID \<Rightarrow> UPID \<Rightarrow> 'r Slave \<Rightarrow> 'r Slave \<times> 'r Effect list" where
  "updateFramework frameworkId pid s =
     (case getFramework s frameworkId of
        Some framework \<Rightarrow> (putFramework frameworkId (framework\<lparr> f_pid := pid \<rparr>) s, [])
      | None \<Rightarrow> (s, []))"

definition statusUpdateAcknowledgement ::
  "SlaveID \<Rightarrow> FrameworkID \<Rightarrow> TaskID \<Rightarrow> 'r Slave \<Rightarrow> 'r Slave \<times> 'r Effect list" where
  "statusUpdateAcknowledgement slaveId frameworkId taskId s =
     (case getFramework s frameworkId of
        Some framework \<Rightarrow>
          if hm_contains (f_updates framework) taskId
          then (putFramework frameworkId
                  (framework\<lparr> f_updates := hm_erase taskId (f_updates framework) \<rparr>) s, [])
          else (s, [])
      | None \<Rightarrow> (s, []))"

text \<open>
  The loop of \<open>registerExecutor\<close> over the queued tasks: each is added to the executor,
  counted as starting, and sent. When a \<open>CHECK\<close> of \<open>addTask\<close> fails the process is gone.
\<close>

fun flushQueued ::
  "placement \<Rightarrow> 'r Framework \<Rightarrow> 'r TaskDescription list \<Rightarrow> ('r::plus) Executor \<Rightarrow> 64 word list
     \<Rightarrow> error + ('r Executor \<times> 64 word list \<times> 'r Effect list)" where
  "flushQueued place framework [] executor tasks = Inr (executor, tasks, [])"
| "flushQueued place framework (task # rest) executor tasks =
     (case addTask place task executor of
        Inl err \<Rightarrow> Inl err
      | Inr executor1 \<Rightarrow>
          (case flushQueued place framework rest executor1 (bump_tasks TASK_STARTING tasks) of
             Inl err \<Rightarrow> Inl err
           | Inr (executor2, tasks2, effs) \<Rightarrow>
               Inr (executor2, tasks2,
                    Send (e_pid executor1)
                      (RunTaskMessage (f_info framework) (f_id framework)
                         (f_pid framework) task) # effs)))"

definition registerExecutor ::
  "placement \<Rightarrow> UPID \<Rightarrow> FrameworkID \<Rightarrow> ExecutorID \<Rightarrow> ('r::plus) Slave
     \<Rightarrow> error + ('r Slave \<times> 'r Effect list)" where
  "registerExecutor place from frameworkId executorId s =
     (case getFramework s frameworkId of
        None \<Rightarrow> Inr (s, [Send from ShutdownMessage])
      | Some framework \<Rightarrow>
          (case getExecutor framework executorId of
             None \<Rightarrow> Inr (s, [Send from ShutdownMessage])
           | Some executor \<Rightarrow>
               if e_pid executor \<noteq> []
               then Inr (s, [Send from ShutdownMessage])
               else
                 (let executor1 = executor\<lparr> e_pid := from \<rparr>;
                      args = \<lparr> ea_framework_id = f_id framework,
                               ea_executor_id = e_id executor1,
                               ea_slave_id = s_id s,
                               ea_hostname = si_hostname (s_info s),
                               ea_data = ei_data (e_info executor1) \<rparr>
                  in case flushQueued place framework (hm_values (queuedTasks executor1))
                            executor1 (stats_tasks s) of
                       Inl err \<Rightarrow> Inl err
                     | Inr (executor2, tasks2, effs) \<Rightarrow>
                         Inr ((putFramework frameworkId
                                 (putExecutor executorId (executor2\<lparr> queuedTasks := [] \<rparr>)
                                    framework) s)
                                \<lparr> stats_tasks := tasks2 \<rparr>,
                              Dispatch (ResourcesChanged (f_id framework) (e_id executor1)
                                          (e_resources executor1))
                              # Send (e_pid executor1) (ExecutorRegisteredMessage args)
                              # effs))))"

definition terminal :: "TaskState \<Rightarrow> bool" where
  "terminal st =
     (st = TASK_FINISHED \<or> st = TASK_FAILED \<or> st = TASK_KILLED \<or> st = TASK_LOST)"

definition statusUpdate ::
  "placement \<Rightarrow> StatusUpdate \<Rightarrow> ('r::minus) Slave \<Rightarrow> 'r Slave \<times> 'r Effect list" where
  "statusUpdate place update s =
     (let status = su_status update
      in case getFramework s (su_framework_id update) of
           Some framework \<Rightarrow>
             (case getExecutorByTask framework (ts_task_id status) of
                Some (k, executor) \<Rightarrow>
                  (let executor1 = updateTaskState (ts_task_id status) (ts_state status) executor;
                       (executor2, effs) =
                          (if terminal (ts_state status)
                           then (let executor2 = removeTask (ts_task_id status) executor1
                                 in (executor2,
                                     [Dispatch (ResourcesChanged (f_id framework)
                                                  (e_id executor2) (e_resources executor2))]))
                           else (executor1, []));
                       framework1 = putExecutor k executor2 framework;
                       framework2 = framework1\<lparr> f_updates :=
                          hm_put place (ts_task_id status) update (f_updates framework1) \<rparr>
                   in ((putFramework (su_framework_id update) framework2 s)
                         \<lparr> stats_tasks := bump_tasks (ts_state status) (stats_tasks s),
                           stats_validStatusUpdates := stats_validStatusUpdates s + 1 \<rparr>,
                       effs @ [Send (s_master s) (StatusUpdateMessage update True),
                               Delay update]))
              | None \<Rightarrow>
                  (s\<lparr> stats_invalidStatusUpdates := stats_invalidStatusUpdates s + 1 \<rparr>, []))
         | None \<Rightarrow>
             (s\<lparr> stats_invalidStatusUpdates := stats_invalidStatusUpdates s + 1 \<rparr>, []))"

definition executorMessage ::
  "SlaveID \<Rightarrow> FrameworkID \<Rightarrow> ExecutorID \<Rightarrow> string \<Rightarrow> 'r Slave \<Rightarrow> 'r Slave \<times> 'r Effect list" where
  "executorMessage slaveId frameworkId executorId data s =
     (case getFramework s frameworkId of
        None \<Rightarrow>
          (s\<lparr> stats_invalidFrameworkMessages := stats_invalidFrameworkMessages s + 1 \<rparr>, [])
      | Some framework \<Rightarrow>
          (s\<lparr> stats_validFrameworkMessages := stats_validFrameworkMessages s + 1 \<rparr>,
           [Send (f_pid framework)
              (ExecutorToFrameworkMessage slaveId frameworkId executorId data)]))"

definition ping :: "UPID \<Rightarrow> 'r Slave \<Rightarrow> 'r Slave \<times> 'r Effect list" where
  "ping from s = (s, [Send from PONG])"

definition statusUpdateTimeout :: "StatusUpdate \<Rightarrow> 'r Slave \<Rightarrow> 'r Slave \<times> 'r Effect list" where
  "statusUpdateTimeout update s =
     (case getFramework s (su_framework_id update) of
        Some framework \<Rightarrow>
          if hm_contains (f_updates framework) (ts_task_id (su_status update))
          then (s, [Send (s_master s) (StatusUpdateMessage update True)])
          else (s, [])
      | None \<Rightarrow> (s, []))"

definition exited :: "UPID \<Rightarrow> 'r Slave \<Rightarrow> 'r Slave \<times> 'r Effect list" where
  "exited from s = (s, [])"

definition executorStarted ::
  "FrameworkID \<Rightarrow> ExecutorID \<Rightarrow> int \<Rightarrow> 'r Slave \<Rightarrow> 'r Slave \<times> 'r Effect list" where
  "executorStarted frameworkId executorId pid s = (s, [])"

definition executorExited ::
  "FrameworkID \<Rightarrow> ExecutorID \<Rightarrow> int \<Rightarrow> 'r Slave \<Rightarrow> 'r Slave \<times> 'r Effect list" where
  "executorExited frameworkId executorId status s =
     (case getFramework s frameworkId of
        None \<Rightarrow> (s, [])
      | Some framework \<Rightarrow>
          (case getExecutor framework executorId of
             None \<Rightarrow> (s, [])
           | Some executor \<Rightarrow>
               (let msg = Send (s_master s)
                            (ExitedExecutorMessage (s_id s) frameworkId executorId status);
                    (framework1, effs1) = removeExecutor framework executor False;
                    s1 = putFramework frameworkId framework1 s
                in if length (f_executors framework1) = 0
                   then (let (s2, effs2) = removeFramework framework1 True s1
                         in (s2, msg # effs1 @ effs2))
                   else (s1, msg # effs1))))"

text \<open>
  \<open>TERMINATE\<close> in \<open>operator ()\<close>: every framework of a copy of the map is removed, then the
  loop is left.
\<close>

fun removeFrameworks :: "'r Framework list \<Rightarrow> 'r Slave \<Rightarrow> 'r Slave \<times> 'r Effect list" where
  "removeFrameworks [] s = (s, [])"
| "removeFrameworks (framework # rest) s =
     (let (s1, effs1) = removeFramework framework True s;
          (s2, effs2) = removeFrameworks rest s1
      in (s2, effs1 @ effs2))"

definition terminate :: "'r Slave \<Rightarrow> 'r Slave \<times> 'r Effect list" where
  "terminate s = removeFrameworks (hm_values (s_frameworks s)) s"

subsection \<open>The dispatch loop\<close>

text \<open>
  What the actor can be handed: the protobuf messages installed in \<open>initialize()\<close>, the
  \<open>EXITED\<close> and \<open>PING\<close> messages, the delayed \<open>statusUpdateTimeout\<close>, the two callbacks of
  the isolation module, and \<open>TERMINATE\<close>. An event carries what the handler reads from
  outside the state: the sender \<open>from()\<close>, the clock, the work directory found on disk.
  The HTTP handlers only read the state and are left out.
\<close>

datatype 'r Event =
    NewMasterDetected UPID
  | NoMasterDetected
  | SlaveRegistered SlaveID
  | SlaveReregistered SlaveID
  | RunTask string FrameworkInfo FrameworkID UPID "'r TaskDescription"
  | KillTask int FrameworkID TaskID
  | KillFramework FrameworkID
  | FrameworkToExecutor SlaveID FrameworkID ExecutorID string
  | UpdateFramework FrameworkID UPID
  | StatusUpdateAcknowledgement SlaveID FrameworkID TaskID
  | RegisterExecutor UPID FrameworkID ExecutorID
  | StatusUpdateFromExecutor StatusUpdate
  | ExecutorToFramework SlaveID FrameworkID ExecutorID string
  | PING UPID
  | StatusUpdateTimeout StatusUpdate
  | EXITED UPID
  | ExecutorStarted FrameworkID ExecutorID int
  | ExecutorExited FrameworkID ExecutorID int
  | TERMINATE

fun handle ::
  "placement \<Rightarrow> 'r Event \<Rightarrow> ('r::{plus,minus,zero}) Slave
     \<Rightarrow> error + ('r Slave \<times> 'r Effect list)" where
  "handle place (NewMasterDetected pid) s = Inr (newMasterDetected pid s)"
| "handle place NoMasterDetected s = Inr (noMasterDetected s)"
| "handle place (SlaveRegistered slaveId) s = Inr (registered slaveId s)"
| "handle place (SlaveReregistered slaveId) s = reregistered slaveId s"
| "handle place (RunTask directory frameworkInfo frameworkId pid task) s =
     runTask place directory frameworkInfo frameworkId pid task s"
| "handle place (KillTask now frameworkId taskId) s = Inr (killTask now frameworkId taskId s)"
| "handle place (KillFramework frameworkId) s = Inr (killFramework frameworkId s)"
| "handle place (FrameworkToExecutor slaveId frameworkId executorId data) s =
     Inr (schedulerMessage slaveId frameworkId executorId data s)"
| "handle place (UpdateFramework frameworkId pid) s = Inr (updateFramework frameworkId pid s)"
| "handle place (StatusUpdateAcknowledgement slaveId frameworkId taskId) s =
     Inr (statusUpdateAcknowledgement slaveId frameworkId taskId s)"
| "handle place (RegisterExecutor from frameworkId executorId) s =
     registerExecutor place from frameworkId executorId s"
| "handle place (StatusUpdateFromExecutor update) s = Inr (statusUpdate place update s)"
| "handle place (ExecutorToFramework slaveId frameworkId executorId data) s =
     Inr (executorMessage slaveId frameworkId executorId data s)"
| "handle place (PING from) s = Inr (ping from s)"
| "handle place (StatusUpdateTimeout update) s = Inr (statusUpdateTimeout update s)"
| "handle place (EXITED from) s = Inr (exited from s)"
| "handle place (ExecutorStarted frameworkId executorId pid) s =
     Inr (executorStarted frameworkId executorId pid s)"
| "handle place (ExecutorExited frameworkId executorId status) s =
     Inr (executorExited frameworkId executorId status s)"
| "handle place TERMINATE s = Inr (terminate s)"

text \<open>Handling a list of events one after the other; the effects are collected in order.\<close>

fun run ::
  "placement \<Rightarrow> 'r Event list \<Rightarrow> ('r::{plus,minus,zero}) Slave
     \<Rightarrow> error + ('r Slave \<times> 'r Effect list)" where
  "run place [] s = Inr (s, [])"
| "run place (ev # evs) s =
     (case handle place ev s of
        Inl err \<Rightarrow> Inl err
      | Inr (s1, effs1) \<Rightarrow>
          (case run place evs s1 of
             Inl err \<Rightarrow> Inl err
           | Inr (s2, effs2) \<Rightarrow> Inr (s2, effs1 @ effs2)))"

text \<open>
  The states the slave can be in between two handlers. The sender of a message is an
  endpoint, never the default-constructed \<open>UPID()\<close>.
\<close>

fun wf_event :: "'r Event \<Rightarrow> bool" where
  "wf_event (RegisterExecutor from frameworkId executorId) = (from \<noteq> [])"
| "wf_event ev = True"

inductive reachable :: "placement \<Rightarrow> ('r::{plus,minus,zero}) Slave \<Rightarrow> bool"
  for place :: placement where
  reachable_initial: "reachable place (initial hostname public_hostname res)"
| reachable_step:
    "reachable place s \<Longrightarrow> wf_event ev \<Longrightarrow> handle place ev s = Inr (s', effs)
       \<Longrightarrow> reachable place s'"

subsection \<open>Resource bundles\<close>

text \<open>
  Modelled from the spec: the resource bundle, "a mapping from resource name (free-form
  string, e.g. \<open>cpus\<close>, \<open>mem\<close>) to either a scalar value or a typed range/set", which
  "supports add and subtract component-wise". A bundle gives every name its scalar (0 where
  the bundle has no scalar of that name) and its set of items (empty where it has no range
  or set of that name). Adding two bundles adds the scalars and unites the sets; subtracting
  subtracts the scalars and takes the items of the second bundle away from the first.
  Scalars are integers here.
\<close>

datatype Resources = Resources (scalar: "string \<Rightarrow> int") (items: "string \<Rightarrow> nat set")

instantiation Resources :: "{comm_monoid_add, minus}"
begin

definition zero_Resources :: Resources where
  "zero_Resources = Resources (\<lambda>name. 0) (\<lambda>name. {})"

definition plus_Resources :: "Resources \<Rightarrow> Resources \<Rightarrow> Resources" where
  "plus_Resources a b =
     Resources (\<lambda>name. scalar a name + scalar b name) (\<lambda>name. items a name \<union> items b name)"

definition minus_Resources :: "Resources \<Rightarrow> Resources \<Rightarrow> Resources" where
  "minus_Resources a b =
     Resources (\<lambda>name. scalar a name - scalar b name) (\<lambda>name. items a name - items b name)"

instance
proof
  fix a b c :: Resources
  show "a + b + c = a + (b + c)"
    by (simp add: plus_Resources_def add.assoc Un_assoc)
  show "a + b = b + a"
    by (simp add: plus_Resources_def add.commute Un_commute)
  show "0 + a = a"
    by (simp add: plus_Resources_def zero_Resources_def)
qed

end

subsection \<open>A sample run\<close>

text \<open>
  Concrete data for the scenarios S2 to S6: framework \<open>F1\<close> with default executor \<open>E1\<close>,
  tasks with integer resources, and a hashmap whose new entries come first in the
  iteration order.
\<close>

definition ex_place :: placement where
  "ex_place k ks = 0"

definition ex_executor :: ExecutorInfo where
  "ex_executor = \<lparr> ei_executor_id = ''E1'', ei_uri = ''exec'', ei_data = ''blob'' \<rparr>"

definition ex_framework :: FrameworkInfo where
  "ex_framework = \<lparr> fi_name = ''fw'', fi_user = ''user'', fi_executor = ex_executor \<rparr>"

definition ex_task :: "TaskID \<Rightarrow> int \<Rightarrow> int TaskDescription" where
  "ex_task taskId res =
     \<lparr> td_name = ''task'', td_task_id = taskId, td_slave_id = ''S7'', td_resources = res,
       td_executor = None, td_data = [] \<rparr>"

definition ex_update :: "TaskID \<Rightarrow> TaskState \<Rightarrow> StatusUpdate" where
  "ex_update taskId st =
     \<lparr> su_framework_id = ''F1'', su_executor_id = Some ''E1'', su_slave_id = ''S7'',
       su_status = \<lparr> ts_task_id = taskId, ts_state = st, ts_data = [] \<rparr>,
       su_timestamp = 10, su_sequence = 1 \<rparr>"

definition ex_runTask :: "TaskID \<Rightarrow> int \<Rightarrow> int Event" where
  "ex_runTask taskId res = RunTask ''dir'' ex_framework ''F1'' ''sched'' (ex_task taskId res)"

definition ex_initial :: "int Slave" where
  "ex_initial = initial ''host'' ''host'' 4"

text \<open>The state after the sample slave has handled the events (the initial state if it aborts).\<close>

definition ex_state :: "int Event list \<Rightarrow> int Slave" where
  "ex_state evs =
     (case run ex_place evs ex_initial of Inr (s, effs) \<Rightarrow> s | Inl err \<Rightarrow> ex_initial)"






subsection \<open>Invariants of the object graph\<close>

text \<open>
  What holds of every executor, framework and slave between two handlers: entries sit
  under their own id, a queued task sits under its own task id, an executor that has not
  registered has launched nothing, one that has registered has nothing queued, the
  executor's resources are the sum over its launched tasks, and a framework has an executor.
\<close>

definition ledger :: "('r::comm_monoid_add) Executor \<Rightarrow> 'r" where
  "ledger e = sum_list (map t_resources (hm_values (launchedTasks e)))"

definition exec_ok :: "ExecutorID \<Rightarrow> ('r::comm_monoid_add) Executor \<Rightarrow> bool" where
  "exec_ok k e \<longleftrightarrow>
     e_id e = k
     \<and> distinct (hm_keys (queuedTasks e))
     \<and> distinct (hm_keys (launchedTasks e))
     \<and> (\<forall>(i, td) \<in> set (queuedTasks e). td_task_id td = i)
     \<and> (e_pid e = [] \<longrightarrow> launchedTasks e = [])
     \<and> (e_pid e \<noteq> [] \<longrightarrow> queuedTasks e = [])
     \<and> e_resources e = ledger e"

definition fw_ok :: "FrameworkID \<Rightarrow> ('r::comm_monoid_add) Framework \<Rightarrow> bool" where
  "fw_ok k f \<longleftrightarrow>
     f_id f = k
     \<and> distinct (hm_keys (f_executors f))
     \<and> f_executors f \<noteq> []
     \<and> (\<forall>(k', e) \<in> set (f_executors f). exec_ok k' e)"


text \<open>
  The same without the ledger: what holds of the object graph whatever the resource bundle
  is.
\<close>

definition exec_wf :: "ExecutorID \<Rightarrow> 'r Executor \<Rightarrow> bool" where
  "exec_wf k e \<longleftrightarrow>
     e_id e = k
     \<and> distinct (hm_keys (queuedTasks e))
     \<and> distinct (hm_keys (launchedTasks e))
     \<and> (\<forall>(i, td) \<in> set (queuedTasks e). td_task_id td = i)
     \<and> (e_pid e = [] \<longrightarrow> launchedTasks e = [])
     \<and> (e_pid e \<noteq> [] \<longrightarrow> queuedTasks e = [])"

definition fw_wf :: "FrameworkID \<Rightarrow> 'r Framework \<Rightarrow> bool" where
  "fw_wf k f \<longleftrightarrow>
     f_id f = k
     \<and> distinct (hm_keys (f_executors f))
     \<and> f_executors f \<noteq> []
     \<and> (\<forall>(k', e) \<in> set (f_executors f). exec_wf k' e)"

definition slave_wf :: "'r Slave \<Rightarrow> bool" where
  "slave_wf s \<longleftrightarrow>
     distinct (hm_keys (s_frameworks s))
     \<and> (\<forall>(k, f) \<in> set (s_frameworks s). fw_wf k f)"

subsection \<open>Reading the state and the effects\<close>



text \<open>
  In the words of the specification: the multiset of all tasks currently in
  \<open>launchedTasks\<close> across every executor of every framework.
\<close>

definition spec_launched_tasks :: "'r Slave \<Rightarrow> 'r Task multiset" where
  "spec_launched_tasks s =
     sum_mset (image_mset
       (\<lambda>f. sum_mset (image_mset (\<lambda>e. mset (hm_values (launchedTasks e)))
                          (mset (hm_values (f_executors f)))))
       (mset (hm_values (s_frameworks s))))"

text \<open>
  The states the slave passes through while it handles the events one after the other,
  the first included; the list ends where a handler aborts.
\<close>

fun trace ::
  "placement \<Rightarrow> 'r Event list \<Rightarrow> ('r::{plus,minus,zero}) Slave \<Rightarrow> 'r Slave list" where
  "trace place [] s = [s]"
| "trace place (ev # evs) s =
     s # (case handle place ev s of
            Inl err \<Rightarrow> []
          | Inr (s1, effs) \<Rightarrow> trace place evs s1)"

text \<open>The queued tasks of executor \<open>executorId\<close> of framework \<open>frameworkId\<close>; none if there is no such executor.\<close>

definition queue_of ::
  "'r Slave \<Rightarrow> FrameworkID \<Rightarrow> ExecutorID \<Rightarrow> (TaskID, 'r TaskDescription) hashmap" where
  "queue_of s frameworkId executorId =
     (case getFramework s frameworkId of
        None \<Rightarrow> []
      | Some f \<Rightarrow>
          (case getExecutor f executorId of
             None \<Rightarrow> []
           | Some e \<Rightarrow> queuedTasks e))"

text \<open>
  The id of the executor that \<open>runTask\<close> picks for a task: the one the task names, else the
  default executor of the framework.
\<close>

definition task_executor :: "FrameworkInfo \<Rightarrow> 'r TaskDescription \<Rightarrow> ExecutorID" where
  "task_executor info task =
     ei_executor_id (case td_executor task of Some ei \<Rightarrow> ei | None \<Rightarrow> fi_executor info)"

text \<open>The messages sent to an endpoint, in the order they were sent.\<close>

fun sent_to :: "UPID \<Rightarrow> 'r Effect list \<Rightarrow> 'r Message list" where
  "sent_to pid [] = []"
| "sent_to pid (Send dest msg # effs) =
     (if dest = pid then msg # sent_to pid effs else sent_to pid effs)"
| "sent_to pid (eff # effs) = sent_to pid effs"

section \<open>The hashmap operations\<close>

lemma hm_contains_keys: "hm_contains m k \<longleftrightarrow> k \<in> set (hm_keys m)"
  by (simp add: hm_contains_def hm_keys_def map_of_eq_None_iff)

lemma hm_get_contains: "hm_contains m k \<longleftrightarrow> (\<exists>v. hm_get m k = Some v)"
  by (simp add: hm_contains_def hm_get_def)

lemma hm_get_in: "hm_get m k = Some v \<Longrightarrow> (k, v) \<in> set m"
  by (simp add: hm_get_def map_of_SomeD)

lemma hm_in_get: "distinct (hm_keys m) \<Longrightarrow> (k, v) \<in> set m \<Longrightarrow> hm_get m k = Some v"
  by (simp add: hm_get_def hm_keys_def)

lemma hm_keys_modify: "hm_keys (hm_modify k v m) = hm_keys m"
  by (induction m) (auto simp: hm_keys_def hm_modify_def)

lemma hm_get_modify:
  "hm_get (hm_modify k v m) k' = (if k' = k then (if hm_contains m k then Some v else None) else hm_get m k')"
  by (induction m) (auto simp: hm_get_def hm_modify_def hm_contains_def)

lemma hm_keys_erase: "hm_keys (hm_erase k m) = filter (\<lambda>x. x \<noteq> k) (hm_keys m)"
  by (induction m) (auto simp: hm_keys_def hm_erase_def)

lemma hm_get_erase: "hm_get (hm_erase k m) k' = (if k' = k then None else hm_get m k')"
  by (induction m) (auto simp: hm_get_def hm_erase_def)

lemma map_of_insert_at:
  "k \<notin> fst ` set m \<Longrightarrow> map_of (take n m @ (k, v) # drop n m) k' = (if k' = k then Some v else map_of m k')"
proof (induction m arbitrary: n)
  case Nil
  then show ?case by simp
next
  case (Cons a m)
  then show ?case by (cases n) auto
qed

lemma hm_get_put:
  "hm_get (hm_put place k v m) k' = (if k' = k then Some v else hm_get m k')"
proof (cases "hm_contains m k")
  case True
  then show ?thesis by (simp add: hm_put_def hm_get_modify)
next
  case False
  then have "k \<notin> fst ` set m" by (simp add: hm_contains_def map_of_eq_None_iff)
  then show ?thesis using False
    unfolding hm_put_def hm_get_def by (simp add: map_of_insert_at del: map_of_append)
qed

lemma hm_set_put_new:
  "\<not> hm_contains m k \<Longrightarrow> set (hm_put place k v m) = insert (k, v) (set m)"
proof -
  have "set (take n m) \<union> set (drop n m) = set m" for n
    by (metis append_take_drop_id set_append)
  then show "\<not> hm_contains m k \<Longrightarrow> set (hm_put place k v m) = insert (k, v) (set m)"
    by (auto simp: hm_put_def)
qed

lemma hm_keys_put_new:
  "\<not> hm_contains m k \<Longrightarrow> mset (hm_keys (hm_put place k v m)) = add_mset k (mset (hm_keys m))"
proof -
  have "mset (take n (map fst m)) + mset (drop n (map fst m)) = mset (map fst m)" for n
    by (metis append_take_drop_id mset_append)
  then show "\<not> hm_contains m k \<Longrightarrow> ?thesis"
    by (simp add: hm_put_def hm_keys_def take_map drop_map)
qed

lemma hm_distinct_put:
  "distinct (hm_keys m) \<Longrightarrow> distinct (hm_keys (hm_put place k v m))"
proof (cases "hm_contains m k")
  case True
  then show "distinct (hm_keys m) \<Longrightarrow> ?thesis" by (simp add: hm_put_def hm_keys_modify)
next
  case False
  assume d: "distinct (hm_keys m)"
  have "mset (hm_keys (hm_put place k v m)) = add_mset k (mset (hm_keys m))"
    using False by (rule hm_keys_put_new)
  moreover have "k \<notin> set (hm_keys m)" using False by (simp add: hm_contains_keys)
  ultimately show ?thesis using d
    by (metis distinct.simps(2) mset.simps(2) mset_eq_imp_distinct_iff)
qed

lemma hm_distinct_erase: "distinct (hm_keys m) \<Longrightarrow> distinct (hm_keys (hm_erase k m))"
  by (simp add: hm_keys_erase)

lemma hm_values_put_new:
  "\<not> hm_contains m k \<Longrightarrow> mset (hm_values (hm_put place k v m)) = add_mset v (mset (hm_values m))"
proof -
  have "mset (take n (map snd m)) + mset (drop n (map snd m)) = mset (map snd m)" for n
    by (metis append_take_drop_id mset_append)
  then show "\<not> hm_contains m k \<Longrightarrow> ?thesis"
    by (simp add: hm_put_def hm_values_def take_map drop_map)
qed



section \<open>Looking up and writing back\<close>

lemma getFramework_putFramework:
  "getFramework (putFramework k f s) k' =
     (if k' = k then (if hm_contains (s_frameworks s) k then Some f else None)
      else getFramework s k')"
  by (simp add: getFramework_def putFramework_def hm_get_modify)

lemma getExecutor_putExecutor:
  "getExecutor (putExecutor k e f) k' =
     (if k' = k then (if hm_contains (f_executors f) k then Some e else None)
      else getExecutor f k')"
  by (simp add: getExecutor_def putExecutor_def hm_get_modify)

lemma getFramework_contains:
  "getFramework s k = Some f \<Longrightarrow> hm_contains (s_frameworks s) k"
  by (simp add: getFramework_def hm_get_contains)

lemma getExecutor_contains:
  "getExecutor f k = Some e \<Longrightarrow> hm_contains (f_executors f) k"
  by (simp add: getExecutor_def hm_get_contains)

lemma getExecutorByTask_Some:
  "getExecutorByTask f taskId = Some (k, e) \<Longrightarrow>
     (k, e) \<in> set (f_executors f)
     \<and> (hm_contains (queuedTasks e) taskId \<or> hm_contains (launchedTasks e) taskId)"
  unfolding getExecutorByTask_def find_Some_iff by (metis nth_mem snd_conv)

lemma getExecutorByTask_None:
  "getExecutorByTask f taskId = None \<longleftrightarrow>
     (\<forall>(k, e) \<in> set (f_executors f).
        \<not> hm_contains (queuedTasks e) taskId \<and> \<not> hm_contains (launchedTasks e) taskId)"
  unfolding getExecutorByTask_def find_None_iff by auto



section \<open>KillTask\<close>



section \<open>The invariants are kept by the container operations\<close>

lemma hm_modify_all:
  "(\<forall>(k, v) \<in> set m. k \<noteq> k0 \<longrightarrow> P k v) \<Longrightarrow> P k0 v0
     \<Longrightarrow> \<forall>(k, v) \<in> set (hm_modify k0 v0 m). P k v"
  by (auto simp: hm_modify_def split: if_splits)

lemma hm_put_set: "set (hm_put place k0 v0 m) \<subseteq> insert (k0, v0) (set m)"
proof (cases "hm_contains m k0")
  case True
  then show ?thesis by (auto simp: hm_put_def hm_modify_def split: if_splits)
next
  case False
  then show ?thesis by (simp add: hm_set_put_new)
qed

lemma hm_put_all:
  "\<forall>(k, v) \<in> set m. P k v \<Longrightarrow> P k0 v0 \<Longrightarrow> \<forall>(k, v) \<in> set (hm_put place k0 v0 m). P k v"
  using hm_put_set[of place k0 v0 m] by auto

lemma hm_erase_all:
  "\<forall>(k, v) \<in> set m. P k v \<Longrightarrow> \<forall>(k, v) \<in> set (hm_erase k0 m). P k v"
  by (auto simp: hm_erase_def)

lemma hm_erase_set: "set (hm_erase k0 m) = {kv \<in> set m. fst kv \<noteq> k0}"
  by (auto simp: hm_erase_def)

lemma hm_erase_empty: "hm_erase k [] = []"
  by (simp add: hm_erase_def)

lemma hm_put_empty: "hm_put place k v [] = [(k, v)]"
  by (simp add: hm_put_def hm_contains_def)

lemma hm_put_nonempty: "hm_put place k v m \<noteq> []"
  by (cases m) (auto simp: hm_put_def hm_modify_def hm_contains_def)

lemma hm_modify_nonempty: "hm_modify k v m = [] \<longleftrightarrow> m = []"
  by (simp add: hm_modify_def)

lemma hm_get_empty: "hm_get [] k = None"
  by (simp add: hm_get_def)





section \<open>The invariants are kept by the methods of an executor\<close>

lemma addTask_Inr:
  "addTask place task e = Inr e' \<longleftrightarrow>
     \<not> hm_contains (launchedTasks e) (td_task_id task)
     \<and> e' = e\<lparr> launchedTasks :=
                 hm_put place (td_task_id task)
                   \<lparr> t_name = td_name task, t_task_id = td_task_id task,
                     t_framework_id = e_frameworkId e, t_executor_id = e_id e,
                     t_slave_id = td_slave_id task, t_state = TASK_STARTING,
                     t_resources = td_resources task \<rparr> (launchedTasks e),
               e_resources := e_resources e + td_resources task \<rparr>"
  by (auto simp: addTask_def Let_def)




section \<open>The invariants are kept by the methods of a framework and of the slave\<close>



lemma getExecutorByTask_getExecutor:
  "fw_ok k f \<Longrightarrow> getExecutorByTask f taskId = Some (k', e) \<Longrightarrow> getExecutor f k' = Some e"
  by (auto simp: fw_ok_def getExecutor_def dest: getExecutorByTask_Some intro: hm_in_get)









lemma hm_erase_modify: "hm_erase k (hm_modify k v m) = hm_erase k m"
  by (induction m) (auto simp: hm_erase_def hm_modify_def)




section \<open>The invariants are kept by the handlers\<close>



lemma queued_ids:
  "\<forall>(i, td) \<in> set q. td_task_id td = i \<Longrightarrow> map td_task_id (hm_values q) = hm_keys q"
  by (induction q) (auto simp: hm_values_def hm_keys_def)





lemma hm_erase_absent: "\<not> hm_contains m k \<Longrightarrow> hm_erase k m = m"
  by (induction m) (auto simp: hm_erase_def hm_contains_def split: if_splits)

lemma destroyExecutor_erase:
  "destroyExecutor executorId f = f\<lparr> f_executors := hm_erase executorId (f_executors f) \<rparr>"
  by (simp add: destroyExecutor_def hm_erase_absent)

lemma removeExecutors_id: "f_id (fst (removeExecutors f es b)) = f_id f"
  by (induction es arbitrary: f)
     (simp_all add: removeExecutor_def destroyExecutor_erase case_prod_beta)

lemma removeFramework_state:
  "fst (removeFramework f b s) = s\<lparr> s_frameworks := hm_erase (f_id f) (s_frameworks s) \<rparr>"
  using removeExecutors_id[of f "hm_values (f_executors f)" b]
  by (simp add: removeFramework_def case_prod_beta)






lemma reachable_run:
  fixes s :: "('r::{plus,minus,zero}) Slave"
  shows "reachable place s \<Longrightarrow> list_all wf_event evs \<Longrightarrow> run place evs s = Inr (s', effs)
     \<Longrightarrow> reachable place s'"
proof (induction evs arbitrary: s effs)
  case Nil
  then show ?case by simp
next
  case (Cons ev evs)
  then obtain s1 effs1 effs2 where h: "handle place ev s = Inr (s1, effs1)"
    and r: "run place evs s1 = Inr (s', effs2)"
    by (auto split: sum.splits)
  have "reachable place s1" using Cons.prems(1,2) h by (auto intro: reachable_step)
  then show ?case using Cons.IH Cons.prems(2) r by auto
qed

section \<open>The object graph stays well-formed, whatever the resource bundle\<close>

lemma addTask_wf:
  fixes e :: "('r::{plus,minus,zero}) Executor"
  assumes "exec_wf k e" "e_pid e \<noteq> []" "addTask place task e = Inr e'"
  shows "exec_wf k e'"
  using assms
  by (auto simp: addTask_Inr exec_wf_def hm_distinct_put
                 hm_put_nonempty)

lemma removeTask_wf:
  fixes e :: "('r::{plus,minus,zero}) Executor"
  assumes "exec_wf k e"
  shows "exec_wf k (removeTask taskId e)"
proof (cases "hm_get (launchedTasks e) taskId")
  case None
  then have "removeTask taskId e = e\<lparr> queuedTasks := hm_erase taskId (queuedTasks e) \<rparr>"
    by (simp add: removeTask_def Let_def)
  then show ?thesis using assms
    by (auto simp: exec_wf_def hm_distinct_erase hm_erase_set hm_erase_empty)
next
  case (Some task)
  then have r: "removeTask taskId e =
      e\<lparr> queuedTasks := hm_erase taskId (queuedTasks e),
         e_resources := e_resources e - t_resources task,
         launchedTasks := hm_erase taskId (launchedTasks e) \<rparr>"
    by (simp add: removeTask_def Let_def)
  have "launchedTasks e \<noteq> []" using Some by (auto simp: hm_get_def)
  then have "e_pid e \<noteq> []" using assms by (auto simp: exec_wf_def)
  then show ?thesis using assms Some
    by (auto simp: r exec_wf_def hm_distinct_erase hm_erase_set
                   hm_erase_empty)
qed

lemma updateTaskState_wf:
  fixes e :: "('r::{plus,minus,zero}) Executor"
  assumes "exec_wf k e"
  shows "exec_wf k (updateTaskState taskId st e)"
proof (cases "hm_get (launchedTasks e) taskId")
  case None
  then show ?thesis using assms by (simp add: updateTaskState_def)
next
  case (Some task)
  have "launchedTasks e \<noteq> []" using Some by (auto simp: hm_get_def)
  then have "e_pid e \<noteq> []" using assms by (auto simp: exec_wf_def)
  then show ?thesis using assms Some
    by (auto simp: updateTaskState_def exec_wf_def hm_keys_modify)
qed

lemma fw_wf_getExecutor: "fw_wf k f \<Longrightarrow> getExecutor f k' = Some e \<Longrightarrow> exec_wf k' e"
  by (auto simp: fw_wf_def getExecutor_def dest: hm_get_in)

lemma fw_wf_getExecutorByTask:
  "fw_wf k f \<Longrightarrow> getExecutorByTask f taskId = Some (k', e) \<Longrightarrow> exec_wf k' e"
  by (auto simp: fw_wf_def dest: getExecutorByTask_Some)

lemma getExecutorByTask_getExecutor_wf:
  "fw_wf k f \<Longrightarrow> getExecutorByTask f taskId = Some (k', e) \<Longrightarrow> getExecutor f k' = Some e"
  by (auto simp: fw_wf_def getExecutor_def dest: getExecutorByTask_Some intro: hm_in_get)

lemma fw_wf_putExecutor: "fw_wf k f \<Longrightarrow> exec_wf k' e \<Longrightarrow> fw_wf k (putExecutor k' e f)"
  unfolding fw_wf_def putExecutor_def
  by (simp add: hm_keys_modify hm_modify_nonempty) (rule hm_modify_all, auto)

lemma fw_wf_fields:
  "fw_wf k (f\<lparr> f_updates := u \<rparr>) = fw_wf k f"
  "fw_wf k (f\<lparr> f_pid := p \<rparr>) = fw_wf k f"
  by (simp_all add: fw_wf_def)

lemma fw_wf_create:
  assumes "f_id f = k" "distinct (hm_keys (f_executors f))"
    "\<forall>(k', e) \<in> set (f_executors f). exec_wf k' e" "exec_wf k0 e1"
  shows "fw_wf k (putExecutor k0 e1 (f\<lparr> f_executors := hm_put place k0 e0 (f_executors f) \<rparr>))"
proof -
  have "\<forall>(k', e) \<in> set (hm_put place k0 e0 (f_executors f)). k' \<noteq> k0 \<longrightarrow> exec_wf k' e"
    using hm_put_set[of place k0 e0 "f_executors f"] assms(3) by auto
  then have "\<forall>(k', e) \<in> set (hm_modify k0 e1 (hm_put place k0 e0 (f_executors f))). exec_wf k' e"
    using assms(4) by (rule hm_modify_all)
  then show ?thesis using assms(1,2)
    by (simp add: fw_wf_def putExecutor_def hm_keys_modify hm_distinct_put hm_modify_nonempty
                  hm_put_nonempty)
qed

lemma slave_wf_getFramework: "slave_wf s \<Longrightarrow> getFramework s k = Some f \<Longrightarrow> fw_wf k f"
  by (auto simp: slave_wf_def getFramework_def dest: hm_get_in)

lemma slave_wf_putFramework: "slave_wf s \<Longrightarrow> fw_wf k f \<Longrightarrow> slave_wf (putFramework k f s)"
  unfolding slave_wf_def putFramework_def
  by (simp add: hm_keys_modify) (rule hm_modify_all, auto)

lemma slave_wf_fields:
  "slave_wf (s\<lparr> s_master := a \<rparr>) = slave_wf s"
  "slave_wf (s\<lparr> s_id := b \<rparr>) = slave_wf s"
  "slave_wf (s\<lparr> stats_tasks := c \<rparr>) = slave_wf s"
  "slave_wf (s\<lparr> stats_validStatusUpdates := d \<rparr>) = slave_wf s"
  "slave_wf (s\<lparr> stats_invalidStatusUpdates := d \<rparr>) = slave_wf s"
  "slave_wf (s\<lparr> stats_validFrameworkMessages := d \<rparr>) = slave_wf s"
  "slave_wf (s\<lparr> stats_invalidFrameworkMessages := d \<rparr>) = slave_wf s"
  by (simp_all add: slave_wf_def)

lemma slave_wf_create:
  assumes "slave_wf s" "fw_wf k0 f1"
  shows "slave_wf (putFramework k0 f1
                     (s\<lparr> s_frameworks := hm_put place k0 f0 (s_frameworks s) \<rparr>))"
proof -
  have "\<forall>(k, f) \<in> set (hm_put place k0 f0 (s_frameworks s)). k \<noteq> k0 \<longrightarrow> fw_wf k f"
    using hm_put_set[of place k0 f0 "s_frameworks s"] assms(1) by (auto simp: slave_wf_def)
  then have "\<forall>(k, f) \<in> set (hm_modify k0 f1 (hm_put place k0 f0 (s_frameworks s))). fw_wf k f"
    using assms(2) by (rule hm_modify_all)
  then show ?thesis using assms(1)
    by (simp add: slave_wf_def putFramework_def hm_keys_modify hm_distinct_put)
qed

lemma slave_wf_subset:
  "slave_wf s \<Longrightarrow> distinct (hm_keys m) \<Longrightarrow> set m \<subseteq> set (s_frameworks s)
     \<Longrightarrow> slave_wf (s\<lparr> s_frameworks := m \<rparr>)"
  by (auto simp: slave_wf_def)

lemma slave_wf_erase: "slave_wf s \<Longrightarrow> slave_wf (s\<lparr> s_frameworks := hm_erase k (s_frameworks s) \<rparr>)"
  by (rule slave_wf_subset) (auto simp: slave_wf_def hm_distinct_erase hm_erase_set)

lemma exec_wf_fresh:
  "exec_wf (ei_executor_id info)
     ((newExecutor frameworkId info directory)
        \<lparr> queuedTasks := hm_put place (td_task_id task) task
             (queuedTasks (newExecutor frameworkId info directory)) \<rparr>)"
  by (simp add: exec_wf_def newExecutor_def hm_put_empty hm_keys_def)

lemma exec_wf_queue:
  assumes "exec_wf k e" "e_pid e = []"
  shows "exec_wf k (e\<lparr> queuedTasks := hm_put place (td_task_id task) task (queuedTasks e) \<rparr>)"
proof -
  have "\<forall>(i, td) \<in> set (hm_put place (td_task_id task) task (queuedTasks e)). td_task_id td = i"
    using assms(1) by (intro hm_put_all) (auto simp: exec_wf_def)
  then show ?thesis using assms
    by (simp add: exec_wf_def hm_distinct_put) (simp add: hm_keys_def)
qed

lemma runTask_wf:
  fixes s :: "('r::{plus,minus,zero}) Slave"
  assumes ok: "slave_wf s"
    and run: "runTask place directory frameworkInfo frameworkId pid task s = Inr (s', effs)"
  shows "slave_wf s'"
proof (cases "getFramework s frameworkId")
  case None
  let ?f = "newFramework frameworkId frameworkInfo pid :: 'r Framework"
  let ?info = "case td_executor task of Some ei \<Rightarrow> ei | None \<Rightarrow> fi_executor frameworkInfo"
  let ?e0 = "newExecutor frameworkId ?info directory :: 'r Executor"
  let ?e1 = "?e0\<lparr> queuedTasks := hm_put place (td_task_id task) task (queuedTasks ?e0) \<rparr>"
  have s': "s' = putFramework frameworkId
                   (putExecutor (ei_executor_id ?info) ?e1
                      (?f\<lparr> f_executors := hm_put place (ei_executor_id ?info) ?e0 (f_executors ?f) \<rparr>))
                   (s\<lparr> s_frameworks := hm_put place frameworkId ?f (s_frameworks s) \<rparr>)"
    using run None
    by (auto simp: runTask_def Let_def newFramework_def getExecutor_def hm_get_empty
                  createExecutor_def hm_contains_def split: option.splits)
  have "fw_wf frameworkId
          (putExecutor (ei_executor_id ?info) ?e1
             (?f\<lparr> f_executors := hm_put place (ei_executor_id ?info) ?e0 (f_executors ?f) \<rparr>))"
    by (rule fw_wf_create) (simp_all add: newFramework_def hm_keys_def exec_wf_fresh)
  then show ?thesis unfolding s' using ok by (intro slave_wf_create)
next
  case (Some framework)
  let ?info = "case td_executor task of Some ei \<Rightarrow> ei | None \<Rightarrow> fi_executor (f_info framework)"
  have fw: "fw_wf frameworkId framework" using ok Some by (rule slave_wf_getFramework)
  show ?thesis
  proof (cases "getExecutor framework (ei_executor_id ?info)")
    case None
    let ?e0 = "newExecutor (f_id framework) ?info directory :: 'r Executor"
    let ?e1 = "?e0\<lparr> queuedTasks := hm_put place (td_task_id task) task (queuedTasks ?e0) \<rparr>"
    have nc: "\<not> hm_contains (f_executors framework) (ei_executor_id ?info)"
      using None by (simp add: getExecutor_def hm_get_contains)
    have s': "s' = putFramework frameworkId
                     (putExecutor (ei_executor_id ?info) ?e1
                        (framework\<lparr> f_executors :=
                            hm_put place (ei_executor_id ?info) ?e0 (f_executors framework) \<rparr>)) s"
      using run Some None nc by (simp add: runTask_def Let_def createExecutor_def)
    have "fw_wf frameworkId
            (putExecutor (ei_executor_id ?info) ?e1
               (framework\<lparr> f_executors :=
                   hm_put place (ei_executor_id ?info) ?e0 (f_executors framework) \<rparr>))"
      using fw by (intro fw_wf_create) (simp_all add: fw_wf_def exec_wf_fresh)
    then show ?thesis unfolding s' using ok by (intro slave_wf_putFramework)
  next
    case (Some executor)
    have ex: "exec_wf (ei_executor_id ?info) executor" using fw Some by (rule fw_wf_getExecutor)
    show ?thesis
    proof (cases "e_pid executor = []")
      case True
      have s': "s' = putFramework frameworkId
                       (putExecutor (ei_executor_id ?info)
                          (executor\<lparr> queuedTasks :=
                              hm_put place (td_task_id task) task (queuedTasks executor) \<rparr>)
                          framework) s"
        using run \<open>getFramework s frameworkId = Some framework\<close> Some True
        by (simp add: runTask_def Let_def)
      show ?thesis unfolding s'
        by (intro slave_wf_putFramework fw_wf_putExecutor exec_wf_queue ok fw ex True)
    next
      case False
      then obtain executor1 where a: "addTask place task executor = Inr executor1"
        and s': "s' = (putFramework frameworkId
                         (putExecutor (ei_executor_id ?info) executor1 framework) s)
                        \<lparr> stats_tasks := bump_tasks TASK_STARTING (stats_tasks s) \<rparr>"
        using run \<open>getFramework s frameworkId = Some framework\<close> Some
        by (auto simp: runTask_def Let_def split: sum.splits)
      have "exec_wf (ei_executor_id ?info) executor1" using ex False a by (rule addTask_wf)
      then show ?thesis unfolding s'
        by (simp add: slave_wf_fields slave_wf_putFramework fw_wf_putExecutor ok fw)
    qed
  qed
qed

lemma flushQueued_result_wf:
  fixes e :: "('r::{plus,minus,zero}) Executor"
  assumes "distinct (map td_task_id ts)"
    and "set (map td_task_id ts) \<inter> set (hm_keys (launchedTasks e)) = {}"
  shows "\<exists>e'. flushQueued place f ts e tasks =
            Inr (e', (bump_tasks TASK_STARTING ^^ length ts) tasks,
                 map (\<lambda>t. Send (e_pid e) (RunTaskMessage (f_info f) (f_id f) (f_pid f) t)) ts)
          \<and> e' = e\<lparr> launchedTasks := launchedTasks e', e_resources := e_resources e' \<rparr>
          \<and> mset (hm_keys (launchedTasks e'))
              = mset (hm_keys (launchedTasks e)) + mset (map td_task_id ts)
          \<and> (distinct (hm_keys (launchedTasks e)) \<longrightarrow> distinct (hm_keys (launchedTasks e')))"
  using assms
proof (induction ts arbitrary: e tasks)
  case Nil
  then show ?case by simp
next
  case (Cons t ts)
  let ?task = "\<lparr> t_name = td_name t, t_task_id = td_task_id t,
                  t_framework_id = e_frameworkId e, t_executor_id = e_id e,
                  t_slave_id = td_slave_id t, t_state = TASK_STARTING,
                  t_resources = td_resources t \<rparr>"
  let ?e1 = "e\<lparr> launchedTasks := hm_put place (td_task_id t) ?task (launchedTasks e),
                e_resources := e_resources e + td_resources t \<rparr>"
  have nc: "\<not> hm_contains (launchedTasks e) (td_task_id t)"
    using Cons.prems(2) by (auto simp: hm_contains_keys)
  then have a: "addTask place t e = Inr ?e1"
    by (simp add: addTask_Inr)
  have k1: "mset (hm_keys (launchedTasks ?e1))
              = add_mset (td_task_id t) (mset (hm_keys (launchedTasks e)))"
    using nc by (simp add: hm_keys_put_new)
  then have "set (hm_keys (launchedTasks ?e1))
              = insert (td_task_id t) (set (hm_keys (launchedTasks e)))"
    by (metis set_mset_add_mset_insert set_mset_mset)
  then have p2: "set (map td_task_id ts) \<inter> set (hm_keys (launchedTasks ?e1)) = {}"
    using Cons.prems by auto
  have p1: "distinct (map td_task_id ts)" using Cons.prems(1) by simp
  obtain e' where
    fl: "flushQueued place f ts ?e1 (bump_tasks TASK_STARTING tasks) =
            Inr (e', (bump_tasks TASK_STARTING ^^ length ts) (bump_tasks TASK_STARTING tasks),
                 map (\<lambda>t. Send (e_pid ?e1) (RunTaskMessage (f_info f) (f_id f) (f_pid f) t)) ts)"
    and eq: "e' = ?e1\<lparr> launchedTasks := launchedTasks e', e_resources := e_resources e' \<rparr>"
    and ks: "mset (hm_keys (launchedTasks e'))
              = mset (hm_keys (launchedTasks ?e1)) + mset (map td_task_id ts)"
    and ds: "distinct (hm_keys (launchedTasks ?e1)) \<longrightarrow> distinct (hm_keys (launchedTasks e'))"
    using Cons.IH[OF p1 p2, of "bump_tasks TASK_STARTING tasks"] by blast
  have c1: "flushQueued place f (t # ts) e tasks =
            Inr (e', (bump_tasks TASK_STARTING ^^ length (t # ts)) tasks,
                 map (\<lambda>t. Send (e_pid e) (RunTaskMessage (f_info f) (f_id f) (f_pid f) t))
                   (t # ts))"
    using a fl by (simp add: funpow_swap1)
  have c2: "e' = e\<lparr> launchedTasks := launchedTasks e', e_resources := e_resources e' \<rparr>"
    by (subst eq) simp
  have c3: "mset (hm_keys (launchedTasks e'))
              = mset (hm_keys (launchedTasks e)) + mset (map td_task_id (t # ts))"
    using ks k1 by simp
  have c4: "distinct (hm_keys (launchedTasks e)) \<longrightarrow> distinct (hm_keys (launchedTasks e'))"
    using ds by (simp add: hm_distinct_put)
  show ?case using c1 c2 c3 c4 by blast
qed

lemma registerExecutor_success_wf:
  fixes s :: "('r::{plus,minus,zero}) Slave"
  assumes ok: "slave_wf s"
    and gf: "getFramework s frameworkId = Some f"
    and ge: "getExecutor f executorId = Some e"
    and pid: "e_pid e = []"
  shows "\<exists>e'. registerExecutor place from frameworkId executorId s =
            Inr ((putFramework frameworkId (putExecutor executorId e' f) s)
                   \<lparr> stats_tasks :=
                       (bump_tasks TASK_STARTING ^^ length (queuedTasks e)) (stats_tasks s) \<rparr>,
                 Dispatch (ResourcesChanged frameworkId executorId (e_resources e))
                 # Send from (ExecutorRegisteredMessage
                     \<lparr> ea_framework_id = frameworkId, ea_executor_id = executorId,
                       ea_slave_id = s_id s, ea_hostname = si_hostname (s_info s),
                       ea_data = ei_data (e_info e) \<rparr>)
                 # map (\<lambda>t. Send from (RunTaskMessage (f_info f) frameworkId (f_pid f) t))
                     (hm_values (queuedTasks e)))
          \<and> e' = e\<lparr> e_pid := from, queuedTasks := [], launchedTasks := launchedTasks e',
                     e_resources := e_resources e' \<rparr>
          \<and> mset (hm_keys (launchedTasks e')) = mset (hm_keys (queuedTasks e))
          \<and> distinct (hm_keys (launchedTasks e'))"
proof -
  have fw: "fw_wf frameworkId f" using ok gf by (rule slave_wf_getFramework)
  have ex: "exec_wf executorId e" using fw ge by (rule fw_wf_getExecutor)
  have fid: "f_id f = frameworkId" using fw by (simp add: fw_wf_def)
  have eid: "e_id e = executorId" using ex by (simp add: exec_wf_def)
  have l0: "launchedTasks e = []" using ex pid by (simp add: exec_wf_def)
  have qi: "map td_task_id (hm_values (queuedTasks e)) = hm_keys (queuedTasks e)"
    using ex by (intro queued_ids) (simp add: exec_wf_def)
  let ?e1 = "e\<lparr> e_pid := from \<rparr>"
  have d: "distinct (map td_task_id (hm_values (queuedTasks ?e1)))"
    using ex qi by (simp add: exec_wf_def)
  have i: "set (map td_task_id (hm_values (queuedTasks ?e1)))
             \<inter> set (hm_keys (launchedTasks ?e1)) = {}"
    using l0 by (simp add: hm_keys_def)
  obtain e2 where
    fl: "flushQueued place f (hm_values (queuedTasks ?e1)) ?e1 (stats_tasks s) =
            Inr (e2, (bump_tasks TASK_STARTING ^^ length (hm_values (queuedTasks ?e1)))
                       (stats_tasks s),
                 map (\<lambda>t. Send (e_pid ?e1) (RunTaskMessage (f_info f) (f_id f) (f_pid f) t))
                   (hm_values (queuedTasks ?e1)))"
    and eq: "e2 = ?e1\<lparr> launchedTasks := launchedTasks e2, e_resources := e_resources e2 \<rparr>"
    and ks: "mset (hm_keys (launchedTasks e2))
              = mset (hm_keys (launchedTasks ?e1))
                + mset (map td_task_id (hm_values (queuedTasks ?e1)))"
    and ds: "distinct (hm_keys (launchedTasks ?e1)) \<longrightarrow> distinct (hm_keys (launchedTasks e2))"
    using flushQueued_result_wf[OF d i, of place f "stats_tasks s"] by blast
  let ?e' = "e2\<lparr> queuedTasks := [] \<rparr>"
  have r: "registerExecutor place from frameworkId executorId s =
            Inr ((putFramework frameworkId (putExecutor executorId ?e' f) s)
                   \<lparr> stats_tasks :=
                       (bump_tasks TASK_STARTING ^^ length (queuedTasks e)) (stats_tasks s) \<rparr>,
                 Dispatch (ResourcesChanged frameworkId executorId (e_resources e))
                 # Send from (ExecutorRegisteredMessage
                     \<lparr> ea_framework_id = frameworkId, ea_executor_id = executorId,
                       ea_slave_id = s_id s, ea_hostname = si_hostname (s_info s),
                       ea_data = ei_data (e_info e) \<rparr>)
                 # map (\<lambda>t. Send from (RunTaskMessage (f_info f) frameworkId (f_pid f) t))
                     (hm_values (queuedTasks e)))"
    using gf ge pid fl by (simp add: registerExecutor_def Let_def fid eid hm_values_def)
  have e1: "?e' = e\<lparr> e_pid := from, queuedTasks := [], launchedTasks := launchedTasks ?e',
                     e_resources := e_resources ?e' \<rparr>"
    by (subst eq) simp
  have e2: "mset (hm_keys (launchedTasks ?e')) = mset (hm_keys (queuedTasks e))"
    using ks l0 qi by (simp add: hm_keys_def)
  have e3: "distinct (hm_keys (launchedTasks ?e'))"
    using ds l0 by (simp add: hm_keys_def)
  show ?thesis using r e1 e2 e3 by blast
qed

lemma registerExecutor_wf:
  fixes s :: "('r::{plus,minus,zero}) Slave"
  assumes ok: "slave_wf s" and sender: "from \<noteq> []"
    and reg: "registerExecutor place from frameworkId executorId s = Inr (s', effs)"
  shows "slave_wf s'"
proof (cases "getFramework s frameworkId")
  case None
  then show ?thesis using reg ok by (simp add: registerExecutor_def)
next
  case (Some f)
  note gf = this
  show ?thesis
  proof (cases "getExecutor f executorId")
    case None
    then show ?thesis using reg ok gf by (simp add: registerExecutor_def)
  next
    case (Some e)
    show ?thesis
    proof (cases "e_pid e = []")
      case False
      then show ?thesis using reg ok gf Some by (simp add: registerExecutor_def)
    next
      case True
      have fw: "fw_wf frameworkId f" using ok gf by (rule slave_wf_getFramework)
      have ex: "exec_wf executorId e" using fw Some by (rule fw_wf_getExecutor)
      obtain e' where
        s': "s' = (putFramework frameworkId (putExecutor executorId e' f) s)
                    \<lparr> stats_tasks :=
                        (bump_tasks TASK_STARTING ^^ length (queuedTasks e)) (stats_tasks s) \<rparr>"
        and eq: "e' = e\<lparr> e_pid := from, queuedTasks := [], launchedTasks := launchedTasks e',
                         e_resources := e_resources e' \<rparr>"
        and ds: "distinct (hm_keys (launchedTasks e'))"
        using registerExecutor_success_wf[OF ok gf Some True, of place "from"] reg by auto
      have "e_id e' = e_id e" "e_pid e' = from" "queuedTasks e' = []"
        by (subst eq, simp)+
      then have "exec_wf executorId e'"
        using ex ds sender by (simp add: exec_wf_def hm_keys_def)
      then show ?thesis unfolding s'
        by (simp add: slave_wf_fields slave_wf_putFramework fw_wf_putExecutor ok fw)
    qed
  qed
qed

lemma statusUpdate_wf:
  fixes s :: "('r::{plus,minus,zero}) Slave"
  assumes ok: "slave_wf s" and st: "statusUpdate place update s = (s', effs)"
  shows "slave_wf s'"
proof (cases "getFramework s (su_framework_id update)")
  case None
  then show ?thesis using st ok by (auto simp: statusUpdate_def Let_def slave_wf_fields)
next
  case (Some f)
  have fw: "fw_wf (su_framework_id update) f" using ok Some by (rule slave_wf_getFramework)
  show ?thesis
  proof (cases "getExecutorByTask f (ts_task_id (su_status update))")
    case None
    then show ?thesis using st ok Some by (auto simp: statusUpdate_def Let_def slave_wf_fields)
  next
    case (Some ke)
    obtain k e where ke: "ke = (k, e)" by (cases ke)
    have ex: "exec_wf k e" using fw Some unfolding ke by (rule fw_wf_getExecutorByTask)
    let ?tid = "ts_task_id (su_status update)"
    let ?e1 = "updateTaskState ?tid (ts_state (su_status update)) e"
    let ?e2 = "if terminal (ts_state (su_status update)) then removeTask ?tid ?e1 else ?e1"
    have e2: "exec_wf k ?e2"
      using ex by (simp add: updateTaskState_wf removeTask_wf)
    have "fw_wf (su_framework_id update)
            ((putExecutor k ?e2 f)
               \<lparr> f_updates := hm_put place ?tid update (f_updates (putExecutor k ?e2 f)) \<rparr>)"
      using fw e2 by (simp add: fw_wf_fields fw_wf_putExecutor)
    moreover have "s' = (putFramework (su_framework_id update)
                 ((putExecutor k ?e2 f)
                    \<lparr> f_updates := hm_put place ?tid update (f_updates (putExecutor k ?e2 f)) \<rparr>)
                 s)
               \<lparr> stats_tasks := bump_tasks (ts_state (su_status update)) (stats_tasks s),
                 stats_validStatusUpdates := stats_validStatusUpdates s + 1 \<rparr>"
      using st \<open>getFramework s (su_framework_id update) = Some f\<close> Some ke
      by (auto simp: statusUpdate_def Let_def)
    ultimately show ?thesis using ok by (simp add: slave_wf_fields slave_wf_putFramework)
  qed
qed

lemma killTask_wf:
  fixes s :: "('r::{plus,minus,zero}) Slave"
  assumes ok: "slave_wf s" and kt: "killTask now frameworkId taskId s = (s', effs)"
  shows "slave_wf s'"
proof (cases "getFramework s frameworkId")
  case None
  then show ?thesis using kt ok by (auto simp: killTask_def)
next
  case (Some f)
  have fw: "fw_wf frameworkId f" using ok Some by (rule slave_wf_getFramework)
  show ?thesis
  proof (cases "getExecutorByTask f taskId")
    case None
    then show ?thesis using kt ok Some by (auto simp: killTask_def)
  next
    case (Some ke)
    obtain k e where ke: "ke = (k, e)" by (cases ke)
    have ex: "exec_wf k e" using fw Some unfolding ke by (rule fw_wf_getExecutorByTask)
    show ?thesis
    proof (cases "e_pid e = []")
      case True
      then have "s' = putFramework frameworkId (putExecutor k (removeTask taskId e) f) s"
        using kt \<open>getFramework s frameworkId = Some f\<close> Some ke
        by (auto simp: killTask_def Let_def)
      then show ?thesis
        using ok fw ex by (simp add: slave_wf_putFramework fw_wf_putExecutor removeTask_wf)
    next
      case False
      then show ?thesis
        using kt ok \<open>getFramework s frameworkId = Some f\<close> Some ke by (auto simp: killTask_def)
    qed
  qed
qed

lemma removeFramework_wf: "slave_wf s \<Longrightarrow> slave_wf (fst (removeFramework f b s))"
  by (simp add: removeFramework_state slave_wf_erase)

lemma removeFrameworks_wf: "slave_wf s \<Longrightarrow> slave_wf (fst (removeFrameworks fs s))"
proof (induction fs arbitrary: s)
  case Nil
  then show ?case by simp
next
  case (Cons f fs)
  have "slave_wf (fst (removeFramework f True s))" using Cons.prems by (rule removeFramework_wf)
  then have "slave_wf (fst (removeFrameworks fs (fst (removeFramework f True s))))"
    by (rule Cons.IH)
  then show ?case by (simp add: case_prod_beta)
qed

lemma executorExited_wf:
  fixes s :: "('r::{plus,minus,zero}) Slave"
  assumes ok: "slave_wf s"
  shows "slave_wf (fst (executorExited frameworkId executorId status s))"
proof (cases "getFramework s frameworkId")
  case None
  then show ?thesis using ok by (simp add: executorExited_def)
next
  case (Some f)
  have fw: "fw_wf frameworkId f" using ok Some by (rule slave_wf_getFramework)
  show ?thesis
  proof (cases "getExecutor f executorId")
    case None
    then show ?thesis using ok Some by (simp add: executorExited_def)
  next
    case (Some e)
    let ?f1 = "f\<lparr> f_executors := hm_erase (e_id e) (f_executors f) \<rparr>"
    show ?thesis
    proof (cases "hm_erase (e_id e) (f_executors f) = []")
      case True
      have "fst (executorExited frameworkId executorId status s)
              = fst (removeFramework ?f1 True (putFramework frameworkId ?f1 s))"
        using \<open>getFramework s frameworkId = Some f\<close> Some True
        by (simp add: executorExited_def Let_def removeExecutor_def destroyExecutor_erase
                 split: prod.splits)
      also have "\<dots> = s\<lparr> s_frameworks := hm_erase frameworkId (s_frameworks s) \<rparr>"
        using fw by (simp add: removeFramework_state putFramework_def hm_erase_modify fw_wf_def)
      finally show ?thesis using ok by (simp add: slave_wf_erase)
    next
      case False
      have "fst (executorExited frameworkId executorId status s)
              = putFramework frameworkId ?f1 s"
        using \<open>getFramework s frameworkId = Some f\<close> Some False
        by (simp add: executorExited_def Let_def removeExecutor_def destroyExecutor_erase)
      moreover have "fw_wf frameworkId ?f1"
        using fw False by (auto simp: fw_wf_def hm_distinct_erase hm_erase_set)
      ultimately show ?thesis using ok by (simp add: slave_wf_putFramework)
    qed
  qed
qed

lemma handle_wf:
  fixes s :: "('r::{plus,minus,zero}) Slave"
  assumes ok: "slave_wf s" and wf: "wf_event ev" and h: "handle place ev s = Inr (s', effs)"
  shows "slave_wf s'"
proof (cases ev)
  case (NewMasterDetected pid)
  then show ?thesis using h ok
    by (auto simp: newMasterDetected_def Let_def slave_wf_fields split: if_splits)
next
  case NoMasterDetected
  then show ?thesis using h ok by (auto simp: noMasterDetected_def)
next
  case (SlaveRegistered slaveId)
  then show ?thesis using h ok by (auto simp: registered_def slave_wf_fields)
next
  case (SlaveReregistered slaveId)
  then show ?thesis using h ok by (auto simp: reregistered_def split: if_splits)
next
  case (RunTask directory frameworkInfo frameworkId pid task)
  then show ?thesis using h ok runTask_wf by auto
next
  case (KillTask now frameworkId taskId)
  then show ?thesis using h ok killTask_wf by auto
next
  case (KillFramework frameworkId)
  then show ?thesis using h ok removeFramework_wf[of s]
    by (auto simp: killFramework_def split: option.splits) (metis fst_conv)
next
  case (FrameworkToExecutor slaveId frameworkId executorId data)
  then show ?thesis using h ok
    by (auto simp: schedulerMessage_def slave_wf_fields split: option.splits if_splits)
next
  case (UpdateFramework frameworkId pid)
  then show ?thesis using h ok
    by (auto simp: updateFramework_def fw_wf_fields split: option.splits
             intro!: slave_wf_putFramework dest: slave_wf_getFramework)
next
  case (StatusUpdateAcknowledgement slaveId frameworkId taskId)
  then show ?thesis using h ok
    by (auto simp: statusUpdateAcknowledgement_def fw_wf_fields split: option.splits if_splits
             intro!: slave_wf_putFramework dest: slave_wf_getFramework)
next
  case (RegisterExecutor sender frameworkId executorId)
  then show ?thesis using h ok wf registerExecutor_wf by auto
next
  case (StatusUpdateFromExecutor update)
  then show ?thesis using h ok statusUpdate_wf by auto
next
  case (ExecutorToFramework slaveId frameworkId executorId data)
  then show ?thesis using h ok
    by (auto simp: executorMessage_def slave_wf_fields split: option.splits)
next
  case (PING sender)
  then show ?thesis using h ok by (auto simp: ping_def)
next
  case (StatusUpdateTimeout update)
  then show ?thesis using h ok
    by (auto simp: statusUpdateTimeout_def split: option.splits if_splits)
next
  case (EXITED sender)
  then show ?thesis using h ok by (auto simp: exited_def)
next
  case (ExecutorStarted frameworkId executorId pid)
  then show ?thesis using h ok by (auto simp: executorStarted_def)
next
  case (ExecutorExited frameworkId executorId status)
  then show ?thesis using h executorExited_wf[OF ok, of frameworkId executorId status]
    by auto
next
  case TERMINATE
  then show ?thesis using h removeFrameworks_wf[OF ok, of "hm_values (s_frameworks s)"]
    by (auto simp: terminate_def)
qed

lemma reachable_wf:
  fixes s :: "('r::{plus,minus,zero}) Slave"
  shows "reachable place s \<Longrightarrow> slave_wf s"
proof (induction rule: reachable.induct)
  case (reachable_initial hostname public_hostname res)
  show ?case by (simp add: slave_wf_def initial_def hm_keys_def)
next
  case (reachable_step s ev s' effs)
  then show ?case using handle_wf by blast
qed

section \<open>Who changes an executor's resources\<close>

lemma getFramework_fields:
  "getFramework (s\<lparr> s_master := a \<rparr>) = getFramework s"
  "getFramework (s\<lparr> s_id := b \<rparr>) = getFramework s"
  "getFramework (s\<lparr> stats_tasks := c \<rparr>) = getFramework s"
  "getFramework (s\<lparr> stats_validStatusUpdates := d \<rparr>) = getFramework s"
  "getFramework (s\<lparr> stats_invalidStatusUpdates := d \<rparr>) = getFramework s"
  "getFramework (s\<lparr> stats_validFrameworkMessages := d \<rparr>) = getFramework s"
  "getFramework (s\<lparr> stats_invalidFrameworkMessages := d \<rparr>) = getFramework s"
  by (simp_all add: getFramework_def fun_eq_iff)

lemma getFramework_frameworks:
  "getFramework (s\<lparr> s_frameworks := m \<rparr>) k = hm_get m k"
  by (simp add: getFramework_def)

lemma getExecutor_fields:
  "getExecutor (f\<lparr> f_updates := u \<rparr>) = getExecutor f"
  "getExecutor (f\<lparr> f_pid := p \<rparr>) = getExecutor f"
  by (simp_all add: getExecutor_def fun_eq_iff)















section \<open>The sample run is a run of the slave\<close>

lemma ex_state_reachable:
  assumes "list_all wf_event evs" and "\<not> isl (run ex_place evs ex_initial)"
  shows "reachable ex_place (ex_state evs)"
proof -
  obtain s effs where r: "run ex_place evs ex_initial = Inr (s, effs)"
    using assms(2) by (cases "run ex_place evs ex_initial") auto
  have "reachable ex_place ex_initial"
    unfolding ex_initial_def by (rule reachable_initial)
  then have "reachable ex_place s" using assms(1) r by (rule reachable_run)
  then show ?thesis using r by (simp add: ex_state_def)
qed

section \<open>The resource ledger\<close>





section \<open>Framework messages\<close>

text \<open>
  C7, as the claim states it, fails for \<open>executorMessage\<close>: the handler looks up the
  framework only. Here the executor \<open>E9\<close> is unknown in framework \<open>F1\<close>, and \<open>E1\<close> has not
  registered; both messages are forwarded to the scheduler and counted as valid.
\<close>

theorem executorMessage_unknown_executor_counterexample:
  "hm_contains (s_frameworks (ex_state [ex_runTask ''T1'' 1])) ''F1''
   \<and> \<not> hm_contains (f_executors (the (getFramework (ex_state [ex_runTask ''T1'' 1]) ''F1''))) ''E9''
   \<and> e_pid (the (getExecutor (the (getFramework (ex_state [ex_runTask ''T1'' 1]) ''F1'')) ''E1'')) = []
   \<and> snd (executorMessage ''S7'' ''F1'' ''E9'' ''data'' (ex_state [ex_runTask ''T1'' 1]))
       = [Send ''sched'' (ExecutorToFrameworkMessage ''S7'' ''F1'' ''E9'' ''data'')]
   \<and> snd (executorMessage ''S7'' ''F1'' ''E1'' ''data'' (ex_state [ex_runTask ''T1'' 1]))
       = [Send ''sched'' (ExecutorToFrameworkMessage ''S7'' ''F1'' ''E1'' ''data'')]
   \<and> stats_invalidFrameworkMessages
        (fst (executorMessage ''S7'' ''F1'' ''E9'' ''data'' (ex_state [ex_runTask ''T1'' 1]))) = 0
   \<and> stats_validFrameworkMessages
        (fst (executorMessage ''S7'' ''F1'' ''E9'' ''data'' (ex_state [ex_runTask ''T1'' 1]))) = 1"
  by code_simp

text \<open>
  C7, amended. \<open>schedulerMessage\<close> (FrameworkToExecutor) drops the message and counts it
  invalid when the framework is unknown, the executor is unknown or the executor has not
  registered, and otherwise forwards the payload to the executor's endpoint and counts it
  valid. \<open>executorMessage\<close> (ExecutorToFramework) drops and counts invalid only when the
  framework is unknown; otherwise it forwards the payload to the framework's scheduler
  endpoint and counts it valid, whatever the executor id.
\<close>

theorem framework_messages:
  "(getFramework s frameworkId = None \<longrightarrow>
      schedulerMessage slaveId frameworkId executorId data s =
        (s\<lparr> stats_invalidFrameworkMessages := stats_invalidFrameworkMessages s + 1 \<rparr>, []))
   \<and> (\<forall>f. getFramework s frameworkId = Some f \<and> getExecutor f executorId = None \<longrightarrow>
      schedulerMessage slaveId frameworkId executorId data s =
        (s\<lparr> stats_invalidFrameworkMessages := stats_invalidFrameworkMessages s + 1 \<rparr>, []))
   \<and> (\<forall>f e. getFramework s frameworkId = Some f \<and> getExecutor f executorId = Some e
         \<and> e_pid e = [] \<longrightarrow>
      schedulerMessage slaveId frameworkId executorId data s =
        (s\<lparr> stats_invalidFrameworkMessages := stats_invalidFrameworkMessages s + 1 \<rparr>, []))
   \<and> (\<forall>f e. getFramework s frameworkId = Some f \<and> getExecutor f executorId = Some e
         \<and> e_pid e \<noteq> [] \<longrightarrow>
      schedulerMessage slaveId frameworkId executorId data s =
        (s\<lparr> stats_validFrameworkMessages := stats_validFrameworkMessages s + 1 \<rparr>,
         [Send (e_pid e) (FrameworkToExecutorMessage slaveId frameworkId executorId data)]))
   \<and> (getFramework s frameworkId = None \<longrightarrow>
      executorMessage slaveId frameworkId executorId data s =
        (s\<lparr> stats_invalidFrameworkMessages := stats_invalidFrameworkMessages s + 1 \<rparr>, []))
   \<and> (\<forall>f. getFramework s frameworkId = Some f \<longrightarrow>
      executorMessage slaveId frameworkId executorId data s =
        (s\<lparr> stats_validFrameworkMessages := stats_validFrameworkMessages s + 1 \<rparr>,
         [Send (f_pid f) (ExecutorToFrameworkMessage slaveId frameworkId executorId data)]))"
  by (simp add: schedulerMessage_def executorMessage_def)

theorem framework_messages_witness:
  "getFramework ex_initial ''F1'' = None
   \<and> schedulerMessage ''S7'' ''F1'' ''E1'' ''data'' ex_initial =
       (ex_initial\<lparr> stats_invalidFrameworkMessages :=
                      stats_invalidFrameworkMessages ex_initial + 1 \<rparr>, [])
   \<and> executorMessage ''S7'' ''F1'' ''E1'' ''data'' ex_initial =
       (ex_initial\<lparr> stats_invalidFrameworkMessages :=
                      stats_invalidFrameworkMessages ex_initial + 1 \<rparr>, [])
   \<and> (\<exists>f. getFramework (ex_state [ex_runTask ''T1'' 1]) ''F1'' = Some f
        \<and> getExecutor f ''E9'' = None
        \<and> schedulerMessage ''S7'' ''F1'' ''E9'' ''data'' (ex_state [ex_runTask ''T1'' 1]) =
            ((ex_state [ex_runTask ''T1'' 1])
               \<lparr> stats_invalidFrameworkMessages :=
                   stats_invalidFrameworkMessages (ex_state [ex_runTask ''T1'' 1]) + 1 \<rparr>, [])
        \<and> executorMessage ''S7'' ''F1'' ''E9'' ''data'' (ex_state [ex_runTask ''T1'' 1]) =
            ((ex_state [ex_runTask ''T1'' 1])
               \<lparr> stats_validFrameworkMessages :=
                   stats_validFrameworkMessages (ex_state [ex_runTask ''T1'' 1]) + 1 \<rparr>,
             [Send (f_pid f) (ExecutorToFrameworkMessage ''S7'' ''F1'' ''E9'' ''data'')]))
   \<and> (\<exists>f e. getFramework (ex_state [ex_runTask ''T1'' 1]) ''F1'' = Some f
        \<and> getExecutor f ''E1'' = Some e \<and> e_pid e = []
        \<and> schedulerMessage ''S7'' ''F1'' ''E1'' ''data'' (ex_state [ex_runTask ''T1'' 1]) =
            ((ex_state [ex_runTask ''T1'' 1])
               \<lparr> stats_invalidFrameworkMessages :=
                   stats_invalidFrameworkMessages (ex_state [ex_runTask ''T1'' 1]) + 1 \<rparr>, []))
   \<and> (\<exists>f e. getFramework
                (ex_state [ex_runTask ''T1'' 1, RegisterExecutor ''X'' ''F1'' ''E1'']) ''F1''
              = Some f
        \<and> getExecutor f ''E1'' = Some e \<and> e_pid e \<noteq> []
        \<and> schedulerMessage ''S7'' ''F1'' ''E1'' ''data''
            (ex_state [ex_runTask ''T1'' 1, RegisterExecutor ''X'' ''F1'' ''E1'']) =
            ((ex_state [ex_runTask ''T1'' 1, RegisterExecutor ''X'' ''F1'' ''E1''])
               \<lparr> stats_validFrameworkMessages :=
                   stats_validFrameworkMessages
                     (ex_state [ex_runTask ''T1'' 1, RegisterExecutor ''X'' ''F1'' ''E1'']) + 1 \<rparr>,
             [Send (e_pid e) (FrameworkToExecutorMessage ''S7'' ''F1'' ''E1'' ''data'')]))"
proof -
  let ?q = "ex_state [ex_runTask ''T1'' 1]"
  let ?r = "ex_state [ex_runTask ''T1'' 1, RegisterExecutor ''X'' ''F1'' ''E1'']"
  have h1: "getFramework ex_initial ''F1'' = None" by code_simp
  have h2: "case getFramework ?q ''F1'' of None \<Rightarrow> False
            | Some f \<Rightarrow> getExecutor f ''E9'' = None" by code_simp
  have h3: "case getFramework ?q ''F1'' of None \<Rightarrow> False
            | Some f \<Rightarrow> (case getExecutor f ''E1'' of None \<Rightarrow> False
                         | Some e \<Rightarrow> e_pid e = [])" by code_simp
  have h4: "case getFramework ?r ''F1'' of None \<Rightarrow> False
            | Some f \<Rightarrow> (case getExecutor f ''E1'' of None \<Rightarrow> False
                         | Some e \<Rightarrow> e_pid e \<noteq> [])" by code_simp
  obtain f2 where f2: "getFramework ?q ''F1'' = Some f2" "getExecutor f2 ''E9'' = None"
    using h2 by (auto split: option.splits)
  obtain f3 e3 where f3: "getFramework ?q ''F1'' = Some f3" "getExecutor f3 ''E1'' = Some e3"
      "e_pid e3 = []"
    using h3 by (auto split: option.splits)
  obtain f4 e4 where f4: "getFramework ?r ''F1'' = Some f4" "getExecutor f4 ''E1'' = Some e4"
      "e_pid e4 \<noteq> []"
    using h4 by (auto split: option.splits)
  note m1 = framework_messages[of ex_initial "''F1''" "''S7''" "''E1''" "''data''"]
  note m2 = framework_messages[of ?q "''F1''" "''S7''" "''E9''" "''data''"]
  note m3 = framework_messages[of ?q "''F1''" "''S7''" "''E1''" "''data''"]
  note m4 = framework_messages[of ?r "''F1''" "''S7''" "''E1''" "''data''"]
  have w1: "schedulerMessage ''S7'' ''F1'' ''E1'' ''data'' ex_initial =
       (ex_initial\<lparr> stats_invalidFrameworkMessages :=
                      stats_invalidFrameworkMessages ex_initial + 1 \<rparr>, [])"
    and w1': "executorMessage ''S7'' ''F1'' ''E1'' ''data'' ex_initial =
       (ex_initial\<lparr> stats_invalidFrameworkMessages :=
                      stats_invalidFrameworkMessages ex_initial + 1 \<rparr>, [])"
    using m1 h1 by blast+
  have w2: "schedulerMessage ''S7'' ''F1'' ''E9'' ''data'' ?q =
            (?q\<lparr> stats_invalidFrameworkMessages := stats_invalidFrameworkMessages ?q + 1 \<rparr>, [])"
    and w2': "executorMessage ''S7'' ''F1'' ''E9'' ''data'' ?q =
            (?q\<lparr> stats_validFrameworkMessages := stats_validFrameworkMessages ?q + 1 \<rparr>,
             [Send (f_pid f2) (ExecutorToFrameworkMessage ''S7'' ''F1'' ''E9'' ''data'')])"
    using m2 f2 by blast+
  have w3: "schedulerMessage ''S7'' ''F1'' ''E1'' ''data'' ?q =
            (?q\<lparr> stats_invalidFrameworkMessages := stats_invalidFrameworkMessages ?q + 1 \<rparr>, [])"
    using m3 f3 by blast
  have w4: "schedulerMessage ''S7'' ''F1'' ''E1'' ''data'' ?r =
            (?r\<lparr> stats_validFrameworkMessages := stats_validFrameworkMessages ?r + 1 \<rparr>,
             [Send (e_pid e4) (FrameworkToExecutorMessage ''S7'' ''F1'' ''E1'' ''data'')])"
    using m4 f4 by blast
  show ?thesis using h1 w1 w1' f2 w2 w2' f3 w3 f4 w4 by blast
qed

section \<open>Re-registration with a new master\<close>

lemma launched_tasks_mset: "mset (launched_tasks s) = spec_launched_tasks s"
  by (simp add: launched_tasks_def spec_launched_tasks_def mset_concat sum_mset_sum_list[symmetric]
                comp_def del: sum_mset_sum_list)

text \<open>
  C9. When the slave id is not empty, \<open>newMasterDetected\<close> records the master, links to it
  and sends it one \<open>ReregisterSlave\<close> message; the tasks of the message are, as a multiset,
  the launched tasks of all executors of all frameworks. Queued tasks are not in it.
\<close>

theorem newMasterDetected_reregisters:
  assumes "s_id s \<noteq> []"
  shows "\<exists>tasks. newMasterDetected pid s =
           (s\<lparr> s_master := pid \<rparr>,
            [Link pid, Send pid (ReregisterSlaveMessage (s_id s) (s_info s) tasks)])
         \<and> mset tasks = spec_launched_tasks s"
proof -
  have "launched_tasks (s\<lparr> s_master := pid \<rparr>) = launched_tasks s"
    by (simp add: launched_tasks_def)
  then show ?thesis using assms
    by (simp add: newMasterDetected_def Let_def launched_tasks_mset)
qed

theorem newMasterDetected_reregisters_witness:
  "s_id (ex_state [ex_runTask ''T1'' 1, RegisterExecutor ''X'' ''F1'' ''E1'',
                   SlaveRegistered ''S7'']) \<noteq> []
   \<and> (\<exists>tasks. newMasterDetected ''master2''
                 (ex_state [ex_runTask ''T1'' 1, RegisterExecutor ''X'' ''F1'' ''E1'',
                            SlaveRegistered ''S7'']) =
           ((ex_state [ex_runTask ''T1'' 1, RegisterExecutor ''X'' ''F1'' ''E1'',
                       SlaveRegistered ''S7''])\<lparr> s_master := ''master2'' \<rparr>,
            [Link ''master2'',
             Send ''master2''
               (ReregisterSlaveMessage
                  (s_id (ex_state [ex_runTask ''T1'' 1, RegisterExecutor ''X'' ''F1'' ''E1'',
                                   SlaveRegistered ''S7'']))
                  (s_info (ex_state [ex_runTask ''T1'' 1, RegisterExecutor ''X'' ''F1'' ''E1'',
                                     SlaveRegistered ''S7'']))
                  tasks)])
         \<and> mset tasks =
             spec_launched_tasks
               (ex_state [ex_runTask ''T1'' 1, RegisterExecutor ''X'' ''F1'' ''E1'',
                          SlaveRegistered ''S7'']))"
proof -
  have h: "s_id (ex_state [ex_runTask ''T1'' 1, RegisterExecutor ''X'' ''F1'' ''E1'',
                           SlaveRegistered ''S7'']) \<noteq> []"
    by code_simp
  show ?thesis using h newMasterDetected_reregisters[OF h, of "''master2''"] by (rule conjI)
qed

section \<open>Status updates\<close>





section \<open>RegisterExecutor\<close>

text \<open>
  C8. In a state the slave can be in, \<open>registerExecutor\<close> answers \<open>Shutdown\<close> to the sender
  and leaves the state as it is when the framework is unknown, when the framework has no
  executor of that id, and when the executor's pid is not empty. In the remaining case
  (the executor is known and its pid is empty) the handler returns, the executor's pid
  in the new state is the sender, and no \<open>Shutdown\<close> is sent.
\<close>

theorem registerExecutor_guards:
  fixes s :: "('r::{plus,minus,zero}) Slave"
  assumes "reachable place s"
  shows "(getFramework s frameworkId = None \<longrightarrow>
            registerExecutor place from frameworkId executorId s =
              Inr (s, [Send from ShutdownMessage]))
       \<and> (\<forall>f. getFramework s frameworkId = Some f \<and> getExecutor f executorId = None \<longrightarrow>
            registerExecutor place from frameworkId executorId s =
              Inr (s, [Send from ShutdownMessage]))
       \<and> (\<forall>f e. getFramework s frameworkId = Some f \<and> getExecutor f executorId = Some e
              \<and> e_pid e \<noteq> [] \<longrightarrow>
            registerExecutor place from frameworkId executorId s =
              Inr (s, [Send from ShutdownMessage]))
       \<and> (\<forall>f e. getFramework s frameworkId = Some f \<and> getExecutor f executorId = Some e
              \<and> e_pid e = [] \<longrightarrow>
            (\<exists>s' effs f' e'.
               registerExecutor place from frameworkId executorId s = Inr (s', effs)
               \<and> getFramework s' frameworkId = Some f'
               \<and> getExecutor f' executorId = Some e'
               \<and> e_pid e' = from
               \<and> Send from ShutdownMessage \<notin> set effs))"
proof -
  have ok: "slave_wf s" using assms by (rule reachable_wf)
  have c1: "getFramework s frameworkId = None \<longrightarrow>
            registerExecutor place from frameworkId executorId s =
              Inr (s, [Send from ShutdownMessage])"
    by (simp add: registerExecutor_def)
  have c2: "\<forall>f. getFramework s frameworkId = Some f \<and> getExecutor f executorId = None \<longrightarrow>
            registerExecutor place from frameworkId executorId s =
              Inr (s, [Send from ShutdownMessage])"
    by (simp add: registerExecutor_def)
  have c3: "\<forall>f e. getFramework s frameworkId = Some f \<and> getExecutor f executorId = Some e
              \<and> e_pid e \<noteq> [] \<longrightarrow>
            registerExecutor place from frameworkId executorId s =
              Inr (s, [Send from ShutdownMessage])"
    by (simp add: registerExecutor_def)
  have c4: "\<forall>f e. getFramework s frameworkId = Some f \<and> getExecutor f executorId = Some e
              \<and> e_pid e = [] \<longrightarrow>
            (\<exists>s' effs f' e'.
               registerExecutor place from frameworkId executorId s = Inr (s', effs)
               \<and> getFramework s' frameworkId = Some f'
               \<and> getExecutor f' executorId = Some e'
               \<and> e_pid e' = from
               \<and> Send from ShutdownMessage \<notin> set effs)"
  proof (intro allI impI, elim conjE)
    fix f e
    assume gf: "getFramework s frameworkId = Some f"
      and ge: "getExecutor f executorId = Some e" and pid: "e_pid e = []"
    obtain e' where
      r: "registerExecutor place from frameworkId executorId s =
            Inr ((putFramework frameworkId (putExecutor executorId e' f) s)
                   \<lparr> stats_tasks :=
                       (bump_tasks TASK_STARTING ^^ length (queuedTasks e)) (stats_tasks s) \<rparr>,
                 Dispatch (ResourcesChanged frameworkId executorId (e_resources e))
                 # Send from (ExecutorRegisteredMessage
                     \<lparr> ea_framework_id = frameworkId, ea_executor_id = executorId,
                       ea_slave_id = s_id s, ea_hostname = si_hostname (s_info s),
                       ea_data = ei_data (e_info e) \<rparr>)
                 # map (\<lambda>t. Send from (RunTaskMessage (f_info f) frameworkId (f_pid f) t))
                     (hm_values (queuedTasks e)))"
      and eq: "e' = e\<lparr> e_pid := from, queuedTasks := [], launchedTasks := launchedTasks e',
                       e_resources := e_resources e' \<rparr>"
      using registerExecutor_success_wf[OF ok gf ge pid, of place "from"] by blast
    have p: "e_pid e' = from" by (subst eq) simp
    have g1: "getFramework
                ((putFramework frameworkId (putExecutor executorId e' f) s)
                   \<lparr> stats_tasks :=
                       (bump_tasks TASK_STARTING ^^ length (queuedTasks e)) (stats_tasks s) \<rparr>)
                frameworkId = Some (putExecutor executorId e' f)"
      using getFramework_contains[OF gf]
      by (simp add: getFramework_fields getFramework_putFramework)
    have g2: "getExecutor (putExecutor executorId e' f) executorId = Some e'"
      using getExecutor_contains[OF ge] by (simp add: getExecutor_putExecutor)
    have ns: "Send from ShutdownMessage \<notin> set
                (Dispatch (ResourcesChanged frameworkId executorId (e_resources e))
                 # Send from (ExecutorRegisteredMessage
                     \<lparr> ea_framework_id = frameworkId, ea_executor_id = executorId,
                       ea_slave_id = s_id s, ea_hostname = si_hostname (s_info s),
                       ea_data = ei_data (e_info e) \<rparr>)
                 # map (\<lambda>t. Send from (RunTaskMessage (f_info f) frameworkId (f_pid f) t))
                     (hm_values (queuedTasks e)))"
      by auto
    show "\<exists>s' effs f' e'.
               registerExecutor place from frameworkId executorId s = Inr (s', effs)
               \<and> getFramework s' frameworkId = Some f'
               \<and> getExecutor f' executorId = Some e'
               \<and> e_pid e' = from
               \<and> Send from ShutdownMessage \<notin> set effs"
      using r g1 g2 p ns by blast
  qed
  show ?thesis using c1 c2 c3 c4 by blast
qed

theorem registerExecutor_guards_witness:
  "reachable ex_place ex_initial
   \<and> getFramework ex_initial ''F1'' = None
   \<and> registerExecutor ex_place ''X'' ''F1'' ''E1'' ex_initial =
       Inr (ex_initial, [Send ''X'' ShutdownMessage])
   \<and> reachable ex_place (ex_state [ex_runTask ''T1'' 1])
   \<and> (\<exists>f. getFramework (ex_state [ex_runTask ''T1'' 1]) ''F1'' = Some f
        \<and> getExecutor f ''E9'' = None
        \<and> registerExecutor ex_place ''X'' ''F1'' ''E9'' (ex_state [ex_runTask ''T1'' 1]) =
            Inr (ex_state [ex_runTask ''T1'' 1], [Send ''X'' ShutdownMessage]))
   \<and> (\<exists>f e. getFramework (ex_state [ex_runTask ''T1'' 1]) ''F1'' = Some f
        \<and> getExecutor f ''E1'' = Some e \<and> e_pid e = []
        \<and> (\<exists>s' effs f' e'.
              registerExecutor ex_place ''X'' ''F1'' ''E1'' (ex_state [ex_runTask ''T1'' 1]) =
                Inr (s', effs)
              \<and> getFramework s' ''F1'' = Some f'
              \<and> getExecutor f' ''E1'' = Some e'
              \<and> e_pid e' = ''X''
              \<and> Send ''X'' ShutdownMessage \<notin> set effs))
   \<and> reachable ex_place (ex_state [ex_runTask ''T1'' 1, RegisterExecutor ''X'' ''F1'' ''E1''])
   \<and> (\<exists>f e. getFramework
                (ex_state [ex_runTask ''T1'' 1, RegisterExecutor ''X'' ''F1'' ''E1'']) ''F1''
              = Some f
        \<and> getExecutor f ''E1'' = Some e \<and> e_pid e \<noteq> []
        \<and> registerExecutor ex_place ''Y'' ''F1'' ''E1''
              (ex_state [ex_runTask ''T1'' 1, RegisterExecutor ''X'' ''F1'' ''E1'']) =
            Inr (ex_state [ex_runTask ''T1'' 1, RegisterExecutor ''X'' ''F1'' ''E1''],
                 [Send ''Y'' ShutdownMessage]))"
proof -
  let ?q = "ex_state [ex_runTask ''T1'' 1]"
  let ?r = "ex_state [ex_runTask ''T1'' 1, RegisterExecutor ''X'' ''F1'' ''E1'']"
  have r0: "reachable ex_place ex_initial"
    unfolding ex_initial_def by (rule reachable_initial)
  have r1: "reachable ex_place ?q" by (rule ex_state_reachable; code_simp)
  have r2: "reachable ex_place ?r" by (rule ex_state_reachable; code_simp)
  have h1: "getFramework ex_initial ''F1'' = None" by code_simp
  have h2: "case getFramework ?q ''F1'' of None \<Rightarrow> False
            | Some f \<Rightarrow> getExecutor f ''E9'' = None" by code_simp
  have h3: "case getFramework ?q ''F1'' of None \<Rightarrow> False
            | Some f \<Rightarrow> (case getExecutor f ''E1'' of None \<Rightarrow> False
                         | Some e \<Rightarrow> e_pid e = [])" by code_simp
  have h4: "case getFramework ?r ''F1'' of None \<Rightarrow> False
            | Some f \<Rightarrow> (case getExecutor f ''E1'' of None \<Rightarrow> False
                         | Some e \<Rightarrow> e_pid e \<noteq> [])" by code_simp
  obtain f2 where f2: "getFramework ?q ''F1'' = Some f2" "getExecutor f2 ''E9'' = None"
    using h2 by (auto split: option.splits)
  obtain f3 e3 where f3: "getFramework ?q ''F1'' = Some f3" "getExecutor f3 ''E1'' = Some e3"
      "e_pid e3 = []"
    using h3 by (auto split: option.splits)
  obtain f4 e4 where f4: "getFramework ?r ''F1'' = Some f4" "getExecutor f4 ''E1'' = Some e4"
      "e_pid e4 \<noteq> []"
    using h4 by (auto split: option.splits)
  note g1 = registerExecutor_guards[OF r0, of "''F1''" "''X''" "''E1''"]
  note g2 = registerExecutor_guards[OF r1, of "''F1''" "''X''" "''E9''"]
  note g3 = registerExecutor_guards[OF r1, of "''F1''" "''X''" "''E1''"]
  note g4 = registerExecutor_guards[OF r2, of "''F1''" "''Y''" "''E1''"]
  have w1: "registerExecutor ex_place ''X'' ''F1'' ''E1'' ex_initial =
       Inr (ex_initial, [Send ''X'' ShutdownMessage])"
    using g1 h1 by blast
  have w2: "registerExecutor ex_place ''X'' ''F1'' ''E9'' ?q =
            Inr (?q, [Send ''X'' ShutdownMessage])"
    using g2 f2 by blast
  have w3: "\<exists>s' effs f' e'.
              registerExecutor ex_place ''X'' ''F1'' ''E1'' ?q = Inr (s', effs)
              \<and> getFramework s' ''F1'' = Some f'
              \<and> getExecutor f' ''E1'' = Some e'
              \<and> e_pid e' = ''X''
              \<and> Send ''X'' ShutdownMessage \<notin> set effs"
    using g3 f3 by blast
  have w4: "registerExecutor ex_place ''Y'' ''F1'' ''E1'' ?r =
            Inr (?r, [Send ''Y'' ShutdownMessage])"
    using g4 f4 by blast
  show ?thesis using r0 h1 w1 r1 f2 w2 f3 w3 r2 f4 w4 by blast
qed

section \<open>A status update for a task that is only queued\<close>

lemma hm_modify_map:
  assumes "distinct (hm_keys m)" "hm_get m k = Some v" "g v' = g v"
  shows "map (\<lambda>kv. (fst kv, g (snd kv))) (hm_modify k v' m) = map (\<lambda>kv. (fst kv, g (snd kv))) m"
proof -
  have "\<And>kv. kv \<in> set m \<Longrightarrow> fst kv = k \<Longrightarrow> snd kv = v"
  proof -
    fix kv assume "kv \<in> set m" "fst kv = k"
    then have "(k, snd kv) \<in> set m" by (metis prod.collapse)
    then have "hm_get m k = Some (snd kv)" using assms(1) by (rule hm_in_get[rotated])
    then show "snd kv = v" using assms(2) by simp
  qed
  then show ?thesis using assms(3) by (auto simp: hm_modify_def)
qed

lemma hm_modify_same:
  assumes "distinct (hm_keys m)" "hm_get m k = Some v"
  shows "hm_modify k v m = m"
proof -
  have "\<And>kv. kv \<in> set m \<Longrightarrow> fst kv = k \<Longrightarrow> kv = (k, v)"
  proof -
    fix kv assume "kv \<in> set m" "fst kv = k"
    then have "(k, snd kv) \<in> set m" by (metis prod.collapse)
    then have "hm_get m k = Some (snd kv)" using assms(1) by (rule hm_in_get[rotated])
    then show "kv = (k, v)" using assms(2) \<open>fst kv = k\<close> by (metis option.inject prod.collapse)
  qed
  then show ?thesis by (simp add: hm_modify_def map_idI)
qed

text \<open>
  C10. In a state the slave can be in, take a status update whose framework is known and
  whose task is launched in no executor of the framework and queued in one. The handler
  takes it as valid: the update is sent to the master with the reliable flag and its
  timeout is delayed, it is stored in the framework's \<open>updates\<close> under the task id,
  \<open>validStatusUpdates\<close> and the counter of the update's state go up by one,
  \<open>invalidStatusUpdates\<close> stays, and the launched tasks of every executor are as before.
  When the state is terminal the task is erased from the queue of the executor found and
  \<open>resourcesChanged\<close> is dispatched with its unchanged resources; otherwise the executors
  are as before.
\<close>

theorem statusUpdate_queued_only:
  fixes s :: "('r::{plus,minus,zero}) Slave"
  assumes "reachable place s"
    and "getFramework s (su_framework_id update) = Some f"
    and "\<forall>(k, e) \<in> set (f_executors f).
           \<not> hm_contains (launchedTasks e) (ts_task_id (su_status update))"
    and "\<exists>(k, e) \<in> set (f_executors f).
           hm_contains (queuedTasks e) (ts_task_id (su_status update))"
  shows "\<exists>s' f' k e e'.
           getExecutorByTask f (ts_task_id (su_status update)) = Some (k, e)
           \<and> statusUpdate place update s =
               (s', (if terminal (ts_state (su_status update))
                     then [Dispatch (ResourcesChanged (su_framework_id update) k (e_resources e))]
                     else [])
                    @ [Send (s_master s) (StatusUpdateMessage update True), Delay update])
           \<and> getFramework s' (su_framework_id update) = Some f'
           \<and> map (\<lambda>ke. (fst ke, launchedTasks (snd ke))) (f_executors f')
               = map (\<lambda>ke. (fst ke, launchedTasks (snd ke))) (f_executors f)
           \<and> hm_get (f_updates f') (ts_task_id (su_status update)) = Some update
           \<and> stats_validStatusUpdates s' = stats_validStatusUpdates s + 1
           \<and> stats_invalidStatusUpdates s' = stats_invalidStatusUpdates s
           \<and> stats_tasks s' = bump_tasks (ts_state (su_status update)) (stats_tasks s)
           \<and> getExecutor f' k = Some e'
           \<and> (terminal (ts_state (su_status update)) \<longrightarrow>
                 \<not> hm_contains (queuedTasks e') (ts_task_id (su_status update)))
           \<and> (\<not> terminal (ts_state (su_status update)) \<longrightarrow> f_executors f' = f_executors f)"
proof -
  let ?fid = "su_framework_id update"
  let ?tid = "ts_task_id (su_status update)"
  let ?st = "ts_state (su_status update)"
  have ok: "slave_wf s" using assms(1) by (rule reachable_wf)
  have fw: "fw_wf ?fid f" using ok assms(2) by (rule slave_wf_getFramework)
  have "getExecutorByTask f ?tid \<noteq> None"
    using assms(4) by (auto simp: getExecutorByTask_None)
  then obtain k e where ge: "getExecutorByTask f ?tid = Some (k, e)" by auto
  have mem: "(k, e) \<in> set (f_executors f)" using getExecutorByTask_Some[OF ge] by simp
  have ex: "exec_wf k e" using fw ge by (rule fw_wf_getExecutorByTask)
  have gk: "getExecutor f k = Some e" using fw ge by (rule getExecutorByTask_getExecutor_wf)
  have nl: "hm_get (launchedTasks e) ?tid = None"
    using assms(3) mem by (auto simp: hm_get_contains)
  have u: "updateTaskState ?tid ?st e = e" using nl by (simp add: updateTaskState_def)
  have rm: "removeTask ?tid e = e\<lparr> queuedTasks := hm_erase ?tid (queuedTasks e) \<rparr>"
    using nl by (simp add: removeTask_def Let_def)
  let ?e2 = "if terminal ?st then e\<lparr> queuedTasks := hm_erase ?tid (queuedTasks e) \<rparr> else e"
  let ?f1 = "putExecutor k ?e2 f"
  let ?f2 = "?f1\<lparr> f_updates := hm_put place ?tid update (f_updates ?f1) \<rparr>"
  let ?s' = "(putFramework ?fid ?f2 s)
               \<lparr> stats_tasks := bump_tasks ?st (stats_tasks s),
                 stats_validStatusUpdates := stats_validStatusUpdates s + 1 \<rparr>"
  have ids: "f_id f = ?fid" "e_id e = k" using fw ex by (auto simp: fw_wf_def exec_wf_def)
  have c1: "statusUpdate place update s =
               (?s', (if terminal ?st
                      then [Dispatch (ResourcesChanged ?fid k (e_resources e))] else [])
                     @ [Send (s_master s) (StatusUpdateMessage update True), Delay update])"
    using assms(2) ge u rm ids by (simp add: statusUpdate_def Let_def)
  have c2: "getFramework ?s' ?fid = Some ?f2"
    using getFramework_contains[OF assms(2)]
    by (simp add: getFramework_fields getFramework_putFramework)
  have d: "distinct (hm_keys (f_executors f))" using fw by (simp add: fw_wf_def)
  have gk': "hm_get (f_executors f) k = Some e" using gk by (simp add: getExecutor_def)
  have c3: "map (\<lambda>ke. (fst ke, launchedTasks (snd ke))) (f_executors ?f2)
               = map (\<lambda>ke. (fst ke, launchedTasks (snd ke))) (f_executors f)"
    using hm_modify_map[OF d gk', of launchedTasks ?e2] by (simp add: putExecutor_def)
  have c4: "hm_get (f_updates ?f2) ?tid = Some update" by (simp add: hm_get_put)
  have c5: "stats_validStatusUpdates ?s' = stats_validStatusUpdates s + 1"
    "stats_invalidStatusUpdates ?s' = stats_invalidStatusUpdates s"
    "stats_tasks ?s' = bump_tasks ?st (stats_tasks s)"
    by (simp_all add: putFramework_def)
  have c6: "getExecutor ?f2 k = Some ?e2"
    using getExecutor_contains[OF gk] by (simp add: getExecutor_fields getExecutor_putExecutor)
  have c7: "terminal ?st \<longrightarrow> \<not> hm_contains (queuedTasks ?e2) ?tid"
    by (simp add: hm_get_contains hm_get_erase)
  have c8: "\<not> terminal ?st \<longrightarrow> f_executors ?f2 = f_executors f"
    using hm_modify_same[OF d gk'] by (simp add: putExecutor_def)
  show ?thesis using ge c1 c2 c3 c4 c5 c6 c7 c8 by blast
qed

theorem statusUpdate_queued_only_witness:
  "reachable ex_place (ex_state [ex_runTask ''T1'' 1])
   \<and> (\<exists>f. getFramework (ex_state [ex_runTask ''T1'' 1])
              (su_framework_id (ex_update ''T1'' TASK_KILLED)) = Some f
        \<and> (\<forall>(k, e) \<in> set (f_executors f).
              \<not> hm_contains (launchedTasks e) (ts_task_id (su_status (ex_update ''T1'' TASK_KILLED))))
        \<and> (\<exists>(k, e) \<in> set (f_executors f).
              hm_contains (queuedTasks e) (ts_task_id (su_status (ex_update ''T1'' TASK_KILLED))))
        \<and> (\<exists>s' f' k e e'.
              getExecutorByTask f (ts_task_id (su_status (ex_update ''T1'' TASK_KILLED)))
                = Some (k, e)
              \<and> statusUpdate ex_place (ex_update ''T1'' TASK_KILLED)
                    (ex_state [ex_runTask ''T1'' 1]) =
                  (s', (if terminal (ts_state (su_status (ex_update ''T1'' TASK_KILLED)))
                        then [Dispatch (ResourcesChanged
                                (su_framework_id (ex_update ''T1'' TASK_KILLED)) k
                                (e_resources e))]
                        else [])
                       @ [Send (s_master (ex_state [ex_runTask ''T1'' 1]))
                            (StatusUpdateMessage (ex_update ''T1'' TASK_KILLED) True),
                          Delay (ex_update ''T1'' TASK_KILLED)])
              \<and> getFramework s' (su_framework_id (ex_update ''T1'' TASK_KILLED)) = Some f'
              \<and> map (\<lambda>ke. (fst ke, launchedTasks (snd ke))) (f_executors f')
                  = map (\<lambda>ke. (fst ke, launchedTasks (snd ke))) (f_executors f)
              \<and> hm_get (f_updates f') (ts_task_id (su_status (ex_update ''T1'' TASK_KILLED)))
                  = Some (ex_update ''T1'' TASK_KILLED)
              \<and> stats_validStatusUpdates s'
                  = stats_validStatusUpdates (ex_state [ex_runTask ''T1'' 1]) + 1
              \<and> stats_invalidStatusUpdates s'
                  = stats_invalidStatusUpdates (ex_state [ex_runTask ''T1'' 1])
              \<and> stats_tasks s'
                  = bump_tasks (ts_state (su_status (ex_update ''T1'' TASK_KILLED)))
                      (stats_tasks (ex_state [ex_runTask ''T1'' 1]))
              \<and> getExecutor f' k = Some e'
              \<and> (terminal (ts_state (su_status (ex_update ''T1'' TASK_KILLED))) \<longrightarrow>
                    \<not> hm_contains (queuedTasks e')
                        (ts_task_id (su_status (ex_update ''T1'' TASK_KILLED))))
              \<and> (\<not> terminal (ts_state (su_status (ex_update ''T1'' TASK_KILLED))) \<longrightarrow>
                    f_executors f' = f_executors f)))
   \<and> statusUpdate ex_place (ex_update ''T1'' TASK_KILLED) (ex_state [ex_runTask ''T1'' 1]) =
       (ex_state [ex_runTask ''T1'' 1, StatusUpdateFromExecutor (ex_update ''T1'' TASK_KILLED)],
        [Dispatch (ResourcesChanged ''F1'' ''E1'' 0),
         Send [] (StatusUpdateMessage (ex_update ''T1'' TASK_KILLED) True),
         Delay (ex_update ''T1'' TASK_KILLED)])
   \<and> terminal (ts_state (su_status (ex_update ''T1'' TASK_KILLED)))"
proof -
  let ?q = "ex_state [ex_runTask ''T1'' 1]"
  let ?u = "ex_update ''T1'' TASK_KILLED"
  have r: "reachable ex_place ?q" by (rule ex_state_reachable; code_simp)
  have h: "case getFramework ?q (su_framework_id ?u) of
             None \<Rightarrow> False
           | Some f \<Rightarrow>
               (\<forall>(k, e) \<in> set (f_executors f).
                  \<not> hm_contains (launchedTasks e) (ts_task_id (su_status ?u)))
               \<and> (\<exists>(k, e) \<in> set (f_executors f).
                  hm_contains (queuedTasks e) (ts_task_id (su_status ?u)))"
    by code_simp
  then obtain f where gf: "getFramework ?q (su_framework_id ?u) = Some f"
    and nl: "\<forall>(k, e) \<in> set (f_executors f).
               \<not> hm_contains (launchedTasks e) (ts_task_id (su_status ?u))"
    and qd: "\<exists>(k, e) \<in> set (f_executors f).
               hm_contains (queuedTasks e) (ts_task_id (su_status ?u))"
    by (auto split: option.splits)
  have v: "statusUpdate ex_place ?u ?q =
       (ex_state [ex_runTask ''T1'' 1, StatusUpdateFromExecutor ?u],
        [Dispatch (ResourcesChanged ''F1'' ''E1'' 0),
         Send [] (StatusUpdateMessage ?u True), Delay ?u])"
    by code_simp
  have t: "terminal (ts_state (su_status ?u))" by code_simp
  note w = statusUpdate_queued_only[OF r gf nl qd]
  show ?thesis
    apply (intro conjI r v t)
    apply (rule exI[of _ f])
    apply (intro conjI gf nl qd w)
    done
qed

section \<open>When a framework goes away\<close>

lemma getFramework_None: "getFramework s k = None \<longleftrightarrow> \<not> hm_contains (s_frameworks s) k"
  by (simp add: getFramework_def hm_get_contains)

lemma hm_contains_modify: "hm_contains (hm_modify k v m) k' = hm_contains m k'"
  by (simp add: hm_contains_keys hm_keys_modify)

lemma hm_contains_put: "hm_contains m k' \<Longrightarrow> hm_contains (hm_put place k v m) k'"
  by (simp add: hm_get_contains hm_get_put)

lemma hm_contains_erase: "hm_contains (hm_erase k m) k' \<longleftrightarrow> k' \<noteq> k \<and> hm_contains m k'"
  by (simp add: hm_get_contains hm_get_erase)

lemma runTask_keeps:
  assumes "runTask place directory frameworkInfo frameworkId pid task s = Inr (s', effs)"
    and "hm_contains (s_frameworks s) k"
  shows "hm_contains (s_frameworks s') k"
  using assms
  by (auto simp: runTask_def Let_def putFramework_def hm_contains_modify hm_contains_put
           split: option.splits sum.splits if_splits)

lemma registerExecutor_keeps:
  assumes "registerExecutor place from frameworkId executorId s = Inr (s', effs)"
    and "hm_contains (s_frameworks s) k"
  shows "hm_contains (s_frameworks s') k"
  using assms
  by (auto simp: registerExecutor_def Let_def putFramework_def hm_contains_modify
           split: option.splits sum.splits if_splits)

lemma statusUpdate_keeps:
  assumes "statusUpdate place update s = (s', effs)" and "hm_contains (s_frameworks s) k"
  shows "hm_contains (s_frameworks s') k"
  using assms
  by (auto simp: statusUpdate_def Let_def putFramework_def hm_contains_modify
           split: option.splits if_splits)

lemma killTask_keeps:
  assumes "killTask now frameworkId taskId s = (s', effs)" and "hm_contains (s_frameworks s) k"
  shows "hm_contains (s_frameworks s') k"
  using assms
  by (auto simp: killTask_def Let_def putFramework_def hm_contains_modify
           split: option.splits if_splits)

lemma hm_erase_last:
  assumes "distinct (hm_keys m)" "hm_contains m k" "hm_erase k m = []"
  shows "hm_keys m = [k]"
proof -
  have all: "\<forall>x \<in> set (hm_keys m). x = k"
    using assms(3) hm_keys_erase[of k m]
    by (auto simp: hm_keys_def filter_empty_conv empty_filter_conv)
  obtain a rest where m: "hm_keys m = a # rest"
    using assms(2) by (cases "hm_keys m") (auto simp: hm_contains_keys)
  have "rest = []"
  proof (cases rest)
    case Nil
    then show ?thesis .
  next
    case (Cons b rest')
    then have "a = k" "b = k" using all m by auto
    then show ?thesis using assms(1) m Cons by simp
  qed
  then show ?thesis using all m by simp
qed

lemma hm_erase_only: "hm_keys m = [k] \<Longrightarrow> hm_erase k m = []"
  by (cases m) (auto simp: hm_keys_def hm_erase_def)

lemma executorExited_state:
  fixes s :: "('r::{plus,minus,zero}) Slave"
  assumes ok: "slave_wf s" and gf: "getFramework s frameworkId = Some f"
    and ge: "getExecutor f executorId = Some e"
  shows "fst (executorExited frameworkId executorId status s) =
           (if hm_keys (f_executors f) = [executorId]
            then s\<lparr> s_frameworks := hm_erase frameworkId (s_frameworks s) \<rparr>
            else putFramework frameworkId
                   (f\<lparr> f_executors := hm_erase executorId (f_executors f) \<rparr>) s)"
proof -
  have fw: "fw_wf frameworkId f" using ok gf by (rule slave_wf_getFramework)
  have ex: "exec_wf executorId e" using fw ge by (rule fw_wf_getExecutor)
  have eid: "e_id e = executorId" using ex by (simp add: exec_wf_def)
  let ?f1 = "f\<lparr> f_executors := hm_erase executorId (f_executors f) \<rparr>"
  have iff: "hm_erase executorId (f_executors f) = [] \<longleftrightarrow> hm_keys (f_executors f) = [executorId]"
    using hm_erase_last[of "f_executors f" executorId] hm_erase_only[of "f_executors f" executorId]
      fw getExecutor_contains[OF ge]
    by (auto simp: fw_wf_def)
  show ?thesis
  proof (cases "hm_erase executorId (f_executors f) = []")
    case True
    have "fst (executorExited frameworkId executorId status s)
              = fst (removeFramework ?f1 True (putFramework frameworkId ?f1 s))"
      using gf ge True eid
      by (simp add: executorExited_def Let_def removeExecutor_def destroyExecutor_erase
               split: prod.splits)
    also have "\<dots> = s\<lparr> s_frameworks := hm_erase frameworkId (s_frameworks s) \<rparr>"
      using fw by (simp add: removeFramework_state putFramework_def hm_erase_modify fw_wf_def)
    finally show ?thesis using True iff by simp
  next
    case False
    have "fst (executorExited frameworkId executorId status s) = putFramework frameworkId ?f1 s"
      using gf ge False eid
      by (simp add: executorExited_def Let_def removeExecutor_def destroyExecutor_erase)
    then show ?thesis using False iff by simp
  qed
qed

lemma handle_drops:
  fixes s :: "('r::{plus,minus,zero}) Slave"
  assumes ok: "slave_wf s" and h: "handle place ev s = Inr (s', effs)"
    and gf: "getFramework s k = Some f" and gone: "getFramework s' k = None"
  shows "ev = KillFramework k \<or> ev = TERMINATE
         \<or> (\<exists>executorId status. ev = ExecutorExited k executorId status
               \<and> hm_keys (f_executors f) = [executorId])"
proof -
  have c: "hm_contains (s_frameworks s) k" using gf by (rule getFramework_contains)
  have n: "\<not> hm_contains (s_frameworks s') k" using gone by (simp add: getFramework_None)
  show ?thesis
  proof (cases ev)
    case (NewMasterDetected pid)
    then show ?thesis using h c n by (auto simp: newMasterDetected_def Let_def split: if_splits)
  next
    case NoMasterDetected
    then show ?thesis using h c n by (auto simp: noMasterDetected_def)
  next
    case (SlaveRegistered slaveId)
    then show ?thesis using h c n by (auto simp: registered_def)
  next
    case (SlaveReregistered slaveId)
    then show ?thesis using h c n by (auto simp: reregistered_def split: if_splits)
  next
    case (RunTask directory frameworkInfo frameworkId pid task)
    then show ?thesis using h n by (auto dest: runTask_keeps[OF _ c])
  next
    case (KillTask now frameworkId taskId)
    then show ?thesis using h n by (auto dest: killTask_keeps[OF _ c])
  next
    case (KillFramework frameworkId)
    show ?thesis
    proof (cases "getFramework s frameworkId")
      case None
      then show ?thesis using h c n KillFramework by (simp add: killFramework_def)
    next
      case (Some f0)
      have "f_id f0 = frameworkId"
        using slave_wf_getFramework[OF ok Some] by (simp add: fw_wf_def)
      then have "s' = s\<lparr> s_frameworks := hm_erase frameworkId (s_frameworks s) \<rparr>"
        using h KillFramework Some removeFramework_state[of f0 True s]
        by (auto simp: killFramework_def)
      then show ?thesis using c n KillFramework by (auto simp: hm_contains_erase)
    qed
  next
    case (FrameworkToExecutor slaveId frameworkId executorId data)
    then show ?thesis using h c n
      by (auto simp: schedulerMessage_def split: option.splits if_splits)
  next
    case (UpdateFramework frameworkId pid)
    then show ?thesis using h c n
      by (auto simp: updateFramework_def putFramework_def hm_contains_modify split: option.splits)
  next
    case (StatusUpdateAcknowledgement slaveId frameworkId taskId)
    then show ?thesis using h c n
      by (auto simp: statusUpdateAcknowledgement_def putFramework_def hm_contains_modify
               split: option.splits if_splits)
  next
    case (RegisterExecutor sender frameworkId executorId)
    then show ?thesis using h n by (auto dest: registerExecutor_keeps[OF _ c])
  next
    case (StatusUpdateFromExecutor update)
    then show ?thesis using h n by (auto dest: statusUpdate_keeps[OF _ c])
  next
    case (ExecutorToFramework slaveId frameworkId executorId data)
    then show ?thesis using h c n by (auto simp: executorMessage_def split: option.splits)
  next
    case (PING sender)
    then show ?thesis using h c n by (auto simp: ping_def)
  next
    case (StatusUpdateTimeout update)
    then show ?thesis using h c n
      by (auto simp: statusUpdateTimeout_def split: option.splits if_splits)
  next
    case (EXITED sender)
    then show ?thesis using h c n by (auto simp: exited_def)
  next
    case (ExecutorStarted frameworkId executorId pid)
    then show ?thesis using h c n by (auto simp: executorStarted_def)
  next
    case (ExecutorExited frameworkId executorId status)
    then have s': "s' = fst (executorExited frameworkId executorId status s)"
      using h by auto
    show ?thesis
    proof (cases "getFramework s frameworkId")
      case None
      then show ?thesis using s' c n by (simp add: executorExited_def)
    next
      case (Some f0)
      note g0 = this
      show ?thesis
      proof (cases "getExecutor f0 executorId")
        case None
        then show ?thesis using s' c n g0 by (simp add: executorExited_def)
      next
        case (Some e)
        note st = executorExited_state[OF ok g0 Some, of status]
        show ?thesis
        proof (cases "hm_keys (f_executors f0) = [executorId]")
          case True
          then have "k = frameworkId"
            using st s' c n by (auto simp: hm_contains_erase)
          then show ?thesis using True g0 gf ExecutorExited by auto
        next
          case False
          then show ?thesis using st s' c n
            by (auto simp: putFramework_def hm_contains_modify)
        qed
      qed
    qed
  next
    case TERMINATE
    then show ?thesis by simp
  qed
qed

text \<open>
  C3, as the claim states it, fails: an unacknowledged update does not keep a framework.
  After \<open>RunTask\<close>, \<open>RegisterExecutor\<close> and a \<open>TASK_RUNNING\<close> update, framework \<open>F1\<close> holds
  the update of \<open>T1\<close>; the exit of its only executor removes the framework, and the
  handler is \<open>executorExited\<close>, not \<open>killFramework\<close>.
\<close>

theorem framework_dropped_with_update_counterexample:
  "\<not> isl (run ex_place
            [ex_runTask ''T1'' 1, RegisterExecutor ''X'' ''F1'' ''E1'',
             StatusUpdateFromExecutor (ex_update ''T1'' TASK_RUNNING)] ex_initial)
   \<and> hm_contains
        (f_updates (the (getFramework
           (ex_state [ex_runTask ''T1'' 1, RegisterExecutor ''X'' ''F1'' ''E1'',
                      StatusUpdateFromExecutor (ex_update ''T1'' TASK_RUNNING)]) ''F1''))) ''T1''
   \<and> handle ex_place (ExecutorExited ''F1'' ''E1'' 137)
        (ex_state [ex_runTask ''T1'' 1, RegisterExecutor ''X'' ''F1'' ''E1'',
                   StatusUpdateFromExecutor (ex_update ''T1'' TASK_RUNNING)])
      = Inr (ex_state [ex_runTask ''T1'' 1, RegisterExecutor ''X'' ''F1'' ''E1'',
                       StatusUpdateFromExecutor (ex_update ''T1'' TASK_RUNNING),
                       ExecutorExited ''F1'' ''E1'' 137],
             [Send [] (ExitedExecutorMessage [] ''F1'' ''E1'' 137)])
   \<and> getFramework
        (ex_state [ex_runTask ''T1'' 1, RegisterExecutor ''X'' ''F1'' ''E1'',
                   StatusUpdateFromExecutor (ex_update ''T1'' TASK_RUNNING),
                   ExecutorExited ''F1'' ''E1'' 137]) ''F1'' = None"
  by code_simp

text \<open>
  C3, amended. In every state the slave can be in, every framework of the map has an
  executor. A handler takes a framework out of the map only if it is \<open>KillFramework\<close> for
  that framework, \<open>TERMINATE\<close>, or \<open>ExecutorExited\<close> for the framework's only executor.
  \<open>KillFramework\<close> removes the framework, and so does the exit of its only executor,
  whatever its \<open>updates\<close> hold.
\<close>

theorem framework_retention:
  fixes s :: "('r::{plus,minus,zero}) Slave"
  assumes "reachable place s"
  shows "(\<forall>(k, f) \<in> set (s_frameworks s). f_executors f \<noteq> [])
       \<and> (\<forall>ev s' effs k f.
             handle place ev s = Inr (s', effs) \<and> getFramework s k = Some f
             \<and> getFramework s' k = None
             \<longrightarrow> ev = KillFramework k \<or> ev = TERMINATE
                 \<or> (\<exists>executorId status. ev = ExecutorExited k executorId status
                       \<and> hm_keys (f_executors f) = [executorId]))
       \<and> (\<forall>k f. getFramework s k = Some f
             \<longrightarrow> getFramework (fst (killFramework k s)) k = None)
       \<and> (\<forall>k f executorId status.
             getFramework s k = Some f \<and> hm_keys (f_executors f) = [executorId]
             \<longrightarrow> getFramework (fst (executorExited k executorId status s)) k = None)"
proof -
  have ok: "slave_wf s" using assms by (rule reachable_wf)
  then have c1: "\<forall>(k, f) \<in> set (s_frameworks s). f_executors f \<noteq> []"
    by (fastforce simp: slave_wf_def fw_wf_def)
  have c2: "\<forall>ev s' effs k f.
             handle place ev s = Inr (s', effs) \<and> getFramework s k = Some f
             \<and> getFramework s' k = None
             \<longrightarrow> ev = KillFramework k \<or> ev = TERMINATE
                 \<or> (\<exists>executorId status. ev = ExecutorExited k executorId status
                       \<and> hm_keys (f_executors f) = [executorId])"
    using handle_drops[OF ok] by blast
  have c3: "\<forall>k f. getFramework s k = Some f
             \<longrightarrow> getFramework (fst (killFramework k s)) k = None"
  proof (intro allI impI)
    fix k f assume gf: "getFramework s k = Some f"
    have "f_id f = k" using slave_wf_getFramework[OF ok gf] by (simp add: fw_wf_def)
    then show "getFramework (fst (killFramework k s)) k = None"
      using gf by (simp add: killFramework_def removeFramework_state getFramework_frameworks
                             hm_get_erase)
  qed
  have c4: "\<forall>k f executorId status.
             getFramework s k = Some f \<and> hm_keys (f_executors f) = [executorId]
             \<longrightarrow> getFramework (fst (executorExited k executorId status s)) k = None"
  proof (intro allI impI, elim conjE)
    fix k f executorId status
    assume gf: "getFramework s k = Some f" and one: "hm_keys (f_executors f) = [executorId]"
    have "hm_contains (f_executors f) executorId" using one by (simp add: hm_contains_keys)
    then obtain e where ge: "getExecutor f executorId = Some e"
      by (auto simp: getExecutor_def hm_get_contains)
    show "getFramework (fst (executorExited k executorId status s)) k = None"
      using executorExited_state[OF ok gf ge, of status] one
      by (simp add: getFramework_frameworks hm_get_erase)
  qed
  show ?thesis using c1 c2 c3 c4 by blast
qed

theorem framework_retention_witness:
  "reachable ex_place
     (ex_state [ex_runTask ''T1'' 1, RegisterExecutor ''X'' ''F1'' ''E1'',
                StatusUpdateFromExecutor (ex_update ''T1'' TASK_RUNNING)])
   \<and> (\<exists>f. getFramework
              (ex_state [ex_runTask ''T1'' 1, RegisterExecutor ''X'' ''F1'' ''E1'',
                         StatusUpdateFromExecutor (ex_update ''T1'' TASK_RUNNING)]) ''F1''
            = Some f
        \<and> (''F1'', f) \<in> set (s_frameworks
              (ex_state [ex_runTask ''T1'' 1, RegisterExecutor ''X'' ''F1'' ''E1'',
                         StatusUpdateFromExecutor (ex_update ''T1'' TASK_RUNNING)]))
        \<and> f_executors f \<noteq> []
        \<and> hm_keys (f_executors f) = [''E1''])
   \<and> handle ex_place (ExecutorExited ''F1'' ''E1'' 137)
        (ex_state [ex_runTask ''T1'' 1, RegisterExecutor ''X'' ''F1'' ''E1'',
                   StatusUpdateFromExecutor (ex_update ''T1'' TASK_RUNNING)])
      = Inr (ex_state [ex_runTask ''T1'' 1, RegisterExecutor ''X'' ''F1'' ''E1'',
                       StatusUpdateFromExecutor (ex_update ''T1'' TASK_RUNNING),
                       ExecutorExited ''F1'' ''E1'' 137],
             [Send [] (ExitedExecutorMessage [] ''F1'' ''E1'' 137)])
   \<and> getFramework
        (ex_state [ex_runTask ''T1'' 1, RegisterExecutor ''X'' ''F1'' ''E1'',
                   StatusUpdateFromExecutor (ex_update ''T1'' TASK_RUNNING),
                   ExecutorExited ''F1'' ''E1'' 137]) ''F1'' = None
   \<and> getFramework
        (fst (killFramework ''F1''
           (ex_state [ex_runTask ''T1'' 1, RegisterExecutor ''X'' ''F1'' ''E1'',
                      StatusUpdateFromExecutor (ex_update ''T1'' TASK_RUNNING)]))) ''F1'' = None
   \<and> getFramework
        (fst (executorExited ''F1'' ''E1'' 137
           (ex_state [ex_runTask ''T1'' 1, RegisterExecutor ''X'' ''F1'' ''E1'',
                      StatusUpdateFromExecutor (ex_update ''T1'' TASK_RUNNING)]))) ''F1'' = None"
proof -
  let ?s = "ex_state [ex_runTask ''T1'' 1, RegisterExecutor ''X'' ''F1'' ''E1'',
                      StatusUpdateFromExecutor (ex_update ''T1'' TASK_RUNNING)]"
  let ?s' = "ex_state [ex_runTask ''T1'' 1, RegisterExecutor ''X'' ''F1'' ''E1'',
                       StatusUpdateFromExecutor (ex_update ''T1'' TASK_RUNNING),
                       ExecutorExited ''F1'' ''E1'' 137]"
  let ?ev = "ExecutorExited ''F1'' ''E1'' 137 :: int Event"
  let ?effs = "[Send [] (ExitedExecutorMessage [] ''F1'' ''E1'' 137)] :: int Effect list"
  have r: "reachable ex_place ?s" by (rule ex_state_reachable; code_simp)
  have g: "getFramework ?s ''F1'' \<noteq> None" by code_simp
  then obtain f where gf: "getFramework ?s ''F1'' = Some f" by auto
  have m: "(''F1'', f) \<in> set (s_frameworks ?s)"
    using gf by (simp add: getFramework_def hm_get_in)
  have h: "handle ex_place ?ev ?s = Inr (?s', ?effs)" by code_simp
  have n: "getFramework ?s' ''F1'' = None" by code_simp
  note t = framework_retention[OF r]
  have w1: "f_executors f \<noteq> []"
    using bspec[OF t[THEN conjunct1] m] by simp
  have "?ev = KillFramework ''F1'' \<or> ?ev = TERMINATE
        \<or> (\<exists>executorId status. ?ev = ExecutorExited ''F1'' executorId status
              \<and> hm_keys (f_executors f) = [executorId])"
    using t[THEN conjunct2, THEN conjunct1, rule_format, of ?ev ?s' ?effs "''F1''" f] h gf n
    by simp
  then have w2: "hm_keys (f_executors f) = [''E1'']" by simp
  have w3: "getFramework (fst (killFramework ''F1'' ?s)) ''F1'' = None"
    using t[THEN conjunct2, THEN conjunct2, THEN conjunct1, rule_format, of "''F1''" f] gf
    by simp
  have w4: "getFramework (fst (executorExited ''F1'' ''E1'' 137 ?s)) ''F1'' = None"
    using t[THEN conjunct2, THEN conjunct2, THEN conjunct2, rule_format,
            of "''F1''" f "''E1''" 137] gf w2
    by simp
  have w0: "\<exists>f. getFramework ?s ''F1'' = Some f \<and> (''F1'', f) \<in> set (s_frameworks ?s)
              \<and> f_executors f \<noteq> [] \<and> hm_keys (f_executors f) = [''E1'']"
    using gf m w1 w2 by blast
  show ?thesis by (intro conjI r w0 h n w3 w4)
qed

section \<open>Status updates waiting for their acknowledgement\<close>

lemma runTask_framework:
  assumes "runTask place directory frameworkInfo frameworkId pid task s = Inr (s', effs)"
    and "getFramework s k = Some f"
  shows "\<exists>f'. getFramework s' k = Some f' \<and> f_updates f' = f_updates f
              \<and> f_info f' = f_info f \<and> f_pid f' = f_pid f \<and> f_id f' = f_id f"
proof (cases "k = frameworkId")
  case True
  then show ?thesis using assms getFramework_contains[OF assms(2)]
    by (auto simp: runTask_def Let_def getFramework_putFramework getFramework_fields
                   putExecutor_def createExecutor_def
             split: option.splits sum.splits if_splits)
next
  case False
  then have "getFramework s' k = getFramework s k"
    using assms(1)
    by (auto simp: runTask_def Let_def getFramework_def putFramework_def hm_get_modify hm_get_put
             split: option.splits sum.splits if_splits)
  then show ?thesis using assms(2) by simp
qed

lemma registerExecutor_framework:
  assumes "registerExecutor place from frameworkId executorId s = Inr (s', effs)"
    and "getFramework s k = Some f"
  shows "\<exists>f'. getFramework s' k = Some f' \<and> f_updates f' = f_updates f
              \<and> f_info f' = f_info f \<and> f_pid f' = f_pid f \<and> f_id f' = f_id f"
  using assms getFramework_contains[OF assms(2)]
  by (auto simp: registerExecutor_def Let_def getFramework_putFramework getFramework_fields
                 putExecutor_def
           split: option.splits sum.splits if_splits)

lemma killTask_framework:
  assumes "killTask now frameworkId taskId s = (s', effs)"
    and "getFramework s k = Some f"
  shows "\<exists>f'. getFramework s' k = Some f' \<and> f_updates f' = f_updates f
              \<and> f_info f' = f_info f \<and> f_pid f' = f_pid f \<and> f_id f' = f_id f"
  using assms getFramework_contains[OF assms(2)]
  by (auto simp: killTask_def Let_def getFramework_putFramework putExecutor_def
           split: option.splits if_splits)

lemma statusUpdate_framework:
  assumes "statusUpdate place update s = (s', effs)"
    and "getFramework s k = Some f" and "hm_contains (f_updates f) taskId"
  shows "\<exists>f'. getFramework s' k = Some f' \<and> hm_contains (f_updates f') taskId"
  using assms getFramework_contains[OF assms(2)]
  by (auto simp: statusUpdate_def Let_def getFramework_putFramework getFramework_fields
                 putExecutor_def hm_contains_put
           split: option.splits if_splits)

lemma removeFrameworks_framework:
  "getFramework (fst (removeFrameworks fs s)) k = None
   \<or> getFramework (fst (removeFrameworks fs s)) k = getFramework s k"
proof (induction fs arbitrary: s)
  case Nil
  then show ?case by simp
next
  case (Cons f fs)
  have "getFramework (fst (removeFramework f True s)) k = None
        \<or> getFramework (fst (removeFramework f True s)) k = getFramework s k"
    by (simp add: removeFramework_state getFramework_frameworks hm_get_erase)
       (simp add: getFramework_def)
  then show ?case using Cons.IH[of "fst (removeFramework f True s)"]
    by (auto simp: case_prod_beta)
qed

lemma executorExited_framework:
  assumes "executorExited frameworkId executorId status s = (s', effs)"
    and "getFramework s k = Some f" and "getFramework s' k = Some f'"
  shows "f_updates f' = f_updates f"
proof (cases "getFramework s frameworkId")
  case None
  then show ?thesis using assms by (simp add: executorExited_def)
next
  case (Some f0)
  note g0 = this
  show ?thesis
  proof (cases "getExecutor f0 executorId")
    case None
    then show ?thesis using assms g0 by (simp add: executorExited_def)
  next
    case (Some e)
    let ?f1 = "f0\<lparr> f_executors := hm_erase (e_id e) (f_executors f0) \<rparr>"
    have s': "s' = (if hm_erase (e_id e) (f_executors f0) = []
                   then (putFramework frameworkId ?f1 s)
                          \<lparr> s_frameworks :=
                              hm_erase (f_id f0) (s_frameworks (putFramework frameworkId ?f1 s)) \<rparr>
                   else putFramework frameworkId ?f1 s)"
      using assms(1) g0 Some removeFramework_state[of ?f1 True "putFramework frameworkId ?f1 s"]
      by (auto simp: executorExited_def Let_def removeExecutor_def destroyExecutor_erase
               split: prod.splits)
    show ?thesis
      using assms(2,3) g0 getFramework_contains[OF g0] unfolding s'
      by (auto simp: getFramework_frameworks hm_get_erase getFramework_putFramework
                     getFramework_def[symmetric]
               split: if_splits)
  qed
qed

lemma handle_updates:
  fixes s :: "('r::{plus,minus,zero}) Slave"
  assumes h: "handle place ev s = Inr (s', effs)"
    and noack: "\<forall>slaveId. ev \<noteq> StatusUpdateAcknowledgement slaveId k taskId"
    and gf: "getFramework s k = Some f" and c: "hm_contains (f_updates f) taskId"
    and gf': "getFramework s' k = Some f'"
  shows "hm_contains (f_updates f') taskId"
proof (cases ev)
  case (NewMasterDetected pid)
  then show ?thesis using h gf gf' c
    by (auto simp: newMasterDetected_def Let_def getFramework_fields split: if_splits)
next
  case NoMasterDetected
  then show ?thesis using h gf gf' c by (auto simp: noMasterDetected_def)
next
  case (SlaveRegistered slaveId)
  then show ?thesis using h gf gf' c by (auto simp: registered_def getFramework_fields)
next
  case (SlaveReregistered slaveId)
  then show ?thesis using h gf gf' c by (auto simp: reregistered_def split: if_splits)
next
  case (RunTask directory frameworkInfo frameworkId pid task)
  then show ?thesis using h gf' c by (auto dest: runTask_framework[OF _ gf])
next
  case (KillTask now frameworkId taskId)
  then show ?thesis using h gf' c by (auto dest: killTask_framework[OF _ gf])
next
  case (KillFramework frameworkId)
  then show ?thesis using h gf gf' c removeFramework_state[of _ True s]
    by (auto simp: killFramework_def getFramework_frameworks hm_get_erase
             split: option.splits if_splits)
       (metis fst_conv getFramework_def getFramework_frameworks hm_get_erase option.distinct(1)
              option.inject)
next
  case (FrameworkToExecutor slaveId frameworkId executorId data)
  then show ?thesis using h gf gf' c
    by (auto simp: schedulerMessage_def getFramework_fields split: option.splits if_splits)
next
  case (UpdateFramework frameworkId pid)
  then show ?thesis using h gf gf' c
    by (auto simp: updateFramework_def getFramework_putFramework
             split: option.splits if_splits)
next
  case (StatusUpdateAcknowledgement slaveId frameworkId taskId')
  then have "frameworkId \<noteq> k \<or> taskId' \<noteq> taskId" using noack by auto
  then show ?thesis using h gf gf' c StatusUpdateAcknowledgement
    by (auto simp: statusUpdateAcknowledgement_def getFramework_putFramework hm_contains_erase
             split: option.splits if_splits)
next
  case (RegisterExecutor sender frameworkId executorId)
  then show ?thesis using h gf' c by (auto dest: registerExecutor_framework[OF _ gf])
next
  case (StatusUpdateFromExecutor update)
  then show ?thesis using h gf' by (auto dest: statusUpdate_framework[OF _ gf c])
next
  case (ExecutorToFramework slaveId frameworkId executorId data)
  then show ?thesis using h gf gf' c
    by (auto simp: executorMessage_def getFramework_fields split: option.splits)
next
  case (PING sender)
  then show ?thesis using h gf gf' c by (auto simp: ping_def)
next
  case (StatusUpdateTimeout update)
  then show ?thesis using h gf gf' c
    by (auto simp: statusUpdateTimeout_def split: option.splits if_splits)
next
  case (EXITED sender)
  then show ?thesis using h gf gf' c by (auto simp: exited_def)
next
  case (ExecutorStarted frameworkId executorId pid)
  then show ?thesis using h gf gf' c by (auto simp: executorStarted_def)
next
  case (ExecutorExited frameworkId executorId status)
  then obtain x where "executorExited frameworkId executorId status s = (s', x)"
    using h by auto
  then show ?thesis using executorExited_framework[OF _ gf gf'] c by simp
next
  case TERMINATE
  then show ?thesis
    using h gf gf' c removeFrameworks_framework[of "hm_values (s_frameworks s)" s k]
    by (auto simp: terminate_def)
qed

lemma trace_head: "s \<in> set (trace place evs s)"
  by (cases evs) auto

lemma trace_updates:
  fixes s :: "('r::{plus,minus,zero}) Slave"
  assumes "\<forall>ev \<in> set evs. \<forall>slaveId. ev \<noteq> StatusUpdateAcknowledgement slaveId k taskId"
    and "getFramework s k = Some f" and "hm_contains (f_updates f) taskId"
    and "\<forall>s' \<in> set (trace place evs s). getFramework s' k \<noteq> None"
  shows "\<forall>s' \<in> set (trace place evs s).
           \<exists>f'. getFramework s' k = Some f' \<and> hm_contains (f_updates f') taskId"
  using assms
proof (induction evs arbitrary: s f)
  case Nil
  then show ?case by simp
next
  case (Cons ev evs)
  show ?case
  proof (cases "handle place ev s")
    case (Inl err)
    then show ?thesis using Cons.prems(2,3) by simp
  next
    case (Inr p)
    obtain s1 effs where p: "p = (s1, effs)" by (cases p)
    have h: "handle place ev s = Inr (s1, effs)" using Inr p by simp
    have tr: "trace place (ev # evs) s = s # trace place evs s1" using h by simp
    have "s1 \<in> set (trace place (ev # evs) s)" using tr trace_head[of s1 place evs] by simp
    then obtain f1 where g1: "getFramework s1 k = Some f1" using Cons.prems(4) by auto
    have na: "\<forall>slaveId. ev \<noteq> StatusUpdateAcknowledgement slaveId k taskId"
      using Cons.prems(1) by simp
    have c1: "hm_contains (f_updates f1) taskId"
      using handle_updates[OF h na Cons.prems(2,3) g1] .
    have p3: "\<forall>ev \<in> set evs. \<forall>slaveId. ev \<noteq> StatusUpdateAcknowledgement slaveId k taskId"
      using Cons.prems(1) by simp
    have p6: "\<forall>s' \<in> set (trace place evs s1). getFramework s' k \<noteq> None"
      using Cons.prems(4) unfolding tr by simp
    have "\<forall>s' \<in> set (trace place evs s1).
            \<exists>f'. getFramework s' k = Some f' \<and> hm_contains (f_updates f') taskId"
      by (rule Cons.IH[OF p3 g1 c1 p6])
    then show ?thesis unfolding tr using Cons.prems(2,3) by simp
  qed
qed

text \<open>
  C4, as the claim states it, fails: with no acknowledgement processed the update is gone
  as soon as the framework is removed. After the update of \<open>T1\<close> is accepted and sent,
  \<open>KillFramework\<close> removes framework \<open>F1\<close> with its \<open>updates\<close>, and the timeout that fires
  afterwards sends nothing.
\<close>

theorem update_lost_without_acknowledgement_counterexample:
  "handle ex_place (StatusUpdateFromExecutor (ex_update ''T1'' TASK_RUNNING))
     (ex_state [ex_runTask ''T1'' 1, RegisterExecutor ''X'' ''F1'' ''E1''])
   = Inr (ex_state [ex_runTask ''T1'' 1, RegisterExecutor ''X'' ''F1'' ''E1'',
                    StatusUpdateFromExecutor (ex_update ''T1'' TASK_RUNNING)],
          [Send [] (StatusUpdateMessage (ex_update ''T1'' TASK_RUNNING) True),
           Delay (ex_update ''T1'' TASK_RUNNING)])
   \<and> handle ex_place (KillFramework ''F1'')
       (ex_state [ex_runTask ''T1'' 1, RegisterExecutor ''X'' ''F1'' ''E1'',
                  StatusUpdateFromExecutor (ex_update ''T1'' TASK_RUNNING)])
     = Inr (ex_state [ex_runTask ''T1'' 1, RegisterExecutor ''X'' ''F1'' ''E1'',
                      StatusUpdateFromExecutor (ex_update ''T1'' TASK_RUNNING),
                      KillFramework ''F1''],
            [Send ''X'' ShutdownMessage, Dispatch (KillExecutor ''F1'' ''E1'')])
   \<and> getFramework
       (ex_state [ex_runTask ''T1'' 1, RegisterExecutor ''X'' ''F1'' ''E1'',
                  StatusUpdateFromExecutor (ex_update ''T1'' TASK_RUNNING),
                  KillFramework ''F1'']) ''F1'' = None
   \<and> statusUpdateTimeout (ex_update ''T1'' TASK_RUNNING)
       (ex_state [ex_runTask ''T1'' 1, RegisterExecutor ''X'' ''F1'' ''E1'',
                  StatusUpdateFromExecutor (ex_update ''T1'' TASK_RUNNING),
                  KillFramework ''F1''])
     = (ex_state [ex_runTask ''T1'' 1, RegisterExecutor ''X'' ''F1'' ''E1'',
                  StatusUpdateFromExecutor (ex_update ''T1'' TASK_RUNNING),
                  KillFramework ''F1''], [])"
  by code_simp

text \<open>
  C4, amended. Let the handler take a status update for task \<open>t\<close> of framework \<open>f\<close>
  whose framework is known and whose task is found in an executor. The update is sent to the master with the reliable flag and its timeout is
  delayed. Then, over any events none of which is a \<open>StatusUpdateAcknowledgement\<close> for
  \<open>(f, t)\<close>, as long as the framework stays in the map: \<open>f.updates\<close> holds an entry for
  \<open>t\<close> in every state passed through, and in each of them \<open>statusUpdateTimeout\<close> of the
  update sends the master one \<open>StatusUpdate\<close> message with that same update and the
  reliable flag, and changes nothing.
\<close>

theorem status_update_retry:
  fixes s :: "('r::{plus,minus,zero}) Slave"
  assumes "getFramework s (su_framework_id update) = Some f"
    and "getExecutorByTask f (ts_task_id (su_status update)) = Some ke"
    and "handle place (StatusUpdateFromExecutor update) s = Inr (s1, effs1)"
    and "\<forall>ev \<in> set evs. \<forall>slaveId.
           ev \<noteq> StatusUpdateAcknowledgement slaveId (su_framework_id update)
                  (ts_task_id (su_status update))"
    and "\<forall>s' \<in> set (trace place evs s1). getFramework s' (su_framework_id update) \<noteq> None"
  shows "Send (s_master s) (StatusUpdateMessage update True) \<in> set effs1
       \<and> Delay update \<in> set effs1
       \<and> (\<forall>s' \<in> set (trace place evs s1).
            (\<exists>f'. getFramework s' (su_framework_id update) = Some f'
                 \<and> hm_contains (f_updates f') (ts_task_id (su_status update)))
            \<and> statusUpdateTimeout update s' =
                (s', [Send (s_master s') (StatusUpdateMessage update True)]))"
proof -
  let ?fid = "su_framework_id update"
  let ?tid = "ts_task_id (su_status update)"
  obtain k e where ke: "ke = (k, e)" by (cases ke)
  have st: "statusUpdate place update s = (s1, effs1)" using assms(3) by simp
  have e1: "Send (s_master s) (StatusUpdateMessage update True) \<in> set effs1"
    and e2: "Delay update \<in> set effs1"
    using st assms(1,2) ke by (auto simp: statusUpdate_def Let_def split: if_splits)
  obtain f1 where g1: "getFramework s1 ?fid = Some f1"
    and u1: "hm_get (f_updates f1) ?tid = Some update"
    using st assms(1,2) ke getFramework_contains[OF assms(1)]
    by (auto simp: statusUpdate_def Let_def getFramework_fields getFramework_putFramework
                   hm_get_put split: if_splits)
  have c1: "hm_contains (f_updates f1) ?tid" using u1 by (simp add: hm_get_contains)
  have all: "\<forall>s' \<in> set (trace place evs s1).
           \<exists>f'. getFramework s' ?fid = Some f' \<and> hm_contains (f_updates f') ?tid"
    using trace_updates[OF assms(4) g1 c1 assms(5)] .
  have "\<forall>s' \<in> set (trace place evs s1).
            (\<exists>f'. getFramework s' ?fid = Some f' \<and> hm_contains (f_updates f') ?tid)
            \<and> statusUpdateTimeout update s' =
                (s', [Send (s_master s') (StatusUpdateMessage update True)])"
    using all by (auto simp: statusUpdateTimeout_def)
  then show ?thesis using e1 e2 by blast
qed

theorem status_update_retry_witness:
  "handle ex_place (StatusUpdateFromExecutor (ex_update ''T1'' TASK_RUNNING))
       (ex_state [ex_runTask ''T1'' 1, RegisterExecutor ''X'' ''F1'' ''E1''])
     = Inr (ex_state [ex_runTask ''T1'' 1, RegisterExecutor ''X'' ''F1'' ''E1'',
                      StatusUpdateFromExecutor (ex_update ''T1'' TASK_RUNNING)],
            [Send [] (StatusUpdateMessage (ex_update ''T1'' TASK_RUNNING) True),
             Delay (ex_update ''T1'' TASK_RUNNING)])
   \<and> ex_state [ex_runTask ''T1'' 1, RegisterExecutor ''X'' ''F1'' ''E1'',
               StatusUpdateFromExecutor (ex_update ''T1'' TASK_RUNNING),
               ex_runTask ''T2'' 2, StatusUpdateAcknowledgement ''S7'' ''F1'' ''T2'']
       \<in> set (trace ex_place [ex_runTask ''T2'' 2, StatusUpdateAcknowledgement ''S7'' ''F1'' ''T2'']
                (ex_state [ex_runTask ''T1'' 1, RegisterExecutor ''X'' ''F1'' ''E1'',
                           StatusUpdateFromExecutor (ex_update ''T1'' TASK_RUNNING)]))
   \<and> Send (s_master (ex_state [ex_runTask ''T1'' 1, RegisterExecutor ''X'' ''F1'' ''E1'']))
        (StatusUpdateMessage (ex_update ''T1'' TASK_RUNNING) True)
       \<in> set [Send [] (StatusUpdateMessage (ex_update ''T1'' TASK_RUNNING) True),
               Delay (ex_update ''T1'' TASK_RUNNING) :: int Effect]
   \<and> (\<exists>f'. getFramework
              (ex_state [ex_runTask ''T1'' 1, RegisterExecutor ''X'' ''F1'' ''E1'',
                         StatusUpdateFromExecutor (ex_update ''T1'' TASK_RUNNING),
                         ex_runTask ''T2'' 2, StatusUpdateAcknowledgement ''S7'' ''F1'' ''T2''])
              (su_framework_id (ex_update ''T1'' TASK_RUNNING)) = Some f'
         \<and> hm_contains (f_updates f') (ts_task_id (su_status (ex_update ''T1'' TASK_RUNNING))))
   \<and> statusUpdateTimeout (ex_update ''T1'' TASK_RUNNING)
        (ex_state [ex_runTask ''T1'' 1, RegisterExecutor ''X'' ''F1'' ''E1'',
                   StatusUpdateFromExecutor (ex_update ''T1'' TASK_RUNNING),
                   ex_runTask ''T2'' 2, StatusUpdateAcknowledgement ''S7'' ''F1'' ''T2''])
      = (ex_state [ex_runTask ''T1'' 1, RegisterExecutor ''X'' ''F1'' ''E1'',
                   StatusUpdateFromExecutor (ex_update ''T1'' TASK_RUNNING),
                   ex_runTask ''T2'' 2, StatusUpdateAcknowledgement ''S7'' ''F1'' ''T2''],
         [Send (s_master
                  (ex_state [ex_runTask ''T1'' 1, RegisterExecutor ''X'' ''F1'' ''E1'',
                             StatusUpdateFromExecutor (ex_update ''T1'' TASK_RUNNING),
                             ex_runTask ''T2'' 2,
                             StatusUpdateAcknowledgement ''S7'' ''F1'' ''T2'']))
            (StatusUpdateMessage (ex_update ''T1'' TASK_RUNNING) True)])"
proof -
  let ?s = "ex_state [ex_runTask ''T1'' 1, RegisterExecutor ''X'' ''F1'' ''E1'']"
  let ?u = "ex_update ''T1'' TASK_RUNNING"
  let ?s1 = "ex_state [ex_runTask ''T1'' 1, RegisterExecutor ''X'' ''F1'' ''E1'',
                       StatusUpdateFromExecutor ?u]"
  let ?effs1 = "[Send [] (StatusUpdateMessage ?u True), Delay ?u] :: int Effect list"
  let ?evs = "[ex_runTask ''T2'' 2, StatusUpdateAcknowledgement ''S7'' ''F1'' ''T2'']"
  let ?s2 = "ex_state [ex_runTask ''T1'' 1, RegisterExecutor ''X'' ''F1'' ''E1'',
                       StatusUpdateFromExecutor ?u,
                       ex_runTask ''T2'' 2, StatusUpdateAcknowledgement ''S7'' ''F1'' ''T2'']"
  have a: "case getFramework ?s (su_framework_id ?u) of None \<Rightarrow> False
           | Some f \<Rightarrow> getExecutorByTask f (ts_task_id (su_status ?u)) \<noteq> None"
    by code_simp
  then obtain f ke where gf: "getFramework ?s (su_framework_id ?u) = Some f"
    and ge: "getExecutorByTask f (ts_task_id (su_status ?u)) = Some ke"
    by (auto split: option.splits)
  have h: "handle ex_place (StatusUpdateFromExecutor ?u) ?s = Inr (?s1, ?effs1)"
    by code_simp
  have na: "\<forall>ev \<in> set ?evs. \<forall>slaveId.
              ev \<noteq> StatusUpdateAcknowledgement slaveId (su_framework_id ?u)
                     (ts_task_id (su_status ?u))"
    by (simp add: ex_runTask_def ex_update_def)
  have kept: "\<forall>s' \<in> set (trace ex_place ?evs ?s1). getFramework s' (su_framework_id ?u) \<noteq> None"
    by code_simp
  have m: "?s2 \<in> set (trace ex_place ?evs ?s1)" by code_simp
  note t = status_update_retry[OF gf ge h na kept]
  have w1: "Send (s_master ?s) (StatusUpdateMessage ?u True) \<in> set ?effs1"
    by (rule t[THEN conjunct1])
  have w2: "(\<exists>f'. getFramework ?s2 (su_framework_id ?u) = Some f'
                 \<and> hm_contains (f_updates f') (ts_task_id (su_status ?u)))
            \<and> statusUpdateTimeout ?u ?s2 =
                (?s2, [Send (s_master ?s2) (StatusUpdateMessage ?u True)])"
    using bspec[OF t[THEN conjunct2, THEN conjunct2] m] .
  show ?thesis by (rule conjI[OF h conjI[OF m conjI[OF w1 w2]]])
qed

section \<open>Queued tasks and the registration of their executor\<close>

lemma sent_to_append: "sent_to pid (xs @ ys) = sent_to pid xs @ sent_to pid ys"
  by (induction pid xs rule: sent_to.induct) auto

lemma sent_to_map_Send: "sent_to pid (map (\<lambda>t. Send pid (m t)) ts) = map m ts"
  by (induction ts) auto

lemma run_append:
  "run place (evs1 @ evs2) s =
     (case run place evs1 s of
        Inl err \<Rightarrow> Inl err
      | Inr (s1, effs1) \<Rightarrow>
          (case run place evs2 s1 of
             Inl err \<Rightarrow> Inl err
           | Inr (s2, effs2) \<Rightarrow> Inr (s2, effs1 @ effs2)))"
  by (induction evs1 arbitrary: s) (auto split: sum.splits)

lemma runTask_queue:
  fixes s :: "('r::{plus,minus,zero}) Slave"
  assumes pend: "getFramework s frameworkId = None
           \<or> (\<exists>f. getFramework s frameworkId = Some f \<and> f_info f = info
                 \<and> (getExecutor f executorId = None
                    \<or> (\<exists>e. getExecutor f executorId = Some e \<and> e_pid e = [])))"
    and tgt: "task_executor info task = executorId"
  shows "\<exists>s' effs f' e'.
           runTask place directory info frameworkId pid task s = Inr (s', effs)
           \<and> sent_to dest effs = []
           \<and> getFramework s' frameworkId = Some f' \<and> f_info f' = info
           \<and> getExecutor f' executorId = Some e' \<and> e_pid e' = []
           \<and> queuedTasks e' =
               hm_put place (td_task_id task) task (queue_of s frameworkId executorId)"
proof (cases "getFramework s frameworkId")
  case None
  define f0 :: "'r Framework" where "f0 = newFramework frameworkId info pid"
  define ei where "ei = (case td_executor task of Some ei \<Rightarrow> ei | None \<Rightarrow> fi_executor info)"
  define e0 :: "'r Executor" where "e0 = newExecutor frameworkId ei directory"
  define e1 where "e1 = e0\<lparr> queuedTasks := hm_put place (td_task_id task) task (queuedTasks e0) \<rparr>"
  define F where "F = putExecutor (ei_executor_id ei) e1
              (f0\<lparr> f_executors := hm_put place (ei_executor_id ei) e0 (f_executors f0) \<rparr>)"
  define s' where "s' = putFramework frameworkId F
               (s\<lparr> s_frameworks := hm_put place frameworkId f0 (s_frameworks s) \<rparr>)"
  define effs :: "'r Effect list" where
    "effs = [Dispatch (LaunchExecutor frameworkId info ei directory)]"
  have eid: "ei_executor_id ei = executorId" using tgt by (simp add: task_executor_def ei_def)
  have r: "runTask place directory info frameworkId pid task s = Inr (s', effs)"
    using None unfolding s'_def F_def e1_def e0_def f0_def ei_def effs_def
    by (auto simp: runTask_def Let_def newFramework_def getExecutor_def hm_get_empty
                   createExecutor_def hm_contains_def newExecutor_def split: option.splits)
  have se: "sent_to dest effs = []" by (simp add: effs_def)
  have g1: "getFramework s' frameworkId = Some F"
    by (simp add: s'_def getFramework_putFramework hm_get_contains hm_get_put)
  have g2: "getExecutor F executorId = Some e1"
    using eid by (simp add: F_def getExecutor_putExecutor hm_get_contains hm_get_put)
  have q: "queue_of s frameworkId executorId = []" using None by (simp add: queue_of_def)
  have fi: "f_info F = info" by (simp add: F_def putExecutor_def f0_def newFramework_def)
  have pe: "e_pid e1 = []" by (simp add: e1_def e0_def newExecutor_def)
  have qe: "queuedTasks e1 =
              hm_put place (td_task_id task) task (queue_of s frameworkId executorId)"
    by (simp add: q e1_def e0_def newExecutor_def)
  show ?thesis using r se g1 fi g2 pe qe by blast
next
  case (Some f)
  note gf = this
  then have fif: "f_info f = info" using pend by auto
  define ei where
    "ei = (case td_executor task of Some ei \<Rightarrow> ei | None \<Rightarrow> fi_executor (f_info f))"
  have eid: "ei_executor_id ei = executorId"
    using tgt fif by (simp add: task_executor_def ei_def split: option.splits)
  show ?thesis
  proof (cases "getExecutor f executorId")
    case None
    define e0 :: "'r Executor" where "e0 = newExecutor (f_id f) ei directory"
    define e1 where
      "e1 = e0\<lparr> queuedTasks := hm_put place (td_task_id task) task (queuedTasks e0) \<rparr>"
    define F where "F = putExecutor executorId e1
                (f\<lparr> f_executors := hm_put place executorId e0 (f_executors f) \<rparr>)"
    define s' where "s' = putFramework frameworkId F s"
    define effs :: "'r Effect list" where
      "effs = [Dispatch (LaunchExecutor (f_id f) (f_info f) ei directory)]"
    have nc: "\<not> hm_contains (f_executors f) executorId"
      using None by (simp add: getExecutor_def hm_get_contains)
    have r: "runTask place directory info frameworkId pid task s = Inr (s', effs)"
      using gf None nc eid unfolding s'_def F_def e1_def e0_def ei_def effs_def
      by (auto simp: runTask_def Let_def createExecutor_def newExecutor_def
               split: option.splits)
    have se: "sent_to dest effs = []" by (simp add: effs_def)
    have g1: "getFramework s' frameworkId = Some F"
      using getFramework_contains[OF gf] by (simp add: s'_def getFramework_putFramework)
    have g2: "getExecutor F executorId = Some e1"
      by (simp add: F_def getExecutor_putExecutor hm_get_contains hm_get_put)
    have q: "queue_of s frameworkId executorId = []" using gf None by (simp add: queue_of_def)
    have fi: "f_info F = info" using fif by (simp add: F_def putExecutor_def)
    have pe: "e_pid e1 = []" by (simp add: e1_def e0_def newExecutor_def)
    have qe: "queuedTasks e1 =
                hm_put place (td_task_id task) task (queue_of s frameworkId executorId)"
      by (simp add: q e1_def e0_def newExecutor_def)
    show ?thesis using r se g1 fi g2 pe qe by blast
  next
    case (Some e)
    then have pid: "e_pid e = []" using pend gf by auto
    define e1 where
      "e1 = e\<lparr> queuedTasks := hm_put place (td_task_id task) task (queuedTasks e) \<rparr>"
    define F where "F = putExecutor executorId e1 f"
    define s' where "s' = putFramework frameworkId F s"
    have r: "runTask place directory info frameworkId pid task s = Inr (s', [])"
      using gf Some pid eid unfolding s'_def F_def e1_def ei_def
      by (auto simp: runTask_def Let_def split: option.splits)
    have se: "sent_to dest ([] :: 'r Effect list) = []" by simp
    have g1: "getFramework s' frameworkId = Some F"
      using getFramework_contains[OF gf] by (simp add: s'_def getFramework_putFramework)
    have g2: "getExecutor F executorId = Some e1"
      using getExecutor_contains[OF Some] by (simp add: F_def getExecutor_putExecutor)
    have q: "queue_of s frameworkId executorId = queuedTasks e"
      using gf Some by (simp add: queue_of_def)
    have fi: "f_info F = info" using fif by (simp add: F_def putExecutor_def)
    have pe: "e_pid e1 = []" using pid by (simp add: e1_def)
    have qe: "queuedTasks e1 =
                hm_put place (td_task_id task) task (queue_of s frameworkId executorId)"
      by (simp add: q e1_def)
    show ?thesis using r se g1 fi g2 pe qe by blast
  qed
qed

lemma queue_fold_mset:
  assumes "distinct (map (\<lambda>m. td_task_id (snd (snd m))) msgs)"
    and "set (map (\<lambda>m. td_task_id (snd (snd m))) msgs) \<inter> set (hm_keys q) = {}"
  shows "mset (hm_values (foldl (\<lambda>q m. hm_put place (td_task_id (snd (snd m))) (snd (snd m)) q)
                            q msgs))
           = mset (hm_values q) + mset (map (\<lambda>m. snd (snd m)) msgs)
       \<and> mset (hm_keys (foldl (\<lambda>q m. hm_put place (td_task_id (snd (snd m))) (snd (snd m)) q)
                            q msgs))
           = mset (hm_keys q) + mset (map (\<lambda>m. td_task_id (snd (snd m))) msgs)"
  using assms
proof (induction msgs arbitrary: q)
  case Nil
  then show ?case by simp
next
  case (Cons m msgs)
  let ?q1 = "hm_put place (td_task_id (snd (snd m))) (snd (snd m)) q"
  have nc: "\<not> hm_contains q (td_task_id (snd (snd m)))"
    using Cons.prems(2) by (auto simp: hm_contains_keys)
  have k1: "mset (hm_keys ?q1) = add_mset (td_task_id (snd (snd m))) (mset (hm_keys q))"
    using nc by (rule hm_keys_put_new)
  have v1: "mset (hm_values ?q1) = add_mset (snd (snd m)) (mset (hm_values q))"
    using nc by (rule hm_values_put_new)
  have "set (hm_keys ?q1) = insert (td_task_id (snd (snd m))) (set (hm_keys q))"
    using k1 by (metis set_mset_add_mset_insert set_mset_mset)
  then have p2: "set (map (\<lambda>m. td_task_id (snd (snd m))) msgs) \<inter> set (hm_keys ?q1) = {}"
    using Cons.prems by auto
  have p1: "distinct (map (\<lambda>m. td_task_id (snd (snd m))) msgs)" using Cons.prems(1) by simp
  show ?case using Cons.IH[OF p1 p2] k1 v1 by simp
qed

lemma runTasks_queue:
  fixes s :: "('r::{plus,minus,zero}) Slave"
  assumes "getFramework s frameworkId = Some f" and "f_info f = info"
    and "getExecutor f executorId = Some e" and "e_pid e = []"
    and "\<forall>m \<in> set msgs. task_executor info (snd (snd m)) = executorId"
  shows "\<exists>s' effs f' e'.
           run place (map (\<lambda>m. RunTask (fst m) info frameworkId (fst (snd m)) (snd (snd m))) msgs) s
             = Inr (s', effs)
           \<and> sent_to dest effs = []
           \<and> getFramework s' frameworkId = Some f' \<and> f_info f' = info
           \<and> getExecutor f' executorId = Some e' \<and> e_pid e' = []
           \<and> queuedTasks e' =
               foldl (\<lambda>q m. hm_put place (td_task_id (snd (snd m))) (snd (snd m)) q)
                 (queuedTasks e) msgs"
  using assms
proof (induction msgs arbitrary: s f e)
  case Nil
  then show ?case by simp
next
  case (Cons m msgs)
  have pend: "getFramework s frameworkId = None
           \<or> (\<exists>f. getFramework s frameworkId = Some f \<and> f_info f = info
                 \<and> (getExecutor f executorId = None
                    \<or> (\<exists>e. getExecutor f executorId = Some e \<and> e_pid e = [])))"
    using Cons.prems(1-4) by blast
  have tgt: "task_executor info (snd (snd m)) = executorId" using Cons.prems(5) by simp
  have q: "queue_of s frameworkId executorId = queuedTasks e"
    using Cons.prems(1,3) by (simp add: queue_of_def)
  obtain s1 effs1 f1 e1 where
    r1: "runTask place (fst m) info frameworkId (fst (snd m)) (snd (snd m)) s = Inr (s1, effs1)"
    and se1: "sent_to dest effs1 = []"
    and g1: "getFramework s1 frameworkId = Some f1" and fi1: "f_info f1 = info"
    and ge1: "getExecutor f1 executorId = Some e1" and pe1: "e_pid e1 = []"
    and q1: "queuedTasks e1 = hm_put place (td_task_id (snd (snd m))) (snd (snd m)) (queuedTasks e)"
    using runTask_queue[OF pend tgt, of place "fst m" "fst (snd m)" dest] q by auto
  have t2: "\<forall>m \<in> set msgs. task_executor info (snd (snd m)) = executorId"
    using Cons.prems(5) by simp
  obtain s2 effs2 f2 e2 where
    r2: "run place (map (\<lambda>m. RunTask (fst m) info frameworkId (fst (snd m)) (snd (snd m))) msgs)
           s1 = Inr (s2, effs2)"
    and se2: "sent_to dest effs2 = []"
    and g2: "getFramework s2 frameworkId = Some f2" and fi2: "f_info f2 = info"
    and ge2: "getExecutor f2 executorId = Some e2" and pe2: "e_pid e2 = []"
    and q2: "queuedTasks e2 =
               foldl (\<lambda>q m. hm_put place (td_task_id (snd (snd m))) (snd (snd m)) q)
                 (queuedTasks e1) msgs"
    using Cons.IH[OF g1 fi1 ge1 pe1 t2] by blast
  have r: "run place (map (\<lambda>m. RunTask (fst m) info frameworkId (fst (snd m)) (snd (snd m)))
             (m # msgs)) s = Inr (s2, effs1 @ effs2)"
    using r1 r2 by simp
  have se: "sent_to dest (effs1 @ effs2) = []" using se1 se2 by (simp add: sent_to_append)
  have qq: "queuedTasks e2 =
               foldl (\<lambda>q m. hm_put place (td_task_id (snd (snd m))) (snd (snd m)) q)
                 (queuedTasks e) (m # msgs)"
    using q2 q1 by simp
  show ?case using r se g2 fi2 ge2 pe2 qq by blast
qed

text \<open>
  C1, as the claim states it, fails: the queued tasks are kept in a hashmap and sent in
  its iteration order, which is not the order of arrival. With a hashmap whose new
  entries come first, \<open>T1\<close> arrives before \<open>T2\<close> and the executor is sent
  \<open>RunTask(T2)\<close> before \<open>RunTask(T1)\<close>. And of two tasks that arrive with the same id
  the second takes the place of the first in the queue: one \<open>RunTask\<close> is sent for them.
\<close>

theorem drain_order_counterexample:
  "\<not> isl (run ex_place
            [ex_runTask ''T1'' 1, ex_runTask ''T2'' 2, RegisterExecutor ''X'' ''F1'' ''E1'']
            ex_initial)
   \<and> sent_to ''X''
        (snd (projr (run ex_place
            [ex_runTask ''T1'' 1, ex_runTask ''T2'' 2, RegisterExecutor ''X'' ''F1'' ''E1'']
            ex_initial)))
      = [ExecutorRegisteredMessage
           \<lparr> ea_framework_id = ''F1'', ea_executor_id = ''E1'', ea_slave_id = [],
             ea_hostname = ''host'', ea_data = ''blob'' \<rparr>,
         RunTaskMessage ex_framework ''F1'' ''sched'' (ex_task ''T2'' 2),
         RunTaskMessage ex_framework ''F1'' ''sched'' (ex_task ''T1'' 1)]
   \<and> \<not> isl (run ex_place
            [ex_runTask ''T1'' 1, ex_runTask ''T1'' 5, RegisterExecutor ''X'' ''F1'' ''E1'']
            ex_initial)
   \<and> sent_to ''X''
        (snd (projr (run ex_place
            [ex_runTask ''T1'' 1, ex_runTask ''T1'' 5, RegisterExecutor ''X'' ''F1'' ''E1'']
            ex_initial)))
      = [ExecutorRegisteredMessage
           \<lparr> ea_framework_id = ''F1'', ea_executor_id = ''E1'', ea_slave_id = [],
             ea_hostname = ''host'', ea_data = ''blob'' \<rparr>,
         RunTaskMessage ex_framework ''F1'' ''sched'' (ex_task ''T1'' 5)]"
  by code_simp

text \<open>
  C1, amended. In a state the slave can be in, let executor \<open>E\<close> of framework \<open>F\<close> have no
  registered endpoint (the framework is unknown, or it has no executor \<open>E\<close>, or the pid of
  \<open>E\<close> is empty), and let \<open>RunTask\<close> messages for \<open>F\<close> arrive whose tasks resolve to \<open>E\<close>
  and have pairwise distinct ids, none of them queued already, followed by
  \<open>RegisterExecutor\<close> for \<open>E\<close>. All handlers return; the sender of the registration is
  sent exactly one \<open>ExecutorRegistered\<close> followed by one \<open>RunTask\<close> for each queued task,
  the tasks being a permutation of those queued before and those that arrived (the
  iteration order of the hashmap); afterwards \<open>queuedTasks\<close> of \<open>E\<close> is empty, its pid is
  the sender, and the ids of its \<open>launchedTasks\<close> are exactly those of the queued tasks.
\<close>

theorem queue_then_drain:
  fixes s :: "('r::{plus,minus,zero}) Slave"
  assumes "reachable place s"
    and "getFramework s frameworkId = None
           \<or> (\<exists>f. getFramework s frameworkId = Some f \<and> f_info f = info
                 \<and> (getExecutor f executorId = None
                    \<or> (\<exists>e. getExecutor f executorId = Some e \<and> e_pid e = [])))"
    and "msgs \<noteq> []"
    and "\<forall>m \<in> set msgs. task_executor info (snd (snd m)) = executorId"
    and "distinct (map (\<lambda>m. td_task_id (snd (snd m))) msgs)"
    and "set (map (\<lambda>m. td_task_id (snd (snd m))) msgs)
           \<inter> set (hm_keys (queue_of s frameworkId executorId)) = {}"
  shows "\<exists>s' effs args p qs f' e'.
           run place
             (map (\<lambda>m. RunTask (fst m) info frameworkId (fst (snd m)) (snd (snd m))) msgs
              @ [RegisterExecutor from frameworkId executorId]) s = Inr (s', effs)
           \<and> sent_to from effs =
               ExecutorRegisteredMessage args # map (RunTaskMessage info frameworkId p) qs
           \<and> ea_framework_id args = frameworkId \<and> ea_executor_id args = executorId
           \<and> mset qs = mset (hm_values (queue_of s frameworkId executorId))
                         + mset (map (\<lambda>m. snd (snd m)) msgs)
           \<and> getFramework s' frameworkId = Some f'
           \<and> getExecutor f' executorId = Some e'
           \<and> e_pid e' = from
           \<and> queuedTasks e' = []
           \<and> mset (hm_keys (launchedTasks e'))
               = mset (hm_keys (queue_of s frameworkId executorId))
                 + mset (map (\<lambda>m. td_task_id (snd (snd m))) msgs)"
proof -
  let ?R = "\<lambda>m. RunTask (fst m) info frameworkId (fst (snd m)) (snd (snd m)) :: 'r Event"
  let ?put = "\<lambda>q m. hm_put place (td_task_id (snd (snd m))) (snd (snd m)) q"
  let ?q0 = "queue_of s frameworkId executorId"
  obtain m rest where msgs: "msgs = m # rest" using assms(3) by (cases msgs) auto
  have tgt: "task_executor info (snd (snd m)) = executorId" using assms(4) msgs by simp
  obtain s1 effs1 f1 e1 where
    r1: "runTask place (fst m) info frameworkId (fst (snd m)) (snd (snd m)) s = Inr (s1, effs1)"
    and se1: "sent_to from effs1 = []"
    and g1: "getFramework s1 frameworkId = Some f1" and fi1: "f_info f1 = info"
    and ge1: "getExecutor f1 executorId = Some e1" and pe1: "e_pid e1 = []"
    and q1: "queuedTasks e1 = ?put ?q0 m"
    using runTask_queue[OF assms(2) tgt, of place "fst m" "fst (snd m)" "from"] by auto
  have t2: "\<forall>m \<in> set rest. task_executor info (snd (snd m)) = executorId"
    using assms(4) msgs by simp
  obtain s2 effs2 f2 e2 where
    r2: "run place (map ?R rest) s1 = Inr (s2, effs2)"
    and se2: "sent_to from effs2 = []"
    and g2: "getFramework s2 frameworkId = Some f2" and fi2: "f_info f2 = info"
    and ge2: "getExecutor f2 executorId = Some e2" and pe2: "e_pid e2 = []"
    and q2: "queuedTasks e2 = foldl ?put (queuedTasks e1) rest"
    using runTasks_queue[OF g1 fi1 ge1 pe1 t2, of place "from"] by blast
  have rr: "run place (map ?R msgs) s = Inr (s2, effs1 @ effs2)"
    using r1 r2 msgs by simp
  have qq: "queuedTasks e2 = foldl ?put ?q0 msgs" using q1 q2 msgs by simp
  have wf: "list_all wf_event (map ?R msgs)" by (simp add: list_all_iff)
  have ok2: "slave_wf s2" using reachable_run[OF assms(1) wf rr] by (rule reachable_wf)
  obtain e' where
    r3: "registerExecutor place from frameworkId executorId s2 =
            Inr ((putFramework frameworkId (putExecutor executorId e' f2) s2)
                   \<lparr> stats_tasks :=
                       (bump_tasks TASK_STARTING ^^ length (queuedTasks e2)) (stats_tasks s2) \<rparr>,
                 Dispatch (ResourcesChanged frameworkId executorId (e_resources e2))
                 # Send from (ExecutorRegisteredMessage
                     \<lparr> ea_framework_id = frameworkId, ea_executor_id = executorId,
                       ea_slave_id = s_id s2, ea_hostname = si_hostname (s_info s2),
                       ea_data = ei_data (e_info e2) \<rparr>)
                 # map (\<lambda>t. Send from (RunTaskMessage (f_info f2) frameworkId (f_pid f2) t))
                     (hm_values (queuedTasks e2)))"
    and eq: "e' = e2\<lparr> e_pid := from, queuedTasks := [], launchedTasks := launchedTasks e',
                     e_resources := e_resources e' \<rparr>"
    and ks: "mset (hm_keys (launchedTasks e')) = mset (hm_keys (queuedTasks e2))"
    using registerExecutor_success_wf[OF ok2 g2 ge2 pe2, of place "from"] by blast
  define s3 where "s3 = (putFramework frameworkId (putExecutor executorId e' f2) s2)
                   \<lparr> stats_tasks :=
                       (bump_tasks TASK_STARTING ^^ length (queuedTasks e2)) (stats_tasks s2) \<rparr>"
  define args where "args = \<lparr> ea_framework_id = frameworkId, ea_executor_id = executorId,
                       ea_slave_id = s_id s2, ea_hostname = si_hostname (s_info s2),
                       ea_data = ei_data (e_info e2) \<rparr>"
  define effs3 where "effs3 =
                 Dispatch (ResourcesChanged frameworkId executorId (e_resources e2))
                 # Send from (ExecutorRegisteredMessage args)
                 # map (\<lambda>t. Send from (RunTaskMessage info frameworkId (f_pid f2) t))
                     (hm_values (queuedTasks e2))"
  have r3': "registerExecutor place from frameworkId executorId s2 = Inr (s3, effs3)"
    using r3 fi2 by (simp add: s3_def effs3_def args_def)
  have c1: "run place (map ?R msgs @ [RegisterExecutor from frameworkId executorId]) s
              = Inr (s3, (effs1 @ effs2) @ effs3)"
    using rr r3' by (simp add: run_append)
  have c2: "sent_to from ((effs1 @ effs2) @ effs3) =
              ExecutorRegisteredMessage args
              # map (RunTaskMessage info frameworkId (f_pid f2)) (hm_values (queuedTasks e2))"
    using se1 se2 by (simp add: sent_to_append effs3_def sent_to_map_Send)
  have c3: "ea_framework_id args = frameworkId" "ea_executor_id args = executorId"
    by (simp_all add: args_def)
  note fm = queue_fold_mset[OF assms(5,6), of place]
  have c4: "mset (hm_values (queuedTasks e2)) = mset (hm_values ?q0)
                         + mset (map (\<lambda>m. snd (snd m)) msgs)"
    using fm qq by simp
  have c5: "getFramework s3 frameworkId = Some (putExecutor executorId e' f2)"
    using getFramework_contains[OF g2]
    by (simp add: s3_def getFramework_fields getFramework_putFramework)
  have c6: "getExecutor (putExecutor executorId e' f2) executorId = Some e'"
    using getExecutor_contains[OF ge2] by (simp add: getExecutor_putExecutor)
  have c7: "e_pid e' = from" "queuedTasks e' = []" by (subst eq, simp)+
  have c8: "mset (hm_keys (launchedTasks e'))
               = mset (hm_keys ?q0) + mset (map (\<lambda>m. td_task_id (snd (snd m))) msgs)"
    using ks fm qq by simp
  show ?thesis using c1 c2 c3 c4 c5 c6 c7 c8 by blast
qed

theorem queue_then_drain_witness:
  "reachable ex_place ex_initial
   \<and> getFramework ex_initial ''F1'' = None
   \<and> (\<exists>s' effs args p qs f' e'.
         run ex_place
           ([ex_runTask ''T1'' 1, ex_runTask ''T2'' 2] @ [RegisterExecutor ''X'' ''F1'' ''E1''])
           ex_initial = Inr (s', effs)
         \<and> sent_to ''X'' effs =
             ExecutorRegisteredMessage args # map (RunTaskMessage ex_framework ''F1'' p) qs
         \<and> ea_framework_id args = ''F1'' \<and> ea_executor_id args = ''E1''
         \<and> mset qs = mset (hm_values (queue_of ex_initial ''F1'' ''E1''))
                       + mset [ex_task ''T1'' 1, ex_task ''T2'' 2]
         \<and> getFramework s' ''F1'' = Some f'
         \<and> getExecutor f' ''E1'' = Some e'
         \<and> e_pid e' = ''X''
         \<and> queuedTasks e' = []
         \<and> mset (hm_keys (launchedTasks e'))
             = mset (hm_keys (queue_of ex_initial ''F1'' ''E1'')) + mset [''T1'', ''T2''])"
proof -
  let ?msgs = "[(''dir'', ''sched'', ex_task ''T1'' 1), (''dir'', ''sched'', ex_task ''T2'' 2)]"
  have r: "reachable ex_place ex_initial"
    unfolding ex_initial_def by (rule reachable_initial)
  have n: "getFramework ex_initial ''F1'' = None" by code_simp
  then have pend: "getFramework ex_initial ''F1'' = None
           \<or> (\<exists>f. getFramework ex_initial ''F1'' = Some f \<and> f_info f = ex_framework
                 \<and> (getExecutor f ''E1'' = None
                    \<or> (\<exists>e. getExecutor f ''E1'' = Some e \<and> e_pid e = [])))"
    by (rule disjI1)
  have ne: "?msgs \<noteq> []" by simp
  have tgt: "\<forall>m \<in> set ?msgs. task_executor ex_framework (snd (snd m)) = ''E1''"
    by (simp add: task_executor_def ex_task_def ex_framework_def ex_executor_def)
  have d: "distinct (map (\<lambda>m. td_task_id (snd (snd m))) ?msgs)"
    by (simp add: ex_task_def)
  have fr: "set (map (\<lambda>m. td_task_id (snd (snd m))) ?msgs)
              \<inter> set (hm_keys (queue_of ex_initial ''F1'' ''E1'')) = {}"
    using n by (simp add: queue_of_def hm_keys_def)
  have td: "td_task_id (ex_task ''T1'' 1) = ''T1''" "td_task_id (ex_task ''T2'' 2) = ''T2''"
    by (simp_all add: ex_task_def)
  show ?thesis
    using queue_then_drain[OF r pend ne tgt d fr, of "''X''"] r n
    by (simp add: ex_runTask_def td)
qed

end
